(* ===== verification/Prelude.thy ===== *)
theory Prelude
  imports Complex_Main "HOL-Library.Char_ord" "HOL-Library.List_Lexorder" "HOL-Library.Multiset"
begin

text \<open>
  Shared vocabulary of the development: the collections of simplification rules the
  component theories fill, the names of the model's basic types, and generic lemmas on
  lists that the proofs of several components use (rows kept in a table are lists of
  records, updated by a key field).
\<close>

named_theorems row_simps \<open>equations of the SQL row operations\<close>
named_theorems api_simps \<open>unfolding rules of the HTTP handlers\<close>

type_synonym ms = int  \<comment> \<open>a JavaScript time value: milliseconds since 1970-01-01T00:00Z\<close>
type_synonym day = int  \<comment> \<open>a calendar day, counted from 1970-01-01\<close>

subsection \<open>Lists updated or filtered by a key\<close>

definition map_where :: "('a \<Rightarrow> bool) \<Rightarrow> ('a \<Rightarrow> 'a) \<Rightarrow> 'a list \<Rightarrow> 'a list" where
  "map_where P f xs = map (\<lambda>x. if P x then f x else x) xs"

lemma map_where_Nil [simp]: "map_where P f [] = []"
  by (simp add: map_where_def)

lemma map_where_Cons [simp]:
  "map_where P f (x # xs) = (if P x then f x else x) # map_where P f xs"
  by (simp add: map_where_def)

lemma map_where_append [simp]:
  "map_where P f (xs @ ys) = map_where P f xs @ map_where P f ys"
  by (simp add: map_where_def)

lemma length_map_where [simp]: "length (map_where P f xs) = length xs"
  by (simp add: map_where_def)

lemma map_map_where_keep:
  assumes "\<And>x. g (f x) = g x"
  shows "map g (map_where P f xs) = map g xs"
  using assms by (induction xs) auto

lemma map_where_no_match:
  assumes "\<forall>x\<in>set xs. \<not> P x"
  shows "map_where P f xs = xs"
  using assms by (induction xs) auto

lemma map_map_where_commute:
  assumes "\<And>x. x \<in> set xs \<Longrightarrow> Q (f x) = P x"
    and "\<And>x. x \<in> set xs \<Longrightarrow> P x \<Longrightarrow> f (g x) = h (f x)"
  shows "map f (map_where P g xs) = map_where Q h (map f xs)"
  using assms by (induction xs) auto

lemma distinct_map_eq_key:
  "distinct (map g xs) \<Longrightarrow> x \<in> set xs \<Longrightarrow> y \<in> set xs \<Longrightarrow> g x = g y \<Longrightarrow> x = y"
  by (auto simp: distinct_map inj_on_def)

lemma map_where_in: "x \<in> set xs \<Longrightarrow> P x \<Longrightarrow> f x \<in> set (map_where P f xs)"
  by (induction xs) auto

lemma map_where_id: "(\<And>x. x \<in> set xs \<Longrightarrow> P x \<Longrightarrow> f x = x) \<Longrightarrow> map_where P f xs = xs"
  by (induction xs) auto

lemma set_map_where_subset:
  "set (map_where P f xs) \<subseteq> set xs \<union> f ` set xs"
  by (induction xs) auto

lemma distinct_map_filter_keys:
  "distinct (map g xs) \<Longrightarrow> distinct (map g (filter P xs))"
  by (induction xs) auto

lemma filter_notin_keys:
  "g x \<notin> g ` set xs \<Longrightarrow> x \<notin> set xs"
  by auto

lemma those_length: "those xs = Some ys \<Longrightarrow> length ys = length xs"
  by (induction xs arbitrary: ys) (auto split: option.splits)

lemma those_map_None: "those (map f xs) = None \<longleftrightarrow> (\<exists>x \<in> set xs. f x = None)"
  by (induction xs) (auto split: option.splits)

end
