(* ===== verification/Values.thy ===== *)
theory Values
  imports Prelude
begin

text \<open>
  The values that cross the HTTP boundary and the SQLite boundary of
  \<^verbatim>\<open>src/api.js\<close>: JSON scalars as JavaScript sees them after
  \<^verbatim>\<open>express.json()\<close>, their truthiness (the \<^verbatim>\<open>!x\<close> guards of the handlers),
  the values SQLite stores after \<^verbatim>\<open>node-sqlite3\<close> has bound a JavaScript value,
  and the two regular expressions of \<^verbatim>\<open>POST /api/cadastro\<close>.
\<close>

subsection \<open>JavaScript and SQL values\<close>

text \<open>
  A scalar of a request body or of a decoded JSON response. Numbers are kept exact
  (\<open>rat\<close>); \<open>NaN\<close> and the two infinities are values of their own because
  \<^verbatim>\<open>parseFloat\<close> produces them in \<^verbatim>\<open>gerenciar.tsx\<close>. Arrays and objects in a request body are not modelled: the
  app's screens only send strings and numbers.
\<close>

datatype jsval = JUndef | JNull | JBool bool | JNum rat | JNaN | JInf bool | JStr string

text \<open>\<^verbatim>\<open>!v\<close> is true exactly for the falsy values.\<close>

fun truthy :: "jsval \<Rightarrow> bool" where
  "truthy JUndef = False"
| "truthy JNull = False"
| "truthy (JBool b) = b"
| "truthy (JNum n) = (n \<noteq> 0)"
| "truthy JNaN = False"
| "truthy (JInf neg) = True"
| "truthy (JStr s) = (s \<noteq> [])"

text \<open>
  A value stored in a SQLite column. \<^verbatim>\<open>node-sqlite3\<close> binds \<^verbatim>\<open>undefined\<close> and
  \<^verbatim>\<open>null\<close> as NULL, booleans as the integers 1 and 0, numbers as numbers and
  strings as text; SQLite stores a NaN double as NULL and keeps an infinite one.
\<close>

datatype sqlval = SNull | SNum rat | SInf bool | SText string

fun sql_bind :: "jsval \<Rightarrow> sqlval" where
  "sql_bind JUndef = SNull"
| "sql_bind JNull = SNull"
| "sql_bind (JBool b) = SNum (if b then 1 else 0)"
| "sql_bind (JNum n) = SNum n"
| "sql_bind JNaN = SNull"
| "sql_bind (JInf neg) = SInf neg"
| "sql_bind (JStr s) = SText s"

text \<open>
  A stored value as the client reads it back from a JSON response: \<^verbatim>\<open>res.json\<close>
  writes an infinite number as \<^verbatim>\<open>null\<close>.
\<close>

fun sql_to_js :: "sqlval \<Rightarrow> jsval" where
  "sql_to_js SNull = JNull"
| "sql_to_js (SNum n) = JNum n"
| "sql_to_js (SInf neg) = JNull"
| "sql_to_js (SText s) = JStr s"

text \<open>The values that survive a round trip through the database and a JSON reply.\<close>

fun finito :: "sqlval \<Rightarrow> bool" where
  "finito (SInf neg) = False"
| "finito v = True"

lemma sql_bind_to_js [simp]: "finito v \<Longrightarrow> sql_bind (sql_to_js v) = v"
  by (cases v) simp_all

lemma truthy_sql_to_js_finito [simp]: "truthy (sql_to_js v) \<Longrightarrow> finito v"
  by (cases v) simp_all

lemma sql_to_js_JNum [simp]: "sql_to_js v = JNum x \<longleftrightarrow> v = SNum x"
  by (cases v) simp_all

lemma sql_to_js_not_JNaN [simp]: "sql_to_js v \<noteq> JNaN" "JNaN \<noteq> sql_to_js v"
  by (cases v; simp)+

lemma sql_to_js_JStr [simp]: "sql_to_js v = JStr s \<longleftrightarrow> v = SText s"
  by (cases v) simp_all

text \<open>
  SQLite's comparison of a stored value with a text parameter (\<^verbatim>\<open>data <= ?\<close> in the
  archival query): NULL never compares, a numeric value is less than any text, and
  two texts compare by their bytes (the BINARY collation), which is the lexicographic
  order of \<open>List_Lexorder\<close> on ASCII strings.
\<close>

fun sql_le_text :: "sqlval \<Rightarrow> string \<Rightarrow> bool" where
  "sql_le_text SNull t = False"
| "sql_le_text (SNum n) t = True"
| "sql_le_text (SInf neg) t = True"
| "sql_le_text (SText s) t = (s \<le> t)"

subsection \<open>The two regular expressions of the booking handler\<close>

text \<open>
  \<^verbatim>\<open>/^\d{4}-\d{2}-\d{2}$/\<close> and \<^verbatim>\<open>/^\d{2}:\d{2}:\d{2}$/\<close> are fixed-length
  patterns: each position is a digit class or one literal character, anchored at both
  ends (without the \<^verbatim>\<open>m\<close> flag, \<^verbatim>\<open>$\<close> matches only at the end of the input).
\<close>

datatype pat = Digit | Lit char

definition is_digit :: "char \<Rightarrow> bool" where
  "is_digit c \<longleftrightarrow> CHR ''0'' \<le> c \<and> c \<le> CHR ''9''"

fun pat_match :: "pat \<Rightarrow> char \<Rightarrow> bool" where
  "pat_match Digit c = is_digit c"
| "pat_match (Lit a) c = (c = a)"

fun match_pattern :: "pat list \<Rightarrow> string \<Rightarrow> bool" where
  "match_pattern [] s = (s = [])"
| "match_pattern (p # ps) [] = False"
| "match_pattern (p # ps) (c # cs) = (pat_match p c \<and> match_pattern ps cs)"

definition dataRegex :: "pat list" where
  "dataRegex = [Digit, Digit, Digit, Digit, Lit CHR ''-'', Digit, Digit, Lit CHR ''-'', Digit, Digit]"

definition horaRegex :: "pat list" where
  "horaRegex = [Digit, Digit, Lit CHR '':'', Digit, Digit, Lit CHR '':'', Digit, Digit]"

text \<open>
  \<^verbatim>\<open>re.test(v)\<close> converts \<open>v\<close> to a string first. The handler only reaches the
  test with a truthy value, and the string of a truthy non-string scalar
  (\<^verbatim>\<open>"true"\<close>, or a number such as \<^verbatim>\<open>"-1.5e-7"\<close>) has no colon and at most one
  minus sign after its first character, so it matches neither pattern.
\<close>

fun regex_test :: "pat list \<Rightarrow> jsval \<Rightarrow> bool" where
  "regex_test p (JStr s) = match_pattern p s"
| "regex_test p v = False"

lemma match_pattern_length: "match_pattern ps s \<Longrightarrow> length s = length ps"
  by (induction ps s rule: match_pattern.induct) auto

lemma match_pattern_iff:
  "match_pattern ps s \<longleftrightarrow> length s = length ps \<and> (\<forall>i < length ps. pat_match (ps ! i) (s ! i))"
proof (induction ps s rule: match_pattern.induct)
  case (3 p ps c cs)
  then show ?case by (auto simp: nth_Cons split: nat.splits)
qed auto

lemma match_pattern_Cons_iff:
  "match_pattern (p # ps) s \<longleftrightarrow> (\<exists>c cs. s = c # cs \<and> pat_match p c \<and> match_pattern ps cs)"
  by (cases s) auto

lemma regex_test_JStr: "regex_test p v \<Longrightarrow> \<exists>s. v = JStr s \<and> match_pattern p s"
  by (cases v) auto

end
