(* ===== verification/Store.thy ===== *)
theory Store
  imports Values
begin

text \<open>
  The SQLite database \<^verbatim>\<open>database.db\<close> that \<^verbatim>\<open>src/api.js\<close> opens: its four tables
  as lists of rows in rowid order, and the effect of each SQL statement the handlers
  run. The schema is not part of the repository; the tables are modelled with the
  columns the statements name, and a new row of \<^verbatim>\<open>clientes\<close> receives the rowid
  SQLite assigns to an \<^verbatim>\<open>INTEGER PRIMARY KEY\<close>: one more than the largest present.
  No uniqueness constraint on \<^verbatim>\<open>(data, hora)\<close> appears anywhere in the sources, so
  none is modelled.
\<close>

record cliente =
  cliente_id :: nat
  nome_cliente :: sqlval
  data :: sqlval
  hora :: sqlval
  servico :: sqlval
  valor_orcamento :: sqlval

record concluido =
  arq_nome_cliente :: sqlval
  arq_data :: sqlval
  arq_hora :: sqlval
  arq_servico :: sqlval
  arq_valor_orcamento :: sqlval
  concluido_em :: sqlval

record servico_row =
  nome :: sqlval
  preco :: sqlval

record db =
  clientes :: "cliente list"
  concluidos :: "concluido list"
  gestao :: "sqlval list"
  servicos :: "servico_row list"

text \<open>The \<open>err\<close> argument of a \<^verbatim>\<open>node-sqlite3\<close> callback: a failed statement has no effect.\<close>

datatype db_status = DbOk | DbError

subsection \<open>Statements on the table of active appointments\<close>

definition next_rowid :: "cliente list \<Rightarrow> nat" where
  "next_rowid xs = Suc (foldr max (map cliente_id xs) 0)"

definition insert_cliente ::
  "sqlval \<Rightarrow> sqlval \<Rightarrow> sqlval \<Rightarrow> sqlval \<Rightarrow> sqlval \<Rightarrow> cliente list \<Rightarrow> cliente list" where
  "insert_cliente n d h sv v xs =
     xs @ [\<lparr>cliente_id = next_rowid xs, nome_cliente = n, data = d, hora = h,
            servico = sv, valor_orcamento = v\<rparr>]"

definition update_cliente ::
  "nat \<Rightarrow> sqlval \<Rightarrow> sqlval \<Rightarrow> sqlval \<Rightarrow> cliente list \<Rightarrow> cliente list" where
  "update_cliente i n sv v xs =
     map_where (\<lambda>c. cliente_id c = i)
       (\<lambda>c. c\<lparr>nome_cliente := n, servico := sv, valor_orcamento := v\<rparr>) xs"

definition delete_cliente :: "nat \<Rightarrow> cliente list \<Rightarrow> cliente list" where
  "delete_cliente i xs = filter (\<lambda>c. cliente_id c \<noteq> i) xs"

definition select_data_le :: "string \<Rightarrow> cliente list \<Rightarrow> cliente list" where
  "select_data_le t xs = filter (\<lambda>c. sql_le_text (data c) t) xs"

definition registro_concluido :: "cliente \<Rightarrow> sqlval \<Rightarrow> concluido" where
  "registro_concluido c t =
     \<lparr>arq_nome_cliente = nome_cliente c, arq_data = data c, arq_hora = hora c,
      arq_servico = servico c, arq_valor_orcamento = valor_orcamento c, concluido_em = t\<rparr>"

definition insert_concluido :: "cliente \<Rightarrow> sqlval \<Rightarrow> concluido list \<Rightarrow> concluido list" where
  "insert_concluido c t hs = hs @ [registro_concluido c t]"

subsection \<open>Keys and slots\<close>

text \<open>The rowids of a table are distinct: the table's well-formedness invariant.\<close>

definition ids_distinct :: "cliente list \<Rightarrow> bool" where
  "ids_distinct xs \<longleftrightarrow> distinct (map cliente_id xs)"

text \<open>The slot an appointment occupies.\<close>

definition slot :: "cliente \<Rightarrow> sqlval \<times> sqlval" where
  "slot c = (data c, hora c)"

text \<open>The core invariant of the spec: no two active appointments share a slot.\<close>

definition no_double_booking :: "cliente list \<Rightarrow> bool" where
  "no_double_booking xs \<longleftrightarrow> distinct (map slot xs)"

subsection \<open>Well-formed rows\<close>

text \<open>
  A stored value is text that matches a pattern: the shape in which the booking
  handler admits dates and times.
\<close>

fun texto_casa :: "pat list \<Rightarrow> sqlval \<Rightarrow> bool" where
  "texto_casa p (SText s) = match_pattern p s"
| "texto_casa p v = False"

text \<open>
  The typing of the two tables that the handlers rely on: the date and the time of every
  row, active or archived, are texts in the form \<^verbatim>\<open>YYYY-MM-DD\<close> and
  \<^verbatim>\<open>HH:MM:SS\<close>. The other columns are free: \<^verbatim>\<open>PUT\<close> stores whatever JSON value it
  receives.
\<close>

definition linha_bem_formada :: "cliente \<Rightarrow> bool" where
  "linha_bem_formada c \<longleftrightarrow> texto_casa dataRegex (data c) \<and> texto_casa horaRegex (hora c)"

definition arquivo_bem_formado :: "concluido \<Rightarrow> bool" where
  "arquivo_bem_formado a \<longleftrightarrow> texto_casa dataRegex (arq_data a) \<and> texto_casa horaRegex (arq_hora a)"

definition db_bem_formado :: "db \<Rightarrow> bool" where
  "db_bem_formado b \<longleftrightarrow> list_all linha_bem_formada (clientes b) \<and> list_all arquivo_bem_formado (concluidos b)"

lemma foldr_max_ge: "x \<in> set xs \<Longrightarrow> x \<le> foldr max xs (a::nat)"
  by (induction xs) auto

lemma next_rowid_gt [row_simps]: "c \<in> set xs \<Longrightarrow> cliente_id c < next_rowid xs"
  by (simp add: next_rowid_def foldr_max_ge less_Suc_eq_le)

lemma next_rowid_fresh [row_simps]: "next_rowid xs \<notin> cliente_id ` set xs"
  using next_rowid_gt by fastforce

lemma insert_cliente_ids [row_simps]:
  "map cliente_id (insert_cliente n d h sv v xs) = map cliente_id xs @ [next_rowid xs]"
  by (simp add: insert_cliente_def)

lemma update_cliente_in:
  "c \<in> set xs \<Longrightarrow> cliente_id c = i \<Longrightarrow>
   c\<lparr>nome_cliente := n, servico := sv, valor_orcamento := v\<rparr> \<in> set (update_cliente i n sv v xs)"
  unfolding update_cliente_def by (rule map_where_in)

lemma update_cliente_keeps [row_simps]:
  "map cliente_id (update_cliente i n sv v xs) = map cliente_id xs"
  "map slot (update_cliente i n sv v xs) = map slot xs"
  by (simp_all add: update_cliente_def map_map_where_keep slot_def)

lemma ids_distinct_insert [row_simps]:
  "ids_distinct xs \<Longrightarrow> ids_distinct (insert_cliente n d h sv v xs)"
  by (simp add: ids_distinct_def insert_cliente_ids next_rowid_fresh)

lemma ids_distinct_update [row_simps]:
  "ids_distinct (update_cliente i n sv v xs) = ids_distinct xs"
  by (simp add: ids_distinct_def update_cliente_keeps)

lemma ids_distinct_delete [row_simps]:
  "ids_distinct xs \<Longrightarrow> ids_distinct (delete_cliente i xs)"
  by (simp add: ids_distinct_def delete_cliente_def distinct_map_filter_keys)

lemma no_double_booking_update [row_simps]:
  "no_double_booking (update_cliente i n sv v xs) = no_double_booking xs"
  by (simp add: no_double_booking_def update_cliente_keeps)

lemma no_double_booking_filter:
  "no_double_booking xs \<Longrightarrow> no_double_booking (filter P xs)"
  by (simp add: no_double_booking_def distinct_map_filter_keys)

lemma no_double_booking_insert_iff:
  "no_double_booking (insert_cliente n d h sv v xs) \<longleftrightarrow>
     no_double_booking xs \<and> (d, h) \<notin> slot ` set xs"
  by (auto simp: no_double_booking_def insert_cliente_def slot_def)

lemma slot_insert_cliente [row_simps]:
  "slot ` set (insert_cliente n d h sv v xs) = insert (d, h) (slot ` set xs)"
  by (auto simp: insert_cliente_def slot_def)

lemma delete_cliente_absent [row_simps]:
  "i \<notin> cliente_id ` set xs \<Longrightarrow> delete_cliente i xs = xs"
  by (induction xs) (auto simp: delete_cliente_def)

lemma update_cliente_absent [row_simps]:
  "i \<notin> cliente_id ` set xs \<Longrightarrow> update_cliente i n sv v xs = xs"
  by (auto simp: update_cliente_def intro: map_where_no_match)

lemma delete_cliente_id: "i \<notin> cliente_id ` set (delete_cliente i xs)"
  by (auto simp: delete_cliente_def)

lemma linha_bem_formada_update [row_simps]:
  "linha_bem_formada (c\<lparr>nome_cliente := n, servico := sv, valor_orcamento := v\<rparr>) = linha_bem_formada c"
  by (simp add: linha_bem_formada_def)

lemma bem_formadas_update:
  "list_all linha_bem_formada xs \<Longrightarrow> list_all linha_bem_formada (update_cliente i n sv v xs)"
  by (auto simp: update_cliente_def map_where_def list_all_iff linha_bem_formada_update)

lemma bem_formadas_filter:
  "list_all linha_bem_formada xs \<Longrightarrow> list_all linha_bem_formada (filter P xs)"
  by (simp add: list_all_iff)

lemma arquivo_registro [row_simps]: "arquivo_bem_formado (registro_concluido c t) = linha_bem_formada c"
  by (simp add: arquivo_bem_formado_def linha_bem_formada_def registro_concluido_def)

end
