(* ===== verification/Api.thy ===== *)
theory Api
  imports Store
begin

text \<open>
  The Express handlers of \<^verbatim>\<open>src/api.js\<close>, one definition per route. Each takes
  the database and the outcome of its SQL statement (\<open>db_status\<close>, the \<open>err\<close> of the
  callback) and returns the HTTP response and, for the routes that write, the new
  database. The response messages are the Portuguese strings of the source, named by
  constructors.
\<close>

datatype message =
    Erro_buscar_gestao      \<comment> \<open>'Erro ao buscar dados da gest\~ao.'\<close>
  | Erro_consultar          \<comment> \<open>'Erro ao consultar or\c{c}amentos'\<close>
  | Erro_servicos           \<comment> \<open>'Erro ao obter os dados de servi\c{c}os'\<close>
  | Campos_obrigatorios     \<comment> \<open>'Todos os campos devem ser preenchidos.'\<close>
  | Formato_invalido        \<comment> \<open>'Formato de data ou hora inv\'alido.'\<close>
  | Erro_salvar             \<comment> \<open>'Erro ao salvar o or\c{c}amento'\<close>
  | Cadastrado              \<comment> \<open>'Or\c{c}amento cadastrado com sucesso'\<close>
  | Erro_atualizar          \<comment> \<open>'Erro ao atualizar agendamento.'\<close>
  | Atualizado              \<comment> \<open>'Agendamento atualizado com sucesso!'\<close>
  | Erro_excluir            \<comment> \<open>'Erro ao excluir o agendamento.'\<close>
  | Excluido                \<comment> \<open>'Agendamento exclu\'ido com sucesso!'\<close>

datatype payload =
    Message message
  | Horarios "sqlval list"
  | Clientes "cliente list"
  | Servicos "servico_row list"

record response =
  status :: nat
  payload :: payload

definition reply :: "nat \<Rightarrow> message \<Rightarrow> response" where
  "reply n m = \<lparr>status = n, payload = Message m\<rparr>"

subsection \<open>Reads\<close>

text \<open>\<^verbatim>\<open>GET /api/gestao\<close>: the column \<^verbatim>\<open>hora\<close> of every row of \<^verbatim>\<open>gestao\<close>.\<close>

definition api_gestao :: "db_status \<Rightarrow> db \<Rightarrow> response" where
  "api_gestao r s =
     (case r of
        DbError \<Rightarrow> reply 500 Erro_buscar_gestao
      | DbOk \<Rightarrow> \<lparr>status = 200, payload = Horarios (gestao s)\<rparr>)"

text \<open>\<^verbatim>\<open>GET /api/clientes\<close>: every active appointment.\<close>

definition api_clientes :: "db_status \<Rightarrow> db \<Rightarrow> response" where
  "api_clientes r s =
     (case r of
        DbError \<Rightarrow> reply 500 Erro_consultar
      | DbOk \<Rightarrow> \<lparr>status = 200, payload = Clientes (clientes s)\<rparr>)"

text \<open>\<^verbatim>\<open>GET /api/servicos\<close>: the service catalogue.\<close>

definition api_servicos :: "db_status \<Rightarrow> db \<Rightarrow> response" where
  "api_servicos r s =
     (case r of
        DbError \<Rightarrow> reply 500 Erro_servicos
      | DbOk \<Rightarrow> \<lparr>status = 200, payload = Servicos (servicos s)\<rparr>)"

subsection \<open>Writes\<close>

text \<open>
  \<^verbatim>\<open>POST /api/cadastro\<close>: the five body fields must be truthy, \<^verbatim>\<open>data\<close> and
  \<^verbatim>\<open>hora\<close> must match their patterns, and then the row is inserted. There is no
  check of the slot against the rows already present.
\<close>

definition api_cadastro ::
  "jsval \<Rightarrow> jsval \<Rightarrow> jsval \<Rightarrow> jsval \<Rightarrow> jsval \<Rightarrow> db_status \<Rightarrow> db \<Rightarrow> response \<times> db" where
  "api_cadastro nomeCliente data' hora' servico' valorOrcamento r s =
     (if \<not> truthy nomeCliente \<or> \<not> truthy data' \<or> \<not> truthy hora' \<or> \<not> truthy servico'
         \<or> \<not> truthy valorOrcamento
      then (reply 400 Campos_obrigatorios, s)
      else if \<not> regex_test dataRegex data' \<or> \<not> regex_test horaRegex hora'
      then (reply 400 Formato_invalido, s)
      else (case r of
              DbError \<Rightarrow> (reply 500 Erro_salvar, s)
            | DbOk \<Rightarrow>
                (reply 201 Cadastrado,
                 s\<lparr>clientes := insert_cliente (sql_bind nomeCliente) (sql_bind data')
                    (sql_bind hora') (sql_bind servico') (sql_bind valorOrcamento) (clientes s)\<rparr>)))"

text \<open>
  \<^verbatim>\<open>PUT /api/agendamentos/:id\<close>: an unguarded \<^verbatim>\<open>UPDATE ... WHERE id = ?\<close>; the
  reply is 200 whether or not a row has that id. The path parameter is the decimal
  text of a rowid, which SQLite's integer affinity compares as that number.
\<close>

definition api_put_agendamento ::
  "nat \<Rightarrow> jsval \<Rightarrow> jsval \<Rightarrow> jsval \<Rightarrow> db_status \<Rightarrow> db \<Rightarrow> response \<times> db" where
  "api_put_agendamento i nome_cliente' servico' valor_orcamento' r s =
     (case r of
        DbError \<Rightarrow> (reply 500 Erro_atualizar, s)
      | DbOk \<Rightarrow>
          (reply 200 Atualizado,
           s\<lparr>clientes := update_cliente i (sql_bind nome_cliente') (sql_bind servico')
                           (sql_bind valor_orcamento') (clientes s)\<rparr>))"

text \<open>\<^verbatim>\<open>DELETE /api/agendamentos/:id\<close>: 200 whether or not the row existed.\<close>

definition api_delete_agendamento :: "nat \<Rightarrow> db_status \<Rightarrow> db \<Rightarrow> response \<times> db" where
  "api_delete_agendamento i r s =
     (case r of
        DbError \<Rightarrow> (reply 500 Erro_excluir, s)
      | DbOk \<Rightarrow> (reply 200 Excluido, s\<lparr>clientes := delete_cliente i (clientes s)\<rparr>))"

lemmas [api_simps] = api_gestao_def api_clientes_def api_servicos_def api_cadastro_def
  api_put_agendamento_def api_delete_agendamento_def reply_def

subsection \<open>Behaviour of the booking handler\<close>

text \<open>The validation the handler performs before it touches the database.\<close>

definition cadastro_valid :: "jsval \<Rightarrow> jsval \<Rightarrow> jsval \<Rightarrow> jsval \<Rightarrow> jsval \<Rightarrow> bool" where
  "cadastro_valid n d h sv v \<longleftrightarrow>
     truthy n \<and> truthy d \<and> truthy h \<and> truthy sv \<and> truthy v
     \<and> regex_test dataRegex d \<and> regex_test horaRegex h"

lemma api_cadastro_valid_ok:
  "cadastro_valid n d h sv v \<Longrightarrow>
   api_cadastro n d h sv v DbOk s =
     (reply 201 Cadastrado,
      s\<lparr>clientes := insert_cliente (sql_bind n) (sql_bind d) (sql_bind h) (sql_bind sv)
                      (sql_bind v) (clientes s)\<rparr>)"
  by (simp add: api_cadastro_def cadastro_valid_def)

lemma api_cadastro_invalid:
  "\<not> cadastro_valid n d h sv v \<Longrightarrow>
   api_cadastro n d h sv v r s =
     (reply 400 (if truthy n \<and> truthy d \<and> truthy h \<and> truthy sv \<and> truthy v
                 then Formato_invalido else Campos_obrigatorios), s)"
  by (auto simp add: api_cadastro_def cadastro_valid_def)

lemma regex_valid_text:
  assumes "regex_test p v"
  shows "\<exists>t. sql_bind v = SText t \<and> match_pattern p t"
  using regex_test_JStr [OF assms] by auto

text \<open>
  C1. The booking handler does not check the slot: a valid request for a date and time
  already held by an active appointment is accepted with 201 and leaves two active
  appointments in the same slot. The spec requires a \<open>ConflictError\<close> here.
\<close>

theorem cadastro_double_booking:
  assumes "cadastro_valid n d h sv v"
    and "(sql_bind d, sql_bind h) \<in> slot ` set (clientes s)"
  shows "fst (api_cadastro n d h sv v DbOk s) = reply 201 Cadastrado
       \<and> \<not> no_double_booking (clientes (snd (api_cadastro n d h sv v DbOk s)))"
  using assms by (simp add: api_cadastro_valid_ok no_double_booking_insert_iff)

text \<open>
  C9. A request with a falsy field or a malformed date or time is answered 400 and
  leaves the database unchanged; every other request is not answered 400.
\<close>

theorem cadastro_rejects_invalid:
  "(status (fst (api_cadastro n d h sv v r s)) = 400 \<longleftrightarrow> \<not> cadastro_valid n d h sv v)
   \<and> (\<not> cadastro_valid n d h sv v \<longrightarrow> snd (api_cadastro n d h sv v r s) = s)"
proof (cases "cadastro_valid n d h sv v")
  case True
  then show ?thesis
    by (cases r) (simp_all add: api_cadastro_valid_ok api_cadastro_def reply_def cadastro_valid_def)
next
  case False
  then show ?thesis by (simp add: api_cadastro_invalid reply_def)
qed

text \<open>
  C10. A valid request whose insert succeeds is answered 201 and appends exactly one
  row: the old rows are kept in place, the new row has a rowid no other row has, the
  bound request fields, and a date and time stored as text of the validated shapes.
\<close>

theorem cadastro_success:
  assumes "cadastro_valid n d h sv v"
  shows "\<exists>c. api_cadastro n d h sv v DbOk s = (reply 201 Cadastrado, s\<lparr>clientes := clientes s @ [c]\<rparr>)
           \<and> cliente_id c \<notin> cliente_id ` set (clientes s)
           \<and> nome_cliente c = sql_bind n \<and> servico c = sql_bind sv \<and> valor_orcamento c = sql_bind v
           \<and> (\<exists>ds hs. data c = SText ds \<and> hora c = SText hs
                       \<and> match_pattern dataRegex ds \<and> match_pattern horaRegex hs)"
proof -
  from assms obtain ds hs where d: "sql_bind d = SText ds" "match_pattern dataRegex ds"
    and h: "sql_bind h = SText hs" "match_pattern horaRegex hs"
    unfolding cadastro_valid_def by (blast dest: regex_valid_text)
  let ?c = "\<lparr>cliente_id = next_rowid (clientes s), nome_cliente = sql_bind n, data = sql_bind d,
             hora = sql_bind h, servico = sql_bind sv, valor_orcamento = sql_bind v\<rparr>"
  show ?thesis
    using assms d h next_rowid_fresh [of "clientes s"]
    by (intro exI [of _ ?c]) (simp add: api_cadastro_valid_ok insert_cliente_def)
qed

subsection \<open>Behaviour of the edit and cancel handlers\<close>

text \<open>
  C11. Editing an id that no active appointment has is answered 200 with the success
  message and changes nothing: the spec's \<open>NotFoundError\<close> does not exist.
\<close>

theorem put_absent_id_is_success:
  assumes "i \<notin> cliente_id ` set (clientes s)"
  shows "api_put_agendamento i n sv v DbOk s = (reply 200 Atualizado, s)"
  using assms by (simp add: api_put_agendamento_def update_cliente_absent)

text \<open>
  C12. Cancelling twice: the second request is answered 200 as well and changes nothing.
\<close>

theorem delete_twice:
  "api_delete_agendamento i DbOk (snd (api_delete_agendamento i DbOk s))
     = (reply 200 Excluido, snd (api_delete_agendamento i DbOk s))"
  by (simp add: api_delete_agendamento_def delete_cliente_absent delete_cliente_id)

text \<open>
  C13. An edit never moves an appointment: the rowids and the slots of the table are
  those before the edit, in the same order, so an edit keeps the slots free of double
  bookings; a cancellation keeps them so too.
\<close>

theorem edits_keep_slots:
  "map cliente_id (clientes (snd (api_put_agendamento i n sv v r s))) = map cliente_id (clientes s)
   \<and> map slot (clientes (snd (api_put_agendamento i n sv v r s))) = map slot (clientes s)
   \<and> (no_double_booking (clientes s) \<longrightarrow>
        no_double_booking (clientes (snd (api_delete_agendamento i r s))))"
  by (cases r) (simp_all add: api_put_agendamento_def api_delete_agendamento_def
      update_cliente_keeps delete_cliente_def no_double_booking_filter)

lemma api_cadastro_bem_formado:
  "db_bem_formado s \<Longrightarrow> db_bem_formado (snd (api_cadastro n d h sv v r s))"
proof (cases "cadastro_valid n d h sv v \<and> r = DbOk")
  case True
  then obtain t u where "sql_bind d = SText t" "match_pattern dataRegex t"
      "sql_bind h = SText u" "match_pattern horaRegex u"
    using regex_valid_text by (meson cadastro_valid_def)
  with True show "db_bem_formado s \<Longrightarrow> ?thesis"
    by (simp add: api_cadastro_valid_ok db_bem_formado_def insert_cliente_def linha_bem_formada_def)
next
  case False
  then have "snd (api_cadastro n d h sv v r s) = s"
    by (auto simp: api_cadastro_def cadastro_valid_def split: db_status.split)
  then show "db_bem_formado s \<Longrightarrow> ?thesis" by simp
qed

lemma api_put_bem_formado:
  "db_bem_formado s \<Longrightarrow> db_bem_formado (snd (api_put_agendamento i n sv v r s))"
  by (simp add: api_put_agendamento_def db_bem_formado_def bem_formadas_update split: db_status.split)

lemma api_delete_bem_formado:
  "db_bem_formado s \<Longrightarrow> db_bem_formado (snd (api_delete_agendamento i r s))"
  by (simp add: api_delete_agendamento_def db_bem_formado_def delete_cliente_def bem_formadas_filter
      split: db_status.split)

end
