(* ===== verification/Calendar.thy ===== *)
theory Calendar
  imports Values
begin

text \<open>
  The clock and calendar arithmetic the two date computations of the repository rely
  on, written as ECMAScript defines \<^verbatim>\<open>Date\<close> (time values in milliseconds, days
  since 1970-01-01, \<open>WeekDay\<close>, \<open>DayFromYear\<close>, \<open>YearFromTime\<close>,
  \<open>MonthFromTime\<close>, \<open>DateFromTime\<close>), with one fixed local offset: the spec
  admits a single implicit local zone. On top of it: \<^verbatim>\<open>gerarDatasDisponiveis\<close> of
  \<^verbatim>\<open>cadastrar.tsx\<close> (the next fourteen calendar days without weekends) and the
  cutoff text of \<^verbatim>\<open>arquivarAgendamentosConcluidos\<close> in \<^verbatim>\<open>api.js\<close> (two days
  back, printed by \<^verbatim>\<open>toISOString\<close>).
\<close>

subsection \<open>Time values and days\<close>

definition msPerDay :: int where
  "msPerDay = 86400000"

definition Day :: "ms \<Rightarrow> day" where
  "Day t = t div msPerDay"

text \<open>\<^verbatim>\<open>getDay()\<close>: 0 is Sunday; 1970-01-01 was a Thursday.\<close>

definition WeekDay :: "day \<Rightarrow> int" where
  "WeekDay d = (d + 4) mod 7"

text \<open>The local time of a time value under the zone's offset, and its local day.\<close>

definition LocalDay :: "ms \<Rightarrow> ms \<Rightarrow> day" where
  "LocalDay off t = Day (t + off)"

subsection \<open>Years, months and dates\<close>

definition DayFromYear :: "int \<Rightarrow> day" where
  "DayFromYear y = 365 * (y - 1970) + (y - 1969) div 4 - (y - 1901) div 100 + (y - 1601) div 400"

definition DaysInYear :: "int \<Rightarrow> int" where
  "DaysInYear y =
     (if \<not> 4 dvd y then 365 else if \<not> 100 dvd y then 366 else if \<not> 400 dvd y then 365 else 366)"

lemma div_shift:
  assumes "1 < (k::int)"
  shows "(a + 1) div k = a div k + (if k dvd (a + 1) then 1 else 0)"
proof -
  have 1: "(a + 1) div k = a div k + (a mod k + 1) div k"
    using div_add1_eq [of a 1 k] assms by simp
  have r: "0 \<le> a mod k" "a mod k < k" using assms by simp_all
  have 2: "(a mod k + 1) div k = (if a mod k + 1 = k then 1 else 0)"
    using r by (auto intro: div_pos_pos_trivial)
  have 3: "k dvd (a + 1) \<longleftrightarrow> a mod k + 1 = k"
  proof -
    have "k dvd (a + 1) \<longleftrightarrow> (a mod k + 1) mod k = 0"
      by (simp add: dvd_eq_mod_eq_0 mod_add_left_eq)
    also have "\<dots> \<longleftrightarrow> a mod k + 1 = k"
      using r by (cases "a mod k + 1 = k") (auto simp: mod_pos_pos_trivial)
    finally show ?thesis .
  qed
  show ?thesis using 1 2 3 by simp
qed

lemma div_shift_year:
  assumes "1 < (k::int)" and "c = k * m + 1"
  shows "(y + 1 - c) div k = (y - c) div k + (if k dvd y then 1 else 0)"
proof -
  have "y - c + 1 = y + (- m) * k" using assms(2) by (simp add: algebra_simps)
  then have "k dvd (y - c + 1) \<longleftrightarrow> k dvd y" by (simp only: dvd_add_times_triv_right_iff)
  moreover have "(y + 1 - c) div k = (y - c + 1) div k"
    by (rule arg_cong [where f = "\<lambda>x. x div k"]) simp
  ultimately show ?thesis using div_shift [OF assms(1), of "y - c"] by simp
qed

lemma DayFromYear_Suc: "DayFromYear (y + 1) = DayFromYear y + DaysInYear y"
proof -
  have a: "(y + 1 - 1969) div 4 = (y - 1969) div 4 + (if 4 dvd y then 1 else 0)"
    by (rule div_shift_year [where m = 492]) simp_all
  have b: "(y + 1 - 1901) div 100 = (y - 1901) div 100 + (if 100 dvd y then 1 else 0)"
    by (rule div_shift_year [where m = 19]) simp_all
  have c: "(y + 1 - 1601) div 400 = (y - 1601) div 400 + (if 400 dvd y then 1 else 0)"
    by (rule div_shift_year [where m = 4]) simp_all
  have d: "(100::int) dvd y \<Longrightarrow> 4 dvd y" "(400::int) dvd y \<Longrightarrow> 100 dvd y"
    by (rule dvd_trans [of 4 100], simp, assumption) (rule dvd_trans [of 100 400], simp, assumption)
  have e: "365 * (y + 1 - 1970) = 365 * (y - 1970) + 365" by simp
  show ?thesis
    unfolding DayFromYear_def DaysInYear_def a b c e
    using d by (cases "4 dvd y"; cases "100 dvd y"; cases "400 dvd y") simp_all
qed

lemma DaysInYear_ge: "365 \<le> DaysInYear y"
  by (simp add: DaysInYear_def)

lemma DayFromYear_less: "DayFromYear y < DayFromYear (y + 1)"
  using DayFromYear_Suc [of y] DaysInYear_ge [of y] by simp

text \<open>
  \<open>YearFromTime\<close> is the largest year whose first day is not after the given day:
  a search down from an estimate until the year starts on or before the day, then up
  while the next year does.
\<close>

function ano_abaixo :: "day \<Rightarrow> int \<Rightarrow> int" where
  "ano_abaixo d y = (if d < DayFromYear y then ano_abaixo d (y - 1) else y)"
  by pat_completeness auto
termination
proof (relation "measure (\<lambda>(d, y). nat (DayFromYear y - d))")
  fix d y
  assume "d < DayFromYear y"
  moreover have "DayFromYear (y - 1) < DayFromYear y"
    using DayFromYear_less [of "y - 1"] by simp
  ultimately show "((d, y - 1), d, y) \<in> measure (\<lambda>(d, y). nat (DayFromYear y - d))"
    by simp
qed simp

function ano_acima :: "day \<Rightarrow> int \<Rightarrow> int" where
  "ano_acima d y = (if DayFromYear (y + 1) \<le> d then ano_acima d (y + 1) else y)"
  by pat_completeness auto
termination
proof (relation "measure (\<lambda>(d, y). nat (d + 1 - DayFromYear y))")
  fix d y
  assume "DayFromYear (y + 1) \<le> d"
  moreover have "DayFromYear y < DayFromYear (y + 1)" by (rule DayFromYear_less)
  ultimately show "((d, y + 1), d, y) \<in> measure (\<lambda>(d, y). nat (d + 1 - DayFromYear y))"
    by simp
qed simp

declare ano_abaixo.simps [simp del] ano_acima.simps [simp del]

definition YearFromDay :: "day \<Rightarrow> int" where
  "YearFromDay d = ano_acima d (ano_abaixo d (1970 + d div 365))"

definition DayWithinYear :: "day \<Rightarrow> int" where
  "DayWithinYear d = d - DayFromYear (YearFromDay d)"

definition InLeapYear :: "day \<Rightarrow> int" where
  "InLeapYear d = (if DaysInYear (YearFromDay d) = 366 then 1 else 0)"

text \<open>The day of the year on which month \<open>m + 1\<close> begins (0-based months).\<close>

definition fim_mes :: "int \<Rightarrow> nat \<Rightarrow> int" where
  "fim_mes leap m =
     [31, 59, 90, 120, 151, 181, 212, 243, 273, 304, 334, 365] ! m + (if 1 \<le> m then leap else 0)"

text \<open>\<^verbatim>\<open>getMonth()\<close>: the number of months that end on or before the day of the year.\<close>

definition MonthFromDay :: "day \<Rightarrow> nat" where
  "MonthFromDay d = length (takeWhile (\<lambda>m. fim_mes (InLeapYear d) m \<le> DayWithinYear d) [0..<11])"

definition inicio_mes :: "int \<Rightarrow> nat \<Rightarrow> int" where
  "inicio_mes leap m = (if m = 0 then 0 else fim_mes leap (m - 1))"

text \<open>\<^verbatim>\<open>getDate()\<close>: the day of the month, from 1.\<close>

definition DateFromDay :: "day \<Rightarrow> int" where
  "DateFromDay d = DayWithinYear d - inicio_mes (InLeapYear d) (MonthFromDay d) + 1"

subsection \<open>Numbers as text\<close>

definition digito :: "nat \<Rightarrow> char" where
  "digito k = ''0123456789'' ! k"

fun digitos :: "nat \<Rightarrow> string" where
  "digitos n = (if n < 10 then [digito n] else digitos (n div 10) @ [digito (n mod 10)])"

declare digitos.simps [simp del]

text \<open>\<^verbatim>\<open>String(n)\<close> of an integer.\<close>

definition js_string_int :: "int \<Rightarrow> string" where
  "js_string_int i = (if i < 0 then CHR ''-'' # digitos (nat (- i)) else digitos (nat i))"

text \<open>\<^verbatim>\<open>s.padStart(n, c)\<close> with a one-character pad.\<close>

definition padStart :: "nat \<Rightarrow> char \<Rightarrow> string \<Rightarrow> string" where
  "padStart n c s = replicate (n - length s) c @ s"

subsection \<open>The booking screen's candidate dates\<close>

text \<open>\<^verbatim>\<open>`${ano}-${mes}-${dia}`\<close> of \<^verbatim>\<open>gerarDatasDisponiveis\<close>: the year unpadded, month and day padded to two digits.\<close>

definition formatar_data :: "day \<Rightarrow> string" where
  "formatar_data d =
     js_string_int (YearFromDay d) @ ''-''
     @ padStart 2 CHR ''0'' (js_string_int (int (MonthFromDay d) + 1)) @ ''-''
     @ padStart 2 CHR ''0'' (js_string_int (DateFromDay d))"

definition diasParaMostrar :: nat where
  "diasParaMostrar = 14"

text \<open>
  The loop \<^verbatim>\<open>for (let i = 0; i < diasParaMostrar; i++)\<close>: the first argument counts the
  iterations left; each one moves \<^verbatim>\<open>hoje\<close> a calendar day on and skips Sunday (0)
  and Saturday (6).
\<close>

fun gerar_datas :: "nat \<Rightarrow> day \<Rightarrow> string list \<Rightarrow> string list" where
  "gerar_datas 0 hoje datas = datas"
| "gerar_datas (Suc k) hoje datas =
     (let hoje' = hoje + 1; diaSemana = WeekDay hoje'
      in if diaSemana = 0 \<or> diaSemana = 6 then gerar_datas k hoje' datas
         else gerar_datas k hoje' (datas @ [formatar_data hoje']))"

definition gerarDatasDisponiveis :: "ms \<Rightarrow> ms \<Rightarrow> string list" where
  "gerarDatasDisponiveis off agora = gerar_datas diasParaMostrar (LocalDay off agora) []"

subsection \<open>The archival cutoff\<close>

text \<open>
  \<^verbatim>\<open>doisDiasAtras.setDate(dataAtual.getDate() - 2)\<close>: two calendar days back in local
  time, at the same local time of day; under a fixed offset that is 48 hours back.
\<close>

definition doisDiasAtras :: "ms \<Rightarrow> ms \<Rightarrow> ms" where
  "doisDiasAtras off agora = (agora + off - 2 * msPerDay) - off"

text \<open>\<^verbatim>\<open>toISOString()\<close>: UTC fields, a four-digit year in 0..9999 and a signed six-digit one outside.\<close>

definition iso_ano :: "int \<Rightarrow> string" where
  "iso_ano y =
     (if 0 \<le> y \<and> y \<le> 9999 then padStart 4 CHR ''0'' (js_string_int y)
      else (if y < 0 then CHR ''-'' else CHR ''+'') # padStart 6 CHR ''0'' (js_string_int \<bar>y\<bar>))"

definition pad2 :: "int \<Rightarrow> string" where
  "pad2 n = padStart 2 CHR ''0'' (js_string_int n)"

definition iso_data :: "day \<Rightarrow> string" where
  "iso_data d = iso_ano (YearFromDay d) @ ''-'' @ pad2 (int (MonthFromDay d) + 1) @ ''-'' @ pad2 (DateFromDay d)"

definition toISOString :: "ms \<Rightarrow> string" where
  "toISOString t =
     (let w = t mod msPerDay
      in iso_data (Day t) @ ''T'' @ pad2 (w div 3600000) @ '':'' @ pad2 (w div 60000 mod 60) @ '':''
         @ pad2 (w div 1000 mod 60) @ ''.'' @ padStart 3 CHR ''0'' (js_string_int (w mod 1000)) @ ''Z'')"

text \<open>\<^verbatim>\<open>s.split('T')[0]\<close>: the text before the first \<^verbatim>\<open>T\<close>.\<close>

definition split_T_0 :: "string \<Rightarrow> string" where
  "split_T_0 s = takeWhile (\<lambda>c. c \<noteq> CHR ''T'') s"

definition dataFormatada :: "ms \<Rightarrow> ms \<Rightarrow> string" where
  "dataFormatada off agora = split_T_0 (toISOString (doisDiasAtras off agora))"

subsection \<open>Properties of the calendar functions\<close>

definition dia_util :: "day \<Rightarrow> bool" where
  "dia_util d \<longleftrightarrow> WeekDay d \<noteq> 0 \<and> WeekDay d \<noteq> 6"

lemma WeekDay_add: "WeekDay (b + j) = (WeekDay b + j) mod 7"
  unfolding WeekDay_def mod_add_left_eq by (simp add: algebra_simps)

lemma WeekDay_range: "0 \<le> WeekDay d \<and> WeekDay d < 7"
  by (simp add: WeekDay_def)

lemma gerar_datas_ref:
  "gerar_datas k hoje acc = acc @ map formatar_data (filter dia_util [hoje + 1 .. hoje + int k])"
proof (induction k arbitrary: hoje acc)
  case 0
  then show ?case by simp
next
  case (Suc k)
  have "[hoje + 1 .. hoje + int (Suc k)] = (hoje + 1) # [hoje + 1 + 1 .. hoje + 1 + int k]"
    by (simp add: upto_rec1 add.assoc)
  then show ?case by (simp add: Suc.IH Let_def dia_util_def)
qed

lemma semana_cinco_uteis: "length (filter dia_util [b .. b + 6]) = 5"
proof -
  have l: "[b .. b + 6] = [b, b + 1, b + 2, b + 3, b + 4, b + 5, b + 6]"
    by (simp add: upto_rec1 numeral_eq_Suc add.assoc)
  obtain w where w: "WeekDay b = w" "0 \<le> w" "w < 7" using WeekDay_range by blast
  then have "w = 0 \<or> w = 1 \<or> w = 2 \<or> w = 3 \<or> w = 4 \<or> w = 5 \<or> w = 6" by auto
  then show ?thesis
    using w(1) by (elim disjE) (simp_all add: l dia_util_def WeekDay_add)
qed

lemma quatorze_dias_dez_uteis: "length (filter dia_util [a + 1 .. a + 14]) = 10"
proof -
  have s: "[a + 1 .. a + 14] = [a + 1 .. a + 7] @ [a + 8 .. a + 14]"
    using upto_split1 [of "a + 1" "a + 8" "a + 14"] by (simp add: add.commute)
  have w1: "[a + 1 .. a + 7] = [a + 1 .. (a + 1) + 6]" by (simp add: add.assoc)
  have w2: "[a + 8 .. a + 14] = [a + 8 .. (a + 8) + 6]" by (simp add: add.assoc)
  show ?thesis
    unfolding s w1 w2 by (simp only: filter_append length_append semana_cinco_uteis)
qed

lemma split_T_0_append:
  "CHR ''T'' \<notin> set xs \<Longrightarrow> split_T_0 (xs @ CHR ''T'' # ys) = xs"
  by (induction xs) (auto simp: split_T_0_def)

lemma digito_is_digit: "k < 10 \<Longrightarrow> is_digit (digito k)"
  by (simp add: digito_def is_digit_def numeral_eq_Suc less_Suc_eq)
     (elim disjE; simp)

lemma digitos_is_digit: "\<forall>c \<in> set (digitos n). is_digit c"
proof (induction n rule: digitos.induct)
  case (1 n)
  then show ?case
    by (subst digitos.simps) (auto simp: digito_is_digit)
qed

lemma digitos_ne: "digitos n \<noteq> []"
  by (subst digitos.simps) simp

lemma T_notin_digitos: "CHR ''T'' \<notin> set (digitos n)"
proof
  assume "CHR ''T'' \<in> set (digitos n)"
  then have "is_digit CHR ''T''" using digitos_is_digit by blast
  then show False by (simp add: is_digit_def)
qed

lemma T_notin_js_string_int: "CHR ''T'' \<notin> set (js_string_int i)"
  by (simp add: js_string_int_def T_notin_digitos)

lemma T_notin_iso_data: "CHR ''T'' \<notin> set (iso_data d)"
  by (auto simp: iso_data_def iso_ano_def pad2_def padStart_def T_notin_js_string_int)

lemma split_T_0_iso: "split_T_0 (toISOString t) = iso_data (Day t)"
  by (simp add: toISOString_def Let_def split_T_0_append T_notin_iso_data)

lemma div_unique_int:
  assumes "0 < (k::int)" "k * q \<le> a" "a < k * q + k"
  shows "a div k = q"
proof -
  have "a div k = ((a - k * q) + k * q) div k" by simp
  also have "\<dots> = q + (a - k * q) div k" using assms(1) by (simp only: div_mult_self2)
  also have "(a - k * q) div k = 0" using assms by (intro div_pos_pos_trivial) simp_all
  finally show ?thesis by simp
qed

lemma div_minus_mult: "0 < (k::int) \<Longrightarrow> (a - m * k) div k = a div k - m"
proof -
  assume k: "0 < k"
  have "a div k = ((a - m * k) + m * k) div k" by simp
  also have "\<dots> = m + (a - m * k) div k" using k by (simp only: div_mult_self1)
  finally show ?thesis by simp
qed

lemma msPerDay_pos: "0 < msPerDay"
  by (simp add: msPerDay_def)

lemma Day_doisDiasAtras: "Day (doisDiasAtras off agora) = Day agora - 2"
  using div_minus_mult [OF msPerDay_pos, of agora 2]
  by (simp add: Day_def doisDiasAtras_def)

lemma LocalDay_bounds:
  assumes "- msPerDay < off" and "off < msPerDay"
  shows "Day agora - 1 \<le> LocalDay off agora \<and> LocalDay off agora \<le> Day agora + 1"
proof -
  have lo: "(agora - 1 * msPerDay) div msPerDay \<le> (agora + off) div msPerDay"
    using assms msPerDay_pos by (intro zdiv_mono1) simp_all
  have hi: "(agora + off) div msPerDay \<le> (agora + 1 * msPerDay) div msPerDay"
    using assms msPerDay_pos by (intro zdiv_mono1) simp_all
  have "(agora + 1 * msPerDay) div msPerDay = agora div msPerDay + 1"
    using msPerDay_pos by (simp only: div_mult_self1)
  then show ?thesis
    using lo hi div_minus_mult [OF msPerDay_pos, of agora 1] by (simp add: LocalDay_def Day_def)
qed

lemma ano_abaixo_le: "DayFromYear (ano_abaixo d y) \<le> d"
proof (induction d y rule: ano_abaixo.induct)
  case (1 d y)
  then show ?case by (subst ano_abaixo.simps) simp
qed

lemma ano_acima_spec:
  "DayFromYear y \<le> d \<Longrightarrow> DayFromYear (ano_acima d y) \<le> d \<and> d < DayFromYear (ano_acima d y + 1)"
proof (induction d y rule: ano_acima.induct)
  case (1 d y)
  have e: "ano_acima d y = (if DayFromYear (y + 1) \<le> d then ano_acima d (y + 1) else y)"
    by (rule ano_acima.simps)
  show ?case using 1 by (simp add: e)
qed

lemma YearFromDay_bounds: "DayFromYear (YearFromDay d) \<le> d \<and> d < DayFromYear (YearFromDay d + 1)"
  unfolding YearFromDay_def by (rule ano_acima_spec [OF ano_abaixo_le])

lemma DayFromYear_mono: "y \<le> y' \<Longrightarrow> DayFromYear y \<le> DayFromYear y'"
proof (induction y' rule: int_ge_induct)
  case (step i)
  then show ?case using DayFromYear_less [of i] by simp
qed simp

lemma YearFromDay_unique:
  "DayFromYear y \<le> d \<Longrightarrow> d < DayFromYear (y + 1) \<Longrightarrow> YearFromDay d = y"
proof -
  assume a: "DayFromYear y \<le> d" "d < DayFromYear (y + 1)"
  have b: "DayFromYear (YearFromDay d) \<le> d" "d < DayFromYear (YearFromDay d + 1)"
    using YearFromDay_bounds by auto
  have "\<not> YearFromDay d < y"
    using DayFromYear_mono [of "YearFromDay d + 1" y] a(1) b(2) by auto
  moreover have "\<not> y < YearFromDay d"
    using DayFromYear_mono [of "y + 1" "YearFromDay d"] a(2) b(1) by auto
  ultimately show ?thesis by simp
qed

lemma YearFromDay_mono: "d \<le> d' \<Longrightarrow> YearFromDay d \<le> YearFromDay d'"
proof (rule ccontr)
  assume "d \<le> d'" "\<not> YearFromDay d \<le> YearFromDay d'"
  then have "DayFromYear (YearFromDay d' + 1) \<le> DayFromYear (YearFromDay d)"
    by (intro DayFromYear_mono) simp
  with YearFromDay_bounds [of d] YearFromDay_bounds [of d'] \<open>d \<le> d'\<close> show False by simp
qed

lemma DayWithinYear_bounds: "0 \<le> DayWithinYear d \<and> DayWithinYear d < 365 + InLeapYear d"
proof -
  have "DaysInYear (YearFromDay d) = 365 \<or> DaysInYear (YearFromDay d) = 366"
    by (simp add: DaysInYear_def)
  then show ?thesis
    using YearFromDay_bounds [of d] DayFromYear_Suc [of "YearFromDay d"]
    by (auto simp: DayWithinYear_def InLeapYear_def)
qed

lemma InLeapYear_range: "0 \<le> InLeapYear d \<and> InLeapYear d \<le> 1"
  by (simp add: InLeapYear_def)

lemma MonthFromDay_le: "MonthFromDay d \<le> 11"
  unfolding MonthFromDay_def using length_takeWhile_le [of _ "[0..<11]"] by simp

lemma takeWhile_upt_prefix:
  assumes "m < length (takeWhile P [0..<n])"
  shows "P m"
proof -
  have "takeWhile P [0..<n] = [0..<length (takeWhile P [0..<n])]"
    by (metis takeWhile_eq_take length_takeWhile_le min.absorb1 take_upt length_upt diff_zero add_0)
  then have "m \<in> set (takeWhile P [0..<n])" using assms by (metis atLeastLessThan_iff set_upt zero_le)
  then show ?thesis by (rule set_takeWhileD [THEN conjunct2])
qed

lemma takeWhile_upt_stop:
  assumes "length (takeWhile P [0..<n]) < n"
  shows "\<not> P (length (takeWhile P [0..<n]))"
  using nth_length_takeWhile [of P "[0..<n]"] assms by simp

lemma mes_curto:
  assumes "m \<le> 10" and "0 \<le> L" and "L \<le> 1"
  shows "fim_mes L m - inicio_mes L m \<le> 31"
  using assms unfolding fim_mes_def inicio_mes_def
  by (simp add: le_Suc_eq numeral_eq_Suc) (elim disjE; simp)

lemma DateFromDay_bounds: "1 \<le> DateFromDay d \<and> DateFromDay d \<le> 31"
proof -
  let ?L = "InLeapYear d" and ?w = "DayWithinYear d" and ?M = "MonthFromDay d"
  let ?P = "\<lambda>m. fim_mes ?L m \<le> ?w"
  have M: "?M = length (takeWhile ?P [0..<11])" by (simp add: MonthFromDay_def)
  have w: "0 \<le> ?w" "?w < 365 + ?L" by (simp_all add: DayWithinYear_bounds)
  have L: "0 \<le> ?L" "?L \<le> 1" by (simp_all add: InLeapYear_range)
  have lo: "inicio_mes ?L ?M \<le> ?w"
  proof (cases "?M = 0")
    case False
    then have "?P (?M - 1)" using takeWhile_upt_prefix [of "?M - 1" ?P 11] M by simp
    with False show ?thesis by (simp add: inicio_mes_def)
  qed (simp add: inicio_mes_def w)
  have hi: "?w - inicio_mes ?L ?M \<le> 30"
  proof (cases "?M < 11")
    case True
    then have "\<not> ?P ?M" using takeWhile_upt_stop [of ?P 11] M by simp
    moreover have "fim_mes ?L ?M - inicio_mes ?L ?M \<le> 31" using True L by (intro mes_curto) simp_all
    ultimately show ?thesis by simp
  next
    case False
    then have "?M = 11" using MonthFromDay_le [of d] by simp
    then show ?thesis using w by (simp add: inicio_mes_def fim_mes_def)
  qed
  show ?thesis using lo hi by (simp add: DateFromDay_def)
qed

lemma length_digitos_upper: "n < 10 ^ Suc k \<Longrightarrow> length (digitos n) \<le> Suc k"
proof (induction k arbitrary: n)
  case 0
  then show ?case by (subst digitos.simps) simp
next
  case (Suc k)
  show ?case
  proof (cases "n < 10")
    case False
    have "n div 10 < 10 ^ Suc k" using Suc.prems by (simp add: div_less_iff_less_mult)
    with Suc.IH False show ?thesis by (subst digitos.simps) simp
  qed (subst digitos.simps, simp)
qed

lemma length_digitos_lower: "10 ^ k \<le> n \<Longrightarrow> Suc k \<le> length (digitos n)"
proof (induction k arbitrary: n)
  case 0
  then show ?case using digitos_ne [of n] by (simp add: Suc_le_eq)
next
  case (Suc k)
  have "(10::nat) \<le> 10 ^ Suc k" using one_le_power [of "10::nat" k] by simp
  then have "10 \<le> n" using Suc.prems by (rule order_trans)
  moreover have "10 ^ k \<le> n div 10" using Suc.prems by (simp add: less_eq_div_iff_mult_less_eq mult.commute)
  ultimately show ?case using Suc.IH by (subst digitos.simps) simp
qed

lemma match_replicate_Digit:
  "match_pattern (replicate k Digit) s \<longleftrightarrow> length s = k \<and> (\<forall>c \<in> set s. is_digit c)"
proof (induction k arbitrary: s)
  case (Suc k)
  then show ?case by (cases s) auto
qed auto

lemma match_pattern_append:
  "length s = length ps \<Longrightarrow> match_pattern (ps @ qs) (s @ t) \<longleftrightarrow> match_pattern ps s \<and> match_pattern qs t"
proof (induction ps s rule: match_pattern.induct)
  case (3 p ps c cs)
  then show ?case by simp
qed simp_all

lemma dois_digitos:
  assumes "0 \<le> k" and "k < 100"
  shows "match_pattern (replicate 2 Digit) (padStart 2 CHR ''0'' (js_string_int k))"
proof -
  have "nat k < 10 ^ Suc 1" using assms by simp
  then have "length (digitos (nat k)) \<le> 2" using length_digitos_upper [of "nat k" 1] by (simp add: numeral_2_eq_2)
  then show ?thesis using assms digitos_is_digit [of "nat k"]
    by (auto simp: match_replicate_Digit padStart_def js_string_int_def is_digit_def)
qed

lemma quatro_digitos:
  assumes "1000 \<le> y" and "y \<le> 9999"
  shows "match_pattern (replicate 4 Digit) (js_string_int y)"
proof -
  have "length (digitos (nat y)) \<le> 4" using assms length_digitos_upper [of "nat y" 3] by (simp add: Suc_numeral)
  moreover have "4 \<le> length (digitos (nat y))" using assms length_digitos_lower [of 3 "nat y"] by (simp add: Suc_numeral)
  ultimately show ?thesis using assms digitos_is_digit [of "nat y"]
    by (simp add: match_replicate_Digit js_string_int_def)
qed

lemma formatar_data_regex:
  assumes "1000 \<le> YearFromDay d" and "YearFromDay d \<le> 9999"
  shows "match_pattern dataRegex (formatar_data d)"
proof -
  have y: "match_pattern (replicate 4 Digit) (js_string_int (YearFromDay d))"
    using assms by (rule quatro_digitos)
  have m: "match_pattern (replicate 2 Digit) (padStart 2 CHR ''0'' (js_string_int (int (MonthFromDay d) + 1)))"
    using MonthFromDay_le [of d] by (intro dois_digitos) simp_all
  have t: "match_pattern (replicate 2 Digit) (padStart 2 CHR ''0'' (js_string_int (DateFromDay d)))"
    using DateFromDay_bounds [of d] by (intro dois_digitos) simp_all
  have r: "dataRegex = replicate 4 Digit @ [Lit CHR ''-''] @ replicate 2 Digit @ [Lit CHR ''-''] @ replicate 2 Digit"
    by (simp add: dataRegex_def eval_nat_numeral)
  have f: "formatar_data d = js_string_int (YearFromDay d) @ [CHR ''-'']
             @ padStart 2 CHR ''0'' (js_string_int (int (MonthFromDay d) + 1)) @ [CHR ''-'']
             @ padStart 2 CHR ''0'' (js_string_int (DateFromDay d))"
    by (simp add: formatar_data_def)
  have l: "length (js_string_int (YearFromDay d)) = length (replicate 4 Digit)"
          "length [CHR ''-''] = length [Lit CHR ''-'']"
          "length (padStart 2 CHR ''0'' (js_string_int (int (MonthFromDay d) + 1))) = length (replicate 2 Digit)"
    using y m by (simp_all add: match_replicate_Digit)
  show ?thesis unfolding r f
    by (simp only: match_pattern_append l y m t) simp
qed

text \<open>
  C28. Every date the booking screen offers passes the booking handler's date pattern,
  as long as the fourteen days lie in years with four digits: a date picked on the
  screen is never refused with 400 for its format.
\<close>

theorem datas_passam_regex:
  assumes "1000 \<le> YearFromDay (LocalDay off agora + 1)"
    and "YearFromDay (LocalDay off agora + 14) \<le> 9999"
  shows "\<forall>x \<in> set (gerarDatasDisponiveis off agora). regex_test dataRegex (JStr x)"
proof
  fix x assume "x \<in> set (gerarDatasDisponiveis off agora)"
  then obtain k where k: "x = formatar_data k" "LocalDay off agora + 1 \<le> k" "k \<le> LocalDay off agora + 14"
    by (auto simp: gerarDatasDisponiveis_def gerar_datas_ref diasParaMostrar_def)
  have "1000 \<le> YearFromDay k" using assms(1) YearFromDay_mono [OF k(2)] by simp
  moreover have "YearFromDay k \<le> 9999" using assms(2) YearFromDay_mono [OF k(3)] by simp
  ultimately show "regex_test dataRegex (JStr x)" using formatar_data_regex k(1) by simp
qed

text \<open>
  C20. The archival cutoff is the UTC date of the instant 48 hours before the run, so
  relative to the local date it lies one to three days back depending on the zone and
  the hour, and exactly two days back only in UTC.
\<close>

theorem corte_janela:
  assumes "- msPerDay < off" and "off < msPerDay"
  shows "dataFormatada off agora = iso_data (Day agora - 2)
       \<and> LocalDay off agora - 3 \<le> Day agora - 2 \<and> Day agora - 2 \<le> LocalDay off agora - 1
       \<and> LocalDay 0 agora - 2 = Day agora - 2"
  using LocalDay_bounds [OF assms, of agora]
  by (simp add: dataFormatada_def split_T_0_iso Day_doisDiasAtras LocalDay_def)

lemma Day_doisDiasAtras_fuso:
  assumes "- msPerDay < off" and "off < 0"
    and "msPerDay + off \<le> (agora + off) mod msPerDay"
  shows "Day (doisDiasAtras off agora) = LocalDay off agora - 1"
proof -
  let ?k = msPerDay
  let ?L = "(agora + off) div ?k" and ?r = "(agora + off) mod ?k"
  have split: "?k * ?L + ?r = agora + off" by (rule mult_div_mod_eq)
  have r: "?r < ?k" using msPerDay_pos by simp
  have m: "?k * (?L + 1) = ?k * ?L + ?k" by (simp add: algebra_simps)
  have "agora div ?k = ?L + 1"
  proof (rule div_unique_int [OF msPerDay_pos])
    show "?k * (?L + 1) \<le> agora" using split assms(3) m by linarith
    show "agora < ?k * (?L + 1) + ?k" using split r assms(1) m by linarith
  qed
  then show ?thesis using Day_doisDiasAtras [of off agora] by (simp add: Day_def LocalDay_def)
qed

text \<open>
  C21. West of UTC, late in the local evening, the cutoff text the job compares with is
  the ISO date of yesterday's local date, not of the day before: the job then archives
  appointments that are one day old, not two.
\<close>

theorem corte_fuso_negativo:
  assumes "- msPerDay < off" and "off < 0"
    and "msPerDay + off \<le> (agora + off) mod msPerDay"
  shows "dataFormatada off agora = iso_data (LocalDay off agora - 1)"
  using Day_doisDiasAtras_fuso [OF assms]
  by (simp add: dataFormatada_def split_T_0_iso)

text \<open>
  C18. The candidate dates of the booking screen are the weekdays among the fourteen
  calendar days after the local today, in order, each printed as year, two-digit month
  and two-digit day: the loop computes exactly this list.
\<close>

theorem gerarDatasDisponiveis_ref:
  "gerarDatasDisponiveis off agora =
     map formatar_data (filter dia_util [LocalDay off agora + 1 .. LocalDay off agora + 14])"
  by (simp add: gerarDatasDisponiveis_def gerar_datas_ref diasParaMostrar_def)

text \<open>
  C19. The screen always offers exactly ten dates: fourteen calendar days contain two
  weekends, whatever the day and the zone.
\<close>

theorem gerarDatasDisponiveis_dez:
  "length (gerarDatasDisponiveis off agora) = 10"
  by (simp add: gerarDatasDisponiveis_def gerar_datas_ref diasParaMostrar_def
      quatorze_dias_dez_uteis)

end
