(* ===== verification/Booking.thy ===== *)
theory Booking
  imports Api Calendar "HOL-Library.Sublist"
begin

text \<open>
  The booking screen \<^verbatim>\<open>src/app/(tabs)/cadastrar.tsx\<close>: its React state as a record,
  and each effect and handler as a function of that state and the database it talks
  to through the routes of \<open>Api\<close>. This is where the system computes the free slots
  of a date (the spec's availability calculator): the server has no such route, the
  screen filters the catalogue of \<^verbatim>\<open>GET /api/gestao\<close> by the appointments of
  \<^verbatim>\<open>GET /api/clientes\<close>.
\<close>

record cadastro_ui =
  servicosDisponiveis :: "servico_row list"
  datasDisponiveis :: "string list"
  horariosDisponiveis :: "sqlval list"
  nomeCliente :: jsval
  dataEscolhida :: string
  horaEscolhida :: string
  servicoEscolhido :: string
  valorOrcamento :: jsval

text \<open>The state after mounting, before the effects have run (the \<^verbatim>\<open>useState\<close> calls).\<close>

definition cadastro_inicial :: cadastro_ui where
  "cadastro_inicial =
     \<lparr>servicosDisponiveis = [], datasDisponiveis = [], horariosDisponiveis = [],
      nomeCliente = JStr [], dataEscolhida = [], horaEscolhida = [], servicoEscolhido = [],
      valorOrcamento = JNum 0\<rparr>"

text \<open>\<^verbatim>\<open>await axios.get(...)\<close>: a status outside 2xx throws, and the handlers catch it.\<close>

definition axios_payload :: "response \<Rightarrow> payload option" where
  "axios_payload r = (if 200 \<le> status r \<and> status r < 300 then Some (payload r) else None)"

text \<open>\<^verbatim>\<open>carregarServicosDisponiveis\<close>: the catalogue of services, kept as it was on failure.\<close>

definition carregarServicosDisponiveis :: "db_status \<Rightarrow> db \<Rightarrow> cadastro_ui \<Rightarrow> cadastro_ui" where
  "carregarServicosDisponiveis r s u =
     (case axios_payload (api_servicos r s) of
        Some (Servicos xs) \<Rightarrow> u\<lparr>servicosDisponiveis := xs\<rparr>
      | _ \<Rightarrow> u)"

subsection \<open>Free slots of a date\<close>

text \<open>\<^verbatim>\<open>responseClientes.data.filter(item => item.data === dataEscolhida).map(item => item.hora)\<close>\<close>

definition horarios_ocupados :: "cliente list \<Rightarrow> string \<Rightarrow> sqlval list" where
  "horarios_ocupados rows d = map hora (filter (\<lambda>c. data c = SText d) rows)"

text \<open>\<^verbatim>\<open>todosHorarios.filter(hora => !horariosOcupados.includes(hora))\<close>\<close>

definition horarios_livres :: "sqlval list \<Rightarrow> sqlval list \<Rightarrow> sqlval list" where
  "horarios_livres todos ocupados = filter (\<lambda>h. h \<notin> set ocupados) todos"

text \<open>
  The effect on \<open>[dataEscolhida]\<close>: nothing for an empty date; otherwise both reads,
  and the new list of free slots only if both succeed. The catalogue is read after the
  appointments; no route writes \<^verbatim>\<open>gestao\<close>, so reading both from one database state
  loses no behaviour.
\<close>

definition consultarHorariosDisponiveis ::
  "db_status \<Rightarrow> db_status \<Rightarrow> db \<Rightarrow> cadastro_ui \<Rightarrow> cadastro_ui" where
  "consultarHorariosDisponiveis r1 r2 s u =
     (if dataEscolhida u = [] then u
      else (case axios_payload (api_clientes r1 s) of
              Some (Clientes rows) \<Rightarrow>
                (case axios_payload (api_gestao r2 s) of
                   Some (Horarios todos) \<Rightarrow>
                     u\<lparr>horariosDisponiveis :=
                         horarios_livres todos (horarios_ocupados rows (dataEscolhida u))\<rparr>
                 | _ \<Rightarrow> u)
            | _ \<Rightarrow> u))"

text \<open>Choosing a date in the first \<^verbatim>\<open><select>\<close>, which triggers the effect.\<close>

definition selecionarData ::
  "string \<Rightarrow> db_status \<Rightarrow> db_status \<Rightarrow> db \<Rightarrow> cadastro_ui \<Rightarrow> cadastro_ui" where
  "selecionarData d r1 r2 s u = consultarHorariosDisponiveis r1 r2 s (u\<lparr>dataEscolhida := d\<rparr>)"

subsection \<open>Choosing a service and submitting\<close>

text \<open>
  The \<^verbatim>\<open>onChange\<close> of the service \<^verbatim>\<open><select>\<close>: the price of the first service of
  that name, or 0 when there is none.
\<close>

definition escolherServico :: "string \<Rightarrow> cadastro_ui \<Rightarrow> cadastro_ui" where
  "escolherServico v u =
     (case find (\<lambda>sv. sql_to_js (nome sv) = JStr v) (servicosDisponiveis u) of
        Some sv \<Rightarrow> u\<lparr>servicoEscolhido := v, valorOrcamento := sql_to_js (preco sv)\<rparr>
      | None \<Rightarrow> u\<lparr>servicoEscolhido := v, valorOrcamento := JNum 0\<rparr>)"

text \<open>
  \<^verbatim>\<open>handleFormSubmit\<close>: a date and a time must be chosen; the form is posted, and on
  201 the fields are cleared. Any other status lands in the \<^verbatim>\<open>catch\<close>, which only
  alerts. The list of free slots is not refreshed.
\<close>

definition handleFormSubmit :: "db_status \<Rightarrow> db \<Rightarrow> cadastro_ui \<Rightarrow> cadastro_ui \<times> db" where
  "handleFormSubmit r s u =
     (if dataEscolhida u = [] \<or> horaEscolhida u = [] then (u, s)
      else (case api_cadastro (nomeCliente u) (JStr (dataEscolhida u)) (JStr (horaEscolhida u))
                   (JStr (servicoEscolhido u)) (valorOrcamento u) r s of
              (resp, s') \<Rightarrow>
                (if status resp = 201
                 then (u\<lparr>nomeCliente := JStr [], dataEscolhida := [], horaEscolhida := [],
                         servicoEscolhido := [], valorOrcamento := JNum 0\<rparr>, s')
                 else (u, s'))))"

text \<open>
  The synchronous half of the mount effect: \<^verbatim>\<open>gerarDatasDisponiveis()\<close> fills the
  date options from the clock (its other half, \<^verbatim>\<open>carregarServicosDisponiveis\<close>,
  completes asynchronously).
\<close>

definition montarDatas :: "ms \<Rightarrow> ms \<Rightarrow> cadastro_ui \<Rightarrow> cadastro_ui" where
  "montarDatas off agora u = u\<lparr>datasDisponiveis := gerarDatasDisponiveis off agora\<rparr>"

text \<open>
  The browser submits the form only when its \<^verbatim>\<open>required\<close> controls hold a value: the
  name input is not empty, and each controlled \<^verbatim>\<open><select>\<close> shows an option other
  than the empty placeholder, which is the case exactly when its state value is one of
  its options (React shows the first option, the placeholder, otherwise).
\<close>

definition formulario_valido :: "cadastro_ui \<Rightarrow> bool" where
  "formulario_valido u \<longleftrightarrow>
     nomeCliente u \<noteq> JStr []
     \<and> dataEscolhida u \<in> set (datasDisponiveis u)
     \<and> SText (horaEscolhida u) \<in> set (horariosDisponiveis u)
     \<and> SText (servicoEscolhido u) \<in> nome ` set (servicosDisponiveis u)"

subsection \<open>The specification of availability\<close>

text \<open>
  What the spec's \<open>availableSlots(date)\<close> promises: the catalogue slots that no active
  appointment of that date occupies.
\<close>

definition available_slots :: "db \<Rightarrow> string \<Rightarrow> sqlval set" where
  "available_slots s d = {x \<in> set (gestao s). (SText d, x) \<notin> slot ` set (clientes s)}"

definition occupied_slots :: "db \<Rightarrow> string \<Rightarrow> sqlval set" where
  "occupied_slots s d = {x. (SText d, x) \<in> slot ` set (clientes s)}"

lemma set_horarios_ocupados:
  "set (horarios_ocupados rows d) = {x. (SText d, x) \<in> slot ` set rows}"
  by (force simp: horarios_ocupados_def slot_def)

lemma consultar_ok:
  "dataEscolhida u \<noteq> [] \<Longrightarrow>
   consultarHorariosDisponiveis DbOk DbOk s u =
     u\<lparr>horariosDisponiveis :=
         horarios_livres (gestao s) (horarios_ocupados (clientes s) (dataEscolhida u))\<rparr>"
  by (simp add: consultarHorariosDisponiveis_def axios_payload_def api_simps)

lemma consultar_error:
  "r1 = DbError \<or> r2 = DbError \<Longrightarrow> consultarHorariosDisponiveis r1 r2 s u = u"
  by (cases r1; cases r2)
     (auto simp: consultarHorariosDisponiveis_def axios_payload_def api_simps)

lemma selecionarData_ok:
  "d \<noteq> [] \<Longrightarrow>
   horariosDisponiveis (selecionarData d DbOk DbOk s u) =
     filter (\<lambda>x. (SText d, x) \<notin> slot ` set (clientes s)) (gestao s)"
  by (simp add: selecionarData_def consultar_ok horarios_livres_def set_horarios_ocupados)

lemma api_cadastro_keeps_no_double_booking:
  assumes "no_double_booking (clientes s)"
    and "(sql_bind d, sql_bind h) \<notin> slot ` set (clientes s)"
  shows "no_double_booking (clientes (snd (api_cadastro n d h sv v r s)))"
  using assms
  by (cases "cadastro_valid n d h sv v"; cases r)
     (simp_all add: api_cadastro_valid_ok api_cadastro_invalid no_double_booking_insert_iff
        api_cadastro_def cadastro_valid_def)

lemma handleFormSubmit_db:
  "snd (handleFormSubmit r s u) =
     (if dataEscolhida u = [] \<or> horaEscolhida u = [] then s
      else snd (api_cadastro (nomeCliente u) (JStr (dataEscolhida u)) (JStr (horaEscolhida u))
                  (JStr (servicoEscolhido u)) (valorOrcamento u) r s))"
  by (simp add: handleFormSubmit_def split: prod.split)

text \<open>
  C14. The free slots the screen offers for a non-empty date are, in catalogue order,
  the catalogue slots no active appointment of that date holds: they refine the
  spec's \<open>availableSlots\<close>, and together with the occupied slots they cover the
  catalogue without overlap.
\<close>

theorem horarios_disponiveis_refine:
  assumes "d \<noteq> []"
  shows "set (horariosDisponiveis (selecionarData d DbOk DbOk s u)) = available_slots s d
    \<and> subseq (horariosDisponiveis (selecionarData d DbOk DbOk s u)) (gestao s)
    \<and> available_slots s d \<union> (occupied_slots s d \<inter> set (gestao s)) = set (gestao s)
    \<and> available_slots s d \<inter> occupied_slots s d = {}"
  using assms
  by (auto simp: selecionarData_ok available_slots_def occupied_slots_def)

text \<open>
  C2. Booked one at a time, the screen never double-books: a slot chosen from the free
  slots just read for a date, and submitted against the same database, leaves at most
  one active appointment per slot, whatever the server answers.
\<close>

theorem reserva_sequencial_sem_conflito:
  assumes "no_double_booking (clientes s)"
    and "d \<noteq> []"
    and "SText h \<in> set (horariosDisponiveis (selecionarData d DbOk DbOk s u))"
  shows "no_double_booking
           (clientes (snd (handleFormSubmit r s ((selecionarData d DbOk DbOk s u)\<lparr>horaEscolhida := h\<rparr>))))"
proof -
  have free: "(SText d, SText h) \<notin> slot ` set (clientes s)"
    using assms(2,3) by (simp add: selecionarData_ok)
  have date: "dataEscolhida (selecionarData d DbOk DbOk s u) = d"
    by (simp add: selecionarData_def consultarHorariosDisponiveis_def split: option.split payload.split)
  show ?thesis
    using assms(1) free date
    by (simp add: handleFormSubmit_db api_cadastro_keeps_no_double_booking)
qed

lemma carregar_ok:
  "carregarServicosDisponiveis DbOk b u = u\<lparr>servicosDisponiveis := servicos b\<rparr>"
  by (simp add: carregarServicosDisponiveis_def axios_payload_def api_simps)

lemma selecionarData_fields:
  "dataEscolhida (selecionarData d r1 r2 b u) = d
   \<and> datasDisponiveis (selecionarData d r1 r2 b u) = datasDisponiveis u
   \<and> servicosDisponiveis (selecionarData d r1 r2 b u) = servicosDisponiveis u
   \<and> horaEscolhida (selecionarData d r1 r2 b u) = horaEscolhida u
   \<and> nomeCliente (selecionarData d r1 r2 b u) = nomeCliente u"
  by (simp add: selecionarData_def consultarHorariosDisponiveis_def
      split: option.split payload.split)

lemma escolherServico_fields:
  "servicoEscolhido (escolherServico v u) = v
   \<and> dataEscolhida (escolherServico v u) = dataEscolhida u
   \<and> datasDisponiveis (escolherServico v u) = datasDisponiveis u
   \<and> horariosDisponiveis (escolherServico v u) = horariosDisponiveis u
   \<and> servicosDisponiveis (escolherServico v u) = servicosDisponiveis u
   \<and> horaEscolhida (escolherServico v u) = horaEscolhida u
   \<and> nomeCliente (escolherServico v u) = nomeCliente u"
  by (simp add: escolherServico_def split: option.split)

lemma escolherServico_preco:
  "find (\<lambda>x. sql_to_js (nome x) = JStr v) (servicosDisponiveis u) = Some sv \<Longrightarrow>
   valorOrcamento (escolherServico v u) = sql_to_js (preco sv)"
  by (simp add: escolherServico_def)

lemma find_servico_nome:
  "find (\<lambda>x. sql_to_js (nome x) = JStr v) xs = Some sv \<Longrightarrow> SText v \<in> nome ` set xs"
proof -
  assume "find (\<lambda>x. sql_to_js (nome x) = JStr v) xs = Some sv"
  then have "sv \<in> set xs" "sql_to_js (nome sv) = JStr v"
    by (auto simp: find_Some_iff)
  moreover have "sql_to_js (nome sv) = JStr v \<Longrightarrow> nome sv = SText v"
    by (cases "nome sv") simp_all
  ultimately show ?thesis by force
qed

text \<open>
  C15. When either read fails, choosing a date keeps the free slots computed for the
  previous date: the screen then offers, for the new date, slots it never checked.
\<close>

theorem consulta_falha_lista_antiga:
  assumes "r1 = DbError \<or> r2 = DbError"
  shows "horariosDisponiveis (selecionarData d r1 r2 s u) = horariosDisponiveis u
       \<and> dataEscolhida (selecionarData d r1 r2 s u) = d"
  using assms by (simp add: selecionarData_def consultar_error)

end
