(* ===== verification/Archival.thy ===== *)
theory Archival
  imports Store Calendar "HOL-Library.Sublist"
begin

text \<open>
  The background job \<^verbatim>\<open>arquivarAgendamentosConcluidos\<close> of \<^verbatim>\<open>src/api.js\<close>
  (lines 112--155): one query for the active appointments dated on or before the
  cutoff, then for each of them an \<^verbatim>\<open>INSERT\<close> into \<^verbatim>\<open>concluidos\<close> and, only in
  the callback of a successful insert, a \<^verbatim>\<open>DELETE\<close> of the row by its id. Each
  candidate's two statements are modelled as one step whose outcomes come from an
  oracle \<open>io\<close>: the status of the insert, the status of the delete, and the
  \<^verbatim>\<open>new Date().toISOString()\<close> written as \<^verbatim>\<open>concluido_em\<close>. The cutoff text is a
  parameter here; \<open>Calendar\<close> computes it from the clock.
\<close>

type_synonym arq_io = "db_status \<times> db_status \<times> string"

definition arquivar_um :: "cliente \<Rightarrow> arq_io \<Rightarrow> db \<Rightarrow> db" where
  "arquivar_um c io s =
     (case io of
        (DbError, _, _) \<Rightarrow> s
      | (DbOk, rd, t) \<Rightarrow>
          (let s1 = s\<lparr>concluidos := insert_concluido c (SText t) (concluidos s)\<rparr>
           in case rd of
                DbError \<Rightarrow> s1
              | DbOk \<Rightarrow> s1\<lparr>clientes := delete_cliente (cliente_id c) (clientes s1)\<rparr>))"

text \<open>\<^verbatim>\<open>agendamentos.forEach(...)\<close> over the rows the query returned.\<close>

definition arquivar_todos :: "(cliente \<Rightarrow> arq_io) \<Rightarrow> cliente list \<Rightarrow> db \<Rightarrow> db" where
  "arquivar_todos io xs s = fold (\<lambda>c. arquivar_um c (io c)) xs s"

text \<open>One run for a given cutoff text: a failed query logs and ends the run.\<close>

definition arquivar_run :: "string \<Rightarrow> db_status \<Rightarrow> (cliente \<Rightarrow> arq_io) \<Rightarrow> db \<Rightarrow> db" where
  "arquivar_run t r io s =
     (case r of
        DbError \<Rightarrow> s
      | DbOk \<Rightarrow> arquivar_todos io (select_data_le t (clientes s)) s)"

text \<open>
  \<^verbatim>\<open>arquivarAgendamentosConcluidos()\<close>: the cutoff is the text \<open>dataFormatada\<close>
  computed from the clock and the zone, then one run.
\<close>

definition arquivarAgendamentosConcluidos ::
  "ms \<Rightarrow> ms \<Rightarrow> db_status \<Rightarrow> (cliente \<Rightarrow> arq_io) \<Rightarrow> db \<Rightarrow> db" where
  "arquivarAgendamentosConcluidos off agora r io s = arquivar_run (dataFormatada off agora) r io s"

text \<open>
  The schedule at the end of \<^verbatim>\<open>api.js\<close>: \<^verbatim>\<open>setInterval(arquivarAgendamentosConcluidos,
  24 * 60 * 60 * 1000)\<close> and one call at start-up. Run \<open>n\<close> (from 0) starts \<open>n\<close> periods after
  the server starts at \<open>t0\<close>; timer drift is not modelled.
\<close>

definition intervalo_arquivo :: int where
  "intervalo_arquivo = 24 * 60 * 60 * 1000"

definition instante_execucao :: "ms \<Rightarrow> nat \<Rightarrow> ms" where
  "instante_execucao t0 n = t0 + int n * intervalo_arquivo"

subsection \<open>Outcomes of one candidate\<close>

definition ins_ok :: "arq_io \<Rightarrow> bool" where
  "ins_ok io \<longleftrightarrow> fst io = DbOk"

definition both_ok :: "arq_io \<Rightarrow> bool" where
  "both_ok io \<longleftrightarrow> fst io = DbOk \<and> fst (snd io) = DbOk"

definition carimbo :: "arq_io \<Rightarrow> sqlval" where
  "carimbo io = SText (snd (snd io))"

text \<open>The fields of an appointment that its archived copy keeps (all but the id).\<close>

definition campos :: "cliente \<Rightarrow> sqlval \<times> sqlval \<times> sqlval \<times> sqlval \<times> sqlval" where
  "campos c = (nome_cliente c, data c, hora c, servico c, valor_orcamento c)"

definition campos_arq :: "concluido \<Rightarrow> sqlval \<times> sqlval \<times> sqlval \<times> sqlval \<times> sqlval" where
  "campos_arq a = (arq_nome_cliente a, arq_data a, arq_hora a, arq_servico a, arq_valor_orcamento a)"

lemma campos_registro [simp]: "campos_arq (registro_concluido c t) = campos c"
  by (simp add: campos_arq_def campos_def registro_concluido_def)

lemma arquivar_um_clientes:
  "clientes (arquivar_um c io s) =
     (if both_ok io then filter (\<lambda>x. cliente_id x \<noteq> cliente_id c) (clientes s) else clientes s)"
  by (auto simp: arquivar_um_def both_ok_def delete_cliente_def Let_def
      split: prod.split db_status.split)

lemma arquivar_um_concluidos:
  "concluidos (arquivar_um c io s) =
     (if ins_ok io then concluidos s @ [registro_concluido c (carimbo io)] else concluidos s)"
  by (auto simp: arquivar_um_def ins_ok_def carimbo_def insert_concluido_def Let_def
      split: prod.split db_status.split)

text \<open>
  The closed form of a whole batch: the rows removed are those whose id belongs to a
  candidate with both statements successful, and the history grows by one copy per
  successful insert, in batch order.
\<close>

lemma arquivar_todos_closed:
  "clientes (arquivar_todos io xs s) =
     filter (\<lambda>c. cliente_id c \<notin> cliente_id ` {x \<in> set xs. both_ok (io x)}) (clientes s)
   \<and> concluidos (arquivar_todos io xs s) =
     concluidos s @ map (\<lambda>x. registro_concluido x (carimbo (io x))) (filter (\<lambda>x. ins_ok (io x)) xs)"
proof (induction xs arbitrary: s)
  case Nil
  then show ?case by (simp add: arquivar_todos_def)
next
  case (Cons x xs)
  have unfold: "arquivar_todos io (x # xs) s = arquivar_todos io xs (arquivar_um x (io x) s)"
    by (simp add: arquivar_todos_def)
  show ?case
    unfolding unfold using Cons.IH [of "arquivar_um x (io x) s"]
    by (auto simp: arquivar_um_clientes arquivar_um_concluidos both_ok_def ins_ok_def
        intro!: filter_cong)
qed

lemma arquivar_todos_other:
  "gestao (arquivar_todos io xs s) = gestao s \<and> servicos (arquivar_todos io xs s) = servicos s"
proof (induction xs arbitrary: s)
  case (Cons x xs)
  then show ?case
    by (simp add: arquivar_todos_def arquivar_um_def Let_def split: prod.split db_status.split)
qed (simp add: arquivar_todos_def)

lemma id_in_candidates:
  assumes "ids_distinct xs" and "c \<in> set xs"
  shows "cliente_id c \<in> cliente_id ` {x \<in> set (filter P xs). Q x} \<longleftrightarrow> P c \<and> Q c"
proof
  assume "cliente_id c \<in> cliente_id ` {x \<in> set (filter P xs). Q x}"
  then obtain x where x: "x \<in> set xs" "P x" "Q x" "cliente_id x = cliente_id c" by auto
  with assms have "x = c"
    by (auto simp: ids_distinct_def dest: inj_onD [OF distinct_map [THEN iffD1, THEN conjunct2]])
  with x show "P c \<and> Q c" by simp
qed (use assms in auto)

lemma arquivar_run_closed:
  "arquivar_run t r io s =
     (case r of
        DbError \<Rightarrow> s
      | DbOk \<Rightarrow> arquivar_todos io (select_data_le t (clientes s)) s)"
  by (simp add: arquivar_run_def)

lemma arquivar_run_ok_clientes:
  assumes "ids_distinct (clientes s)"
  shows "clientes (arquivar_run t DbOk io s) =
           filter (\<lambda>c. \<not> (sql_le_text (data c) t \<and> both_ok (io c))) (clientes s)"
proof -
  have "\<And>c. c \<in> set (clientes s) \<Longrightarrow>
          (cliente_id c \<notin> cliente_id ` {x \<in> set (select_data_le t (clientes s)). both_ok (io x)})
          = (\<not> (sql_le_text (data c) t \<and> both_ok (io c)))"
    using id_in_candidates [OF assms] by (simp add: select_data_le_def)
  then show ?thesis
    by (simp add: arquivar_run_def arquivar_todos_closed cong: filter_cong)
qed

lemma arquivar_run_ok_concluidos:
  "concluidos (arquivar_run t DbOk io s) =
     concluidos s @ map (\<lambda>x. registro_concluido x (carimbo (io x)))
                      (filter (\<lambda>x. ins_ok (io x)) (select_data_le t (clientes s)))"
  by (simp add: arquivar_run_def arquivar_todos_closed)

lemma arquivar_run_concluidos_prefix:
  "prefix (concluidos s) (concluidos (arquivar_run t r io s))"
  by (cases r) (simp_all add: arquivar_run_def arquivar_todos_closed)

lemma count_map_member:
  "x \<in> set xs \<Longrightarrow> 1 \<le> count (mset (map f xs)) (f x)"
  by (induction xs) auto

text \<open>
  C4. A run never loses an appointment: each active appointment is afterwards still
  active or has a copy in the history, whatever statements fail, and the history
  before the run is kept as a prefix.
\<close>

theorem arquivar_sem_perda:
  assumes "ids_distinct (clientes s)" and "c \<in> set (clientes s)"
  shows "(c \<in> set (clientes (arquivar_run t r io s))
          \<or> registro_concluido c (carimbo (io c)) \<in> set (concluidos (arquivar_run t r io s)))
       \<and> prefix (concluidos s) (concluidos (arquivar_run t r io s))"
proof (cases r)
  case DbError
  with assms show ?thesis by (simp add: arquivar_run_def)
next
  case DbOk
  have "c \<notin> set (clientes (arquivar_run t r io s)) \<Longrightarrow>
        registro_concluido c (carimbo (io c)) \<in> set (concluidos (arquivar_run t r io s))"
    using assms DbOk
    by (auto simp: arquivar_run_ok_clientes arquivar_run_ok_concluidos select_data_le_def
        both_ok_def ins_ok_def)
  then show ?thesis using arquivar_run_concluidos_prefix by blast
qed

text \<open>
  C5. A run in which every statement succeeds moves exactly the appointments dated on
  or before the cutoff: they leave the active table, and the history gains one copy of
  each, in table order, with its timestamp.
\<close>

theorem arquivar_todos_ok:
  assumes "ids_distinct (clientes s)" and "\<forall>c. both_ok (io c)"
  shows "clientes (arquivar_run t DbOk io s) = filter (\<lambda>c. \<not> sql_le_text (data c) t) (clientes s)
       \<and> concluidos (arquivar_run t DbOk io s) =
           concluidos s @ map (\<lambda>c. registro_concluido c (carimbo (io c))) (select_data_le t (clientes s))"
  using assms
  by (simp add: arquivar_run_ok_clientes arquivar_run_ok_concluidos both_ok_def ins_ok_def)

text \<open>
  C6. The order in which the per-appointment callbacks complete does not matter: any
  permutation of the candidates leaves the same active table and the same multiset of
  history entries.
\<close>

theorem arquivar_ordem_indiferente:
  assumes "mset ys = mset (select_data_le t (clientes s))"
  shows "clientes (arquivar_todos io ys s) = clientes (arquivar_run t DbOk io s)
       \<and> mset (concluidos (arquivar_todos io ys s)) = mset (concluidos (arquivar_run t DbOk io s))"
proof -
  have "set ys = set (select_data_le t (clientes s))"
    using assms by (metis set_mset_mset)
  moreover have "mset (map (\<lambda>x. registro_concluido x (carimbo (io x))) (filter (\<lambda>x. ins_ok (io x)) ys))
    = mset (map (\<lambda>x. registro_concluido x (carimbo (io x)))
              (filter (\<lambda>x. ins_ok (io x)) (select_data_le t (clientes s))))"
    using assms by simp
  ultimately show ?thesis
    by (simp add: arquivar_run_def arquivar_todos_closed)
qed

text \<open>
  C7. Once a run has succeeded everywhere, running again with the same cutoff changes
  nothing: no appointment is archived twice.
\<close>

theorem arquivar_rerun_idempotente:
  assumes "ids_distinct (clientes s)" and "\<forall>c. both_ok (io1 c)"
  shows "arquivar_run t r io2 (arquivar_run t DbOk io1 s) = arquivar_run t DbOk io1 s"
proof (cases r)
  case DbOk
  have "select_data_le t (clientes (arquivar_run t DbOk io1 s)) = []"
    using assms by (simp add: arquivar_run_ok_clientes select_data_le_def both_ok_def)
  with DbOk show ?thesis by (simp add: arquivar_run_def arquivar_todos_def)
qed (simp add: arquivar_run_def)

text \<open>
  C8. A failed delete after a successful insert leaves the appointment active, so the
  next run archives it again: the history then holds two copies of it. The spec's
  idempotent re-run does not hold when a delete fails.
\<close>

theorem arquivar_duplica_apos_falha:
  assumes "ids_distinct (clientes s)" and "c \<in> set (clientes s)" and "sql_le_text (data c) t"
    and "io1 c = (DbOk, DbError, t1)" and "ins_ok (io2 c)"
  shows "count (mset (map campos_arq (concluidos (arquivar_run t DbOk io2 (arquivar_run t DbOk io1 s)))))
                (campos c)
         \<ge> count (mset (map campos_arq (concluidos s))) (campos c) + 2"
proof -
  let ?s1 = "arquivar_run t DbOk io1 s"
  have ids1: "ids_distinct (clientes ?s1)"
    using assms(1) by (simp add: arquivar_run_ok_clientes ids_distinct_def distinct_map_filter_keys)
  have c1: "c \<in> set (clientes ?s1)"
    using assms by (simp add: arquivar_run_ok_clientes both_ok_def)
  have h1: "c \<in> set (filter (\<lambda>x. ins_ok (io1 x)) (select_data_le t (clientes s)))"
    using assms by (simp add: select_data_le_def ins_ok_def)
  have h2: "c \<in> set (filter (\<lambda>x. ins_ok (io2 x)) (select_data_le t (clientes ?s1)))"
    using assms c1 by (simp add: select_data_le_def)
  have m: "map campos_arq (concluidos (arquivar_run t DbOk io2 ?s1)) =
      map campos_arq (concluidos s)
      @ map campos (filter (\<lambda>x. ins_ok (io1 x)) (select_data_le t (clientes s)))
      @ map campos (filter (\<lambda>x. ins_ok (io2 x)) (select_data_le t (clientes ?s1)))"
    by (simp add: arquivar_run_ok_concluidos comp_def)
  have "count (mset (map campos_arq (concluidos (arquivar_run t DbOk io2 ?s1)))) (campos c) =
      count (mset (map campos_arq (concluidos s))) (campos c)
      + count (mset (map campos (filter (\<lambda>x. ins_ok (io1 x)) (select_data_le t (clientes s))))) (campos c)
      + count (mset (map campos (filter (\<lambda>x. ins_ok (io2 x)) (select_data_le t (clientes ?s1))))) (campos c)"
    unfolding m by (simp only: mset_append count_union add.assoc)
  then show ?thesis
    using count_map_member [OF h1, of campos] count_map_member [OF h2, of campos] by linarith
qed

end
