(* ===== verification/System.thy ===== *)
theory System
  imports Booking Archival
begin

text \<open>
  The whole system as a transition relation: the database shared by every request, the
  booking screens of any number of clients (\<^verbatim>\<open>cadastrar.tsx\<close>), the staff's edit and
  cancel requests, and the archival job, whose query and per-appointment statements are
  separate steps so that requests interleave with a run (spec section 5). The job keeps
  the candidates it has listed and not yet processed; a new run started by
  \<^verbatim>\<open>setInterval\<close> before an old one finished adds its own candidates.
\<close>

record sistema =
  banco :: db
  telas :: "nat \<Rightarrow> cadastro_ui"
  pendentes :: "cliente list"

definition sistema_inicial :: "db \<Rightarrow> sistema" where
  "sistema_inicial b = \<lparr>banco = b, telas = (\<lambda>_. cadastro_inicial), pendentes = []\<rparr>"

definition tela_update :: "nat \<Rightarrow> cadastro_ui \<Rightarrow> sistema \<Rightarrow> sistema" where
  "tela_update i u s = s\<lparr>telas := (telas s)(i := u)\<rparr>"

inductive passo :: "sistema \<Rightarrow> sistema \<Rightarrow> bool" where
  montar:
    "passo s (tela_update i (montarDatas off agora (telas s i)) s)"
| carregar:
    "passo s (tela_update i (carregarServicosDisponiveis r (banco s) (telas s i)) s)"
| consultar:
    "d \<in> set (datasDisponiveis (telas s i)) \<or> d = [] \<Longrightarrow>
     passo s (tela_update i (selecionarData d r1 r2 (banco s) (telas s i)) s)"
| escolher_hora:
    "SText h \<in> set (horariosDisponiveis (telas s i)) \<or> h = [] \<Longrightarrow>
     passo s (tela_update i ((telas s i)\<lparr>horaEscolhida := h\<rparr>) s)"
| escolher_servico:
    "SText v \<in> nome ` set (servicosDisponiveis (telas s i)) \<or> v = [] \<Longrightarrow>
     passo s (tela_update i (escolherServico v (telas s i)) s)"
| digitar_nome:
    "passo s (tela_update i ((telas s i)\<lparr>nomeCliente := JStr n\<rparr>) s)"
| enviar:
    "formulario_valido (telas s i) \<Longrightarrow> handleFormSubmit r (banco s) (telas s i) = (u, b) \<Longrightarrow>
     passo s ((tela_update i u s)\<lparr>banco := b\<rparr>)"
| editar:
    "passo s (s\<lparr>banco := snd (api_put_agendamento k n sv v r (banco s))\<rparr>)"
| excluir:
    "passo s (s\<lparr>banco := snd (api_delete_agendamento k r (banco s))\<rparr>)"
| listar_arquivo:
    "passo s (s\<lparr>pendentes := pendentes s @ select_data_le t (clientes (banco s))\<rparr>)"
| arquivar:
    "c \<in> set (pendentes s) \<Longrightarrow>
     passo s (s\<lparr>banco := arquivar_um c io (banco s), pendentes := remove1 c (pendentes s)\<rparr>)"

inductive alcancavel :: "db \<Rightarrow> sistema \<Rightarrow> bool" where
  inicio: "alcancavel b (sistema_inicial b)"
| passo: "alcancavel b s \<Longrightarrow> passo s s' \<Longrightarrow> alcancavel b s'"

inductive_cases passo_cases: "passo s s'"

text \<open>
  One client filling the booking form: the services are loaded, a date is chosen (its
  free slots are read), then a time from the list, a service and a name.
\<close>

definition preencher ::
  "ms \<Rightarrow> ms \<Rightarrow> db \<Rightarrow> string \<Rightarrow> string \<Rightarrow> string \<Rightarrow> string \<Rightarrow> cadastro_ui \<Rightarrow> cadastro_ui" where
  "preencher off agora b d h v n u =
     (escolherServico v
        ((selecionarData d DbOk DbOk b (carregarServicosDisponiveis DbOk b (montarDatas off agora u)))
           \<lparr>horaEscolhida := h\<rparr>))\<lparr>nomeCliente := JStr n\<rparr>"

text \<open>
  The typing of the whole system: the database is well formed and so is every candidate
  the archival job holds, since the job copies them into the archive.
\<close>

definition sistema_bem_formado :: "sistema \<Rightarrow> bool" where
  "sistema_bem_formado s \<longleftrightarrow> db_bem_formado (banco s) \<and> list_all linha_bem_formada (pendentes s)"

subsection \<open>Frame lemmas\<close>

lemma tela_update_simps [simp]:
  "banco (tela_update i u s) = banco s"
  "pendentes (tela_update i u s) = pendentes s"
  "telas (tela_update i u s) j = (if j = i then u else telas s j)"
  "tela_update i u (tela_update i w s) = tela_update i u s"
  by (simp_all add: tela_update_def)

lemma alcancavel_eq: "alcancavel b s \<Longrightarrow> s = s' \<Longrightarrow> alcancavel b s'"
  by simp

lemma api_cadastro_ids_distinct:
  "ids_distinct (clientes s) \<Longrightarrow> ids_distinct (clientes (snd (api_cadastro n d h sv v r s)))"
  by (cases "cadastro_valid n d h sv v"; cases r)
     (simp_all add: api_cadastro_valid_ok api_cadastro_invalid ids_distinct_insert api_cadastro_def
        cadastro_valid_def)

lemma passo_ids_distinct:
  assumes "passo s s'" and "ids_distinct (clientes (banco s))"
  shows "ids_distinct (clientes (banco s'))"
  using assms
proof (induction rule: passo.induct)
  case (enviar s i r u b)
  then have "b = snd (handleFormSubmit r (banco s) (telas s i))" by simp
  then show ?case
    using enviar.prems api_cadastro_ids_distinct by (simp add: handleFormSubmit_db)
next
  case (arquivar c s io)
  then show ?case
    by (simp add: arquivar_um_clientes ids_distinct_def distinct_map_filter_keys)
qed (auto simp: api_put_agendamento_def api_delete_agendamento_def ids_distinct_update
        ids_distinct_delete split: db_status.split)

lemma api_cadastro_frame:
  "concluidos (snd (api_cadastro n d h sv v r s)) = concluidos s
   \<and> gestao (snd (api_cadastro n d h sv v r s)) = gestao s
   \<and> servicos (snd (api_cadastro n d h sv v r s)) = servicos s"
  by (simp add: api_cadastro_def split: db_status.split)

lemma handleFormSubmit_frame:
  "concluidos (snd (handleFormSubmit r s u)) = concluidos s
   \<and> gestao (snd (handleFormSubmit r s u)) = gestao s
   \<and> servicos (snd (handleFormSubmit r s u)) = servicos s"
  by (simp add: handleFormSubmit_db api_cadastro_frame)

lemma arquivar_um_frame:
  "gestao (arquivar_um c io s) = gestao s \<and> servicos (arquivar_um c io s) = servicos s
   \<and> prefix (concluidos s) (concluidos (arquivar_um c io s))"
  by (simp add: arquivar_um_def arquivar_um_concluidos insert_concluido_def Let_def
      split: prod.split db_status.split)

lemma passo_frame:
  assumes "passo s s'"
  shows "prefix (concluidos (banco s)) (concluidos (banco s'))
       \<and> gestao (banco s') = gestao (banco s) \<and> servicos (banco s') = servicos (banco s)"
  using assms
proof (induction rule: passo.induct)
  case (enviar s i r u b)
  then have "b = snd (handleFormSubmit r (banco s) (telas s i))" by simp
  then show ?case using handleFormSubmit_frame [of r "banco s" "telas s i"] by simp
next
  case (arquivar c s io)
  then show ?case using arquivar_um_frame [of c io "banco s"] by simp
qed (auto simp: api_put_agendamento_def api_delete_agendamento_def split: db_status.split)

text \<open>
  C16. Every state the system reaches from a database whose rowids are distinct keeps
  them distinct, keeps the whole history it started with as a prefix (the archive is
  append-only), and leaves the slot and service catalogues as they were.
\<close>

theorem alcancavel_invariante:
  assumes "alcancavel b s" and "ids_distinct (clientes b)"
  shows "ids_distinct (clientes (banco s)) \<and> prefix (concluidos b) (concluidos (banco s))
       \<and> gestao (banco s) = gestao b \<and> servicos (banco s) = servicos b"
  using assms
proof (induction rule: alcancavel.induct)
  case inicio
  then show ?case by (simp add: sistema_inicial_def)
next
  case (passo b s s')
  then show ?case
    using passo_ids_distinct [OF passo.hyps(2)] passo_frame [OF passo.hyps(2)]
    by (auto intro: prefix_order.trans)
qed

lemma alcancavel_preencher:
  assumes "alcancavel b s"
    and "d \<in> set (gerarDatasDisponiveis off agora)"
    and "SText h \<in> set (horariosDisponiveis (selecionarData d DbOk DbOk (banco s)
            (carregarServicosDisponiveis DbOk (banco s) (montarDatas off agora (telas s i)))))"
    and "SText v \<in> nome ` set (servicos (banco s))"
  shows "alcancavel b (tela_update i (preencher off agora (banco s) d h v n (telas s i)) s)"
proof -
  let ?u0 = "montarDatas off agora (telas s i)"
  let ?u1 = "carregarServicosDisponiveis DbOk (banco s) ?u0"
  let ?u2 = "selecionarData d DbOk DbOk (banco s) ?u1"
  let ?u3 = "?u2\<lparr>horaEscolhida := h\<rparr>"
  let ?u4 = "escolherServico v ?u3"
  have 0: "alcancavel b (tela_update i ?u0 s)"
    by (rule alcancavel.passo [OF assms(1) passo.montar])
  have 1: "alcancavel b (tela_update i ?u1 s)"
    using alcancavel.passo [OF 0 passo.carregar [of _ i DbOk]] by simp
  have "d \<in> set (datasDisponiveis ?u1)"
    using assms(2) by (simp add: carregar_ok montarDatas_def)
  then have 2: "alcancavel b (tela_update i ?u2 s)"
    using alcancavel.passo [OF 1 passo.consultar [of d _ i DbOk DbOk]] by simp
  have 3: "alcancavel b (tela_update i ?u3 s)"
    using alcancavel.passo [OF 2 passo.escolher_hora [of h _ i]] assms(3) by simp
  have "SText v \<in> nome ` set (servicosDisponiveis ?u3)"
    using assms(4) by (simp add: selecionarData_fields carregar_ok)
  then have 4: "alcancavel b (tela_update i ?u4 s)"
    using alcancavel.passo [OF 3 passo.escolher_servico [of v _ i]] by simp
  have 5: "alcancavel b (tela_update i (?u4\<lparr>nomeCliente := JStr n\<rparr>) s)"
    using alcancavel.passo [OF 4 passo.digitar_nome [of _ i n]] by simp
  then show ?thesis by (simp add: preencher_def)
qed

lemma alcancavel_enviar:
  assumes "alcancavel b s" and "formulario_valido (telas s i)"
  shows "alcancavel b ((tela_update i (fst (handleFormSubmit r (banco s) (telas s i))) s)
                        \<lparr>banco := snd (handleFormSubmit r (banco s) (telas s i))\<rparr>)"
  by (rule alcancavel.passo [OF assms(1)]) (rule passo.enviar [OF assms(2)], simp)

lemma preencher_campos:
  assumes "d \<noteq> []" and "(n::string) \<noteq> []"
    and "find (\<lambda>x. sql_to_js (nome x) = JStr v) (servicos b) = Some sv"
    and "d \<in> set (gerarDatasDisponiveis off agora)"
    and "SText h \<in> set (horariosDisponiveis (selecionarData d DbOk DbOk b
            (carregarServicosDisponiveis DbOk b (montarDatas off agora u))))"
  shows "dataEscolhida (preencher off agora b d h v n u) = d
       \<and> horaEscolhida (preencher off agora b d h v n u) = h
       \<and> servicoEscolhido (preencher off agora b d h v n u) = v
       \<and> nomeCliente (preencher off agora b d h v n u) = JStr n
       \<and> valorOrcamento (preencher off agora b d h v n u) = sql_to_js (preco sv)
       \<and> formulario_valido (preencher off agora b d h v n u)"
proof -
  let ?u2 = "selecionarData d DbOk DbOk b (carregarServicosDisponiveis DbOk b (montarDatas off agora u))"
  have serv: "servicosDisponiveis ?u2 = servicos b"
    by (simp add: selecionarData_fields carregar_ok)
  have datas: "datasDisponiveis ?u2 = gerarDatasDisponiveis off agora"
    by (simp add: selecionarData_fields carregar_ok montarDatas_def)
  have preco: "valorOrcamento (preencher off agora b d h v n u) = sql_to_js (preco sv)"
    unfolding preencher_def using assms(3) serv by (simp add: escolherServico_preco)
  show ?thesis
    using assms serv datas preco find_servico_nome [OF assms(3)]
    by (simp add: preencher_def escolherServico_fields selecionarData_fields formulario_valido_def)
qed

lemma preencher_envia:
  assumes "match_pattern dataRegex d" and "match_pattern horaRegex h" and "n \<noteq> []" and "v \<noteq> []"
    and "find (\<lambda>x. sql_to_js (nome x) = JStr v) (servicos b) = Some sv"
    and "truthy (sql_to_js (preco sv))"
    and "d \<in> set (gerarDatasDisponiveis off agora)"
    and "SText h \<in> set (horariosDisponiveis (selecionarData d DbOk DbOk b
            (carregarServicosDisponiveis DbOk b (montarDatas off agora u))))"
  shows "clientes (snd (handleFormSubmit DbOk b' (preencher off agora b d h v n u))) =
           insert_cliente (SText n) (SText d) (SText h) (SText v) (preco sv) (clientes b')
       \<and> formulario_valido (preencher off agora b d h v n u)"
proof -
  have ne: "d \<noteq> []" "h \<noteq> []"
    using match_pattern_length [OF assms(1)] match_pattern_length [OF assms(2)]
    by (auto simp: dataRegex_def horaRegex_def)
  have "cadastro_valid (JStr n) (JStr d) (JStr h) (JStr v) (sql_to_js (preco sv))"
    using assms ne by (simp add: cadastro_valid_def)
  then show ?thesis
    using preencher_campos [OF ne(1) assms(3,5,7,8)] ne assms(6)
    by (simp add: handleFormSubmit_db api_cadastro_valid_ok)
qed

text \<open>
  C3. Two clients who read the free slots of a date before either submits can both book
  the same slot: from any database with a free, well-formed slot in the catalogue and a
  service with a price, on a date the screen offers, the system reaches a state with two
  active appointments in that slot, every booking made through the screen from its
  list of free slots.
\<close>

theorem reservas_concorrentes_duplicam:
  assumes "match_pattern dataRegex d" and "match_pattern horaRegex h"
    and "d \<in> set (gerarDatasDisponiveis off agora)"
    and "SText h \<in> set (gestao b)" and "(SText d, SText h) \<notin> slot ` set (clientes b)"
    and "find (\<lambda>x. sql_to_js (nome x) = JStr v) (servicos b) = Some sv"
    and "truthy (sql_to_js (preco sv))" and "(n::string) \<noteq> []" and "v \<noteq> []"
  shows "\<exists>s. alcancavel b s \<and> \<not> no_double_booking (clientes (banco s))"
proof -
  have d: "d \<noteq> []" using match_pattern_length [OF assms(1)] by (auto simp: dataRegex_def)
  let ?F = "preencher off agora b d h v n cadastro_inicial"
  let ?S0 = "sistema_inicial b"
  let ?S1 = "tela_update 0 ?F ?S0"
  let ?S2 = "tela_update 1 ?F ?S1"
  have free: "SText h \<in> set (horariosDisponiveis (selecionarData d DbOk DbOk b
                 (carregarServicosDisponiveis DbOk b (montarDatas off agora cadastro_inicial))))"
    using assms(4,5) d by (simp add: selecionarData_ok)
  have serv: "SText v \<in> nome ` set (servicos b)" by (rule find_servico_nome [OF assms(6)])
  have r1: "alcancavel b ?S1"
    using alcancavel_preencher [OF alcancavel.inicio [of b], where i = 0 and n = n] assms(3) free serv
    by (simp add: sistema_inicial_def)
  have r2: "alcancavel b ?S2"
    using alcancavel_preencher [OF r1, where i = 1 and n = n] assms(3) free serv
    by (simp add: sistema_inicial_def)
  have env: "clientes (snd (handleFormSubmit DbOk b' ?F)) =
               insert_cliente (SText n) (SText d) (SText h) (SText v) (preco sv) (clientes b')
             \<and> formulario_valido ?F" for b'
    by (rule preencher_envia [OF assms(1,2,8,9,6,7,3) free])
  let ?b1 = "snd (handleFormSubmit DbOk b ?F)"
  let ?S3 = "(tela_update 0 (fst (handleFormSubmit DbOk b ?F)) ?S2)\<lparr>banco := ?b1\<rparr>"
  have r3: "alcancavel b ?S3"
    using alcancavel_enviar [OF r2, where i = 0 and r = DbOk] env [of b]
    by (simp add: sistema_inicial_def)
  let ?S4 = "(tela_update 1 (fst (handleFormSubmit DbOk ?b1 ?F)) ?S3)
               \<lparr>banco := snd (handleFormSubmit DbOk ?b1 ?F)\<rparr>"
  have r4: "alcancavel b ?S4"
    using alcancavel_enviar [OF r3, where i = 1 and r = DbOk] env [of b]
    by (simp add: sistema_inicial_def)
  have "clientes (banco ?S4) =
          insert_cliente (SText n) (SText d) (SText h) (SText v) (preco sv)
            (insert_cliente (SText n) (SText d) (SText h) (SText v) (preco sv) (clientes b))"
    using env [of b] env [of ?b1] by simp
  then have "\<not> no_double_booking (clientes (banco ?S4))"
    by (simp add: no_double_booking_insert_iff slot_insert_cliente)
  with r4 show ?thesis by blast
qed

lemma campos_cliente_eq:
  "cliente_id c' = cliente_id c \<Longrightarrow> campos c' = campos c \<Longrightarrow> c' = c"
  by (cases c; cases c') (simp add: campos_def)

text \<open>
  C17. The archival job copies the row as it was when the run listed it, and deletes by
  id: if staff edit the appointment between the listing and its archival step, the
  step removes the edited row and records the old values, so the edit survives in
  neither table.
\<close>

theorem arquivo_perde_edicao:
  assumes "alcancavel b s" and "c \<in> set (pendentes s)"
    and "c' \<in> set (clientes (banco s))" and "cliente_id c' = cliente_id c" and "c' \<noteq> c"
  shows "\<exists>s'. passo s s' \<and> alcancavel b s'
           \<and> c' \<notin> set (clientes (banco s'))
           \<and> concluidos (banco s') = concluidos (banco s) @ [registro_concluido c (SText t)]
           \<and> campos_arq (registro_concluido c (SText t)) \<noteq> campos c'"
proof -
  let ?s' = "s\<lparr>banco := arquivar_um c (DbOk, DbOk, t) (banco s), pendentes := remove1 c (pendentes s)\<rparr>"
  have p: "passo s ?s'" using assms(2) by (rule passo.arquivar)
  have "campos c' \<noteq> campos c" using assms(4,5) campos_cliente_eq by blast
  moreover have "c' \<notin> set (clientes (banco ?s'))"
    using assms(4) by (simp add: arquivar_um_clientes both_ok_def)
  moreover have "concluidos (banco ?s') = concluidos (banco s) @ [registro_concluido c (SText t)]"
    by (simp add: arquivar_um_concluidos ins_ok_def carimbo_def)
  ultimately show ?thesis
    using p alcancavel.passo [OF assms(1) p] by auto
qed

lemma arquivar_um_bem_formado:
  "linha_bem_formada c \<Longrightarrow> db_bem_formado s \<Longrightarrow> db_bem_formado (arquivar_um c io s)"
  by (simp add: db_bem_formado_def arquivar_um_clientes arquivar_um_concluidos bem_formadas_filter
      arquivo_registro)

lemma passo_bem_formado:
  assumes "passo s s'" and "sistema_bem_formado s"
  shows "sistema_bem_formado s'"
  using assms
proof (induction rule: passo.induct)
  case (enviar s i r u b)
  then have "b = snd (handleFormSubmit r (banco s) (telas s i))" by simp
  then show ?case
    using enviar.prems api_cadastro_bem_formado
    by (simp add: handleFormSubmit_db sistema_bem_formado_def)
next
  case (listar_arquivo s t)
  then show ?case by (auto simp: sistema_bem_formado_def db_bem_formado_def select_data_le_def list_all_iff)
next
  case (arquivar c s io)
  then have "linha_bem_formada c" by (simp add: sistema_bem_formado_def list_all_iff)
  with arquivar show ?case
    by (auto simp: sistema_bem_formado_def arquivar_um_bem_formado list_all_iff dest: set_remove1_subset [THEN subsetD])
qed (simp_all add: sistema_bem_formado_def api_put_bem_formado api_delete_bem_formado)

text \<open>
  C30. The typing of the tables holds in every reachable state: from a database whose
  rows have well-formed dates and times, whatever the clients, the staff and the
  archival job do, every active appointment, every archived one and every candidate the
  job holds has a date \<^verbatim>\<open>YYYY-MM-DD\<close> and a time \<^verbatim>\<open>HH:MM:SS\<close>. The only insert is
  guarded by the two patterns, the edit leaves both columns alone, and the job copies
  rows it read.
\<close>

theorem alcancavel_bem_formado:
  assumes "alcancavel b s" and "db_bem_formado b"
  shows "sistema_bem_formado s"
  using assms
proof (induction rule: alcancavel.induct)
  case inicio
  then show ?case by (simp add: sistema_bem_formado_def sistema_inicial_def)
next
  case (passo s s')
  then show ?case using passo_bem_formado by blast
qed

end
