(* ===== verification/JsNumber.thy ===== *)
theory JsNumber
  imports Calendar
begin

text \<open>
  The number conversions of the management and agenda screens, after ECMAScript:
  \<^verbatim>\<open>parseFloat\<close> of the edited price, \<^verbatim>\<open>Number.prototype.toString\<close> of a stored price,
  \<^verbatim>\<open>toFixed(2)\<close> of the price on each card, and the encoding of a number by
  \<^verbatim>\<open>JSON.stringify\<close>. Numbers are exact rationals: a decimal literal denotes its exact
  value, so rounding to the nearest double is not modelled.
\<close>

subsection \<open>\<^verbatim>\<open>parseFloat\<close>\<close>

text \<open>The white space \<^verbatim>\<open>parseFloat\<close> skips, among the code units a \<open>char\<close> can hold.\<close>

definition js_space :: "char \<Rightarrow> bool" where
  "js_space c \<longleftrightarrow> c \<in> set [CHR 0x09, CHR 0x0A, CHR 0x0B, CHR 0x0C, CHR 0x0D, CHR 0x20, CHR 0xA0]"

definition valor_digito :: "char \<Rightarrow> nat" where
  "valor_digito c = of_char c - 48"

definition num_digitos :: "string \<Rightarrow> nat" where
  "num_digitos ds = foldl (\<lambda>n c. 10 * n + valor_digito c) 0 ds"

text \<open>An optional sign: whether it is a minus, and the rest of the text.\<close>

fun sinal :: "string \<Rightarrow> bool \<times> string" where
  "sinal (c # cs) =
     (if c = CHR ''+'' then (False, cs) else if c = CHR ''-'' then (True, cs) else (False, c # cs))"
| "sinal [] = (False, [])"

definition pot10 :: "int \<Rightarrow> rat" where
  "pot10 e = (if 0 \<le> e then 10 ^ nat e else 1 / 10 ^ nat (- e))"

text \<open>\<open>ExponentPart\<close>: \<^verbatim>\<open>e\<close> or \<^verbatim>\<open>E\<close>, an optional sign and at least one digit.\<close>

fun expoente :: "string \<Rightarrow> int option" where
  "expoente (c # cs) =
     (if c = CHR ''e'' \<or> c = CHR ''E''
      then (case sinal cs of (neg, r) \<Rightarrow>
              if takeWhile is_digit r = [] then None
              else Some ((if neg then -1 else 1) * int (num_digitos (takeWhile is_digit r))))
      else None)"
| "expoente [] = None"

text \<open>
  The value of the longest prefix that is a \<open>StrUnsignedDecimalLiteral\<close> other than
  \<^verbatim>\<open>Infinity\<close>: digits, an optional point and digits, at least one digit in all, and an
  optional exponent.
\<close>

definition literal_decimal :: "string \<Rightarrow> rat option" where
  "literal_decimal s =
     (let ip = takeWhile is_digit s; r = dropWhile is_digit s;
          (fp, r') = (case r of
                        c # r1 \<Rightarrow> if c = CHR ''.'' then (takeWhile is_digit r1, dropWhile is_digit r1)
                                  else ([], r)
                      | [] \<Rightarrow> ([], []));
          m = of_nat (num_digitos (ip @ fp)) / 10 ^ length fp
      in if ip = [] \<and> fp = [] then None
         else Some (case expoente r' of None \<Rightarrow> m | Some e \<Rightarrow> m * pot10 e))"

definition parseFloat :: "string \<Rightarrow> jsval" where
  "parseFloat str =
     (case sinal (dropWhile js_space str) of (neg, u) \<Rightarrow>
        if take 8 u = ''Infinity'' then JInf neg
        else (case literal_decimal u of
                None \<Rightarrow> JNaN
              | Some x \<Rightarrow> JNum (if neg then - x else x)))"

subsection \<open>\<^verbatim>\<open>Number::toString\<close>\<close>

text \<open>\<open>vezes p q\<close>: how many times \<open>p\<close> divides \<open>q\<close>; \<open>tira p q\<close>: \<open>q\<close> with those factors removed.\<close>

fun vezes :: "nat \<Rightarrow> nat \<Rightarrow> nat" where
  "vezes p q = (if p \<le> 1 \<or> q = 0 \<or> \<not> p dvd q then 0 else Suc (vezes p (q div p)))"

fun tira :: "nat \<Rightarrow> nat \<Rightarrow> nat" where
  "tira p q = (if p \<le> 1 \<or> q = 0 \<or> \<not> p dvd q then q else tira p (q div p))"

declare vezes.simps [simp del] tira.simps [simp del]

text \<open>
  The number of decimal places of a fraction with denominator \<open>q\<close> when it has a
  finite decimal expansion (\<open>q\<close> has no prime factor but 2 and 5); twenty places
  otherwise (no such value arises from a decimal literal).
\<close>

definition casas :: "nat \<Rightarrow> nat" where
  "casas q = (if tira 5 (tira 2 q) = 1 then max (vezes 2 q) (vezes 5 (tira 2 q)) else 20)"

text \<open>
  The digits \<open>s\<close> of a positive number, without trailing zeros, and the exponent
  \<open>n\<close> with \<open>x = s \<cdot> 10^(n-k)\<close> for the \<open>k\<close> digits of \<open>s\<close>: the \<open>s\<close>, \<open>k\<close>, \<open>n\<close>
  of \<^verbatim>\<open>Number::toString\<close>, \<open>k\<close> as small as possible.
\<close>

definition sig_exp :: "rat \<Rightarrow> nat \<times> int" where
  "sig_exp x =
     (let e = casas (nat (snd (quotient_of x))); m = nat \<lfloor>x * 10 ^ e\<rfloor>
      in (tira 10 m, int (length (digitos (tira 10 m))) + int (vezes 10 m) - int e))"

text \<open>
  The text of a positive number from its \<open>s\<close> and \<open>n\<close>: plain digits up to 21 integer
  digits, a leading \<^verbatim>\<open>0.\<close> down to \<open>10\<^sup>-\<^sup>6\<close>, exponent notation otherwise.
\<close>

definition escrever_decimal :: "nat \<Rightarrow> int \<Rightarrow> string" where
  "escrever_decimal s n =
     (let ds = digitos s; k = int (length ds) in
      if k \<le> n \<and> n \<le> 21 then ds @ replicate (nat (n - k)) CHR ''0''
      else if 0 < n \<and> n \<le> 21 then take (nat n) ds @ ''.'' @ drop (nat n) ds
      else if -6 < n \<and> n \<le> 0 then ''0.'' @ replicate (nat (- n)) CHR ''0'' @ ds
      else (let es = (if 0 \<le> n - 1 then CHR ''+'' else CHR ''-'') # digitos (nat \<bar>n - 1\<bar>) in
            if k = 1 then ds @ ''e'' @ es else take 1 ds @ ''.'' @ drop 1 ds @ ''e'' @ es))"

definition numero_positivo :: "rat \<Rightarrow> string" where
  "numero_positivo x = (case sig_exp x of (s, n) \<Rightarrow> escrever_decimal s n)"

definition number_toString :: "rat \<Rightarrow> string" where
  "number_toString x =
     (if x = 0 then ''0'' else if x < 0 then CHR ''-'' # numero_positivo (- x) else numero_positivo x)"

text \<open>\<^verbatim>\<open>v.toString()\<close>: \<open>None\<close> is the \<^verbatim>\<open>TypeError\<close> of \<^verbatim>\<open>null\<close> and \<^verbatim>\<open>undefined\<close>.\<close>

fun js_toString :: "jsval \<Rightarrow> string option" where
  "js_toString JUndef = None"
| "js_toString JNull = None"
| "js_toString (JBool b) = Some (if b then ''true'' else ''false'')"
| "js_toString (JNum x) = Some (number_toString x)"
| "js_toString JNaN = Some ''NaN''"
| "js_toString (JInf neg) = Some (if neg then ''-Infinity'' else ''Infinity'')"
| "js_toString (JStr s) = Some s"

subsection \<open>\<^verbatim>\<open>toFixed\<close>\<close>

definition fixo_positivo :: "nat \<Rightarrow> rat \<Rightarrow> string" where
  "fixo_positivo f x =
     (if 10 ^ 21 \<le> x then number_toString x
      else (let m = digitos (nat \<lfloor>x * 10 ^ f + 1 / 2\<rfloor>) in
            if f = 0 then m
            else (let m' = (if length m \<le> f then replicate (f + 1 - length m) CHR ''0'' @ m else m);
                      k = length m'
                  in take (k - f) m' @ ''.'' @ drop (k - f) m')))"

text \<open>
  \<^verbatim>\<open>v.toFixed(f)\<close>: \<open>None\<close> is the \<^verbatim>\<open>TypeError\<close> of a value that is not a number
  (\<^verbatim>\<open>null\<close>, a string) or the \<^verbatim>\<open>RangeError\<close> of more than 100 places.
\<close>

fun toFixed :: "nat \<Rightarrow> jsval \<Rightarrow> string option" where
  "toFixed f (JNum x) =
     (if 100 < f then None
      else Some (if x < 0 then CHR ''-'' # fixo_positivo f (- x) else fixo_positivo f x))"
| "toFixed f JNaN = (if 100 < f then None else Some ''NaN'')"
| "toFixed f (JInf neg) = (if 100 < f then None else Some (if neg then ''-Infinity'' else ''Infinity''))"
| "toFixed f v = None"

subsection \<open>JSON\<close>

text \<open>\<^verbatim>\<open>JSON.stringify\<close> writes \<^verbatim>\<open>NaN\<close> and the infinities as \<^verbatim>\<open>null\<close>.\<close>

fun json_valor :: "jsval \<Rightarrow> jsval" where
  "json_valor JNaN = JNull"
| "json_valor (JInf neg) = JNull"
| "json_valor v = v"

subsection \<open>Reading back what \<^verbatim>\<open>toString\<close> writes\<close>

lemma vezes_base: "p \<le> 1 \<or> q = 0 \<or> \<not> p dvd q \<Longrightarrow> vezes p q = 0"
  by (subst vezes.simps) simp

lemma tira_base: "p \<le> 1 \<or> q = 0 \<or> \<not> p dvd q \<Longrightarrow> tira p q = q"
  by (subst tira.simps) simp

lemma vezes_step: "1 < p \<Longrightarrow> 0 < q \<Longrightarrow> p dvd q \<Longrightarrow> vezes p q = Suc (vezes p (q div p))"
  by (subst vezes.simps) simp

lemma tira_step: "1 < p \<Longrightarrow> 0 < q \<Longrightarrow> p dvd q \<Longrightarrow> tira p q = tira p (q div p)"
  by (subst tira.simps) simp

lemma vezes_tira: "p ^ vezes p q * tira p q = q"
proof (induction p q rule: tira.induct)
  case (1 p q)
  show ?case
  proof (cases "p \<le> 1 \<or> q = 0 \<or> \<not> p dvd q")
    case True
    then show ?thesis by (simp add: vezes_base tira_base)
  next
    case False
    then show ?thesis using "1.IH" [OF False] by (simp add: vezes_step tira_step mult.assoc)
  qed
qed

lemma tira_not_dvd: "1 < p \<Longrightarrow> 0 < q \<Longrightarrow> \<not> p dvd tira p q"
proof (induction p q rule: tira.induct)
  case (1 p q)
  show ?case
  proof (cases "p dvd q")
    case False
    then show ?thesis by (simp add: tira_base)
  next
    case True
    with "1.prems" have "0 < q div p" by (auto elim: dvdE)
    with True "1.prems" "1.IH" show ?thesis by (simp add: tira_step)
  qed
qed

lemma tira_dvd: "tira p q dvd q"
  by (metis dvd_triv_right vezes_tira)

lemma tira_pos: "0 < q \<Longrightarrow> 0 < tira p q"
  by (metis gr0I mult_0_right vezes_tira)

lemma dvd_5_cases: "(d::nat) dvd 5 \<Longrightarrow> d = 1 \<or> d = 5"
proof -
  assume "d dvd 5"
  have "d \<le> 5" using dvd_imp_le [OF \<open>d dvd 5\<close>] by simp
  moreover have "d \<noteq> 0" using \<open>d dvd 5\<close> by (intro notI) simp
  ultimately have "d \<in> {1, 2, 3, 4, 5}" by auto
  with \<open>d dvd 5\<close> show ?thesis by (auto simp: dvd_eq_mod_eq_0)
qed

lemma coprime_5: "\<not> 5 dvd (t::nat) \<Longrightarrow> coprime t 5"
proof -
  assume "\<not> 5 dvd t"
  have "gcd t 5 dvd 5" by simp
  then have "gcd t 5 = 1 \<or> gcd t 5 = 5" by (rule dvd_5_cases)
  moreover have "gcd t 5 \<noteq> 5" using \<open>\<not> 5 dvd t\<close> by (metis gcd_dvd1)
  ultimately show ?thesis by (simp add: coprime_iff_gcd_eq_1)
qed

lemma dvd_pot10:
  assumes "0 < q" and "q dvd (10::nat) ^ e"
  shows "tira 5 (tira 2 q) = 1 \<and> q = 2 ^ vezes 2 q * 5 ^ vezes 5 (tira 2 q)"
proof -
  let ?t2 = "tira 2 q" let ?t5 = "tira 5 ?t2"
  have q: "q = 2 ^ vezes 2 q * (5 ^ vezes 5 ?t2 * ?t5)" by (simp add: vezes_tira)
  have t2: "0 < ?t2" "\<not> 2 dvd ?t2" using assms(1) by (simp_all add: tira_pos tira_not_dvd)
  have n5: "\<not> 5 dvd ?t5" using t2(1) by (simp add: tira_not_dvd)
  have n2: "\<not> 2 dvd ?t5" using t2(2) tira_dvd dvd_trans by blast
  have "coprime ?t5 2" using n2 by (simp add: coprime_commute)
  moreover have "coprime ?t5 5" using n5 by (rule coprime_5)
  ultimately have "coprime ?t5 (2 * 5)" unfolding coprime_mult_right_iff by (rule conjI)
  then have c: "coprime ?t5 (10 ^ e)" by simp
  have "?t5 dvd q" by (metis dvd_trans tira_dvd)
  then have "?t5 dvd 10 ^ e" using assms(2) by (rule dvd_trans)
  with c have "?t5 = 1" by (metis coprime_common_divisor dvd_refl nat_dvd_1_iff_1)
  with q show ?thesis by simp
qed

lemma valor_digito_digito: "k < 10 \<Longrightarrow> valor_digito (digito k) = k"
  by (simp add: valor_digito_def digito_def numeral_eq_Suc less_Suc_eq) (elim disjE; simp)

lemma foldl_num_digitos:
  "foldl (\<lambda>n c. 10 * n + valor_digito c) a ys = a * 10 ^ length ys + num_digitos ys"
proof (induction ys arbitrary: a)
  case Nil
  then show ?case by (simp add: num_digitos_def)
next
  case (Cons y ys)
  have "num_digitos (y # ys) = valor_digito y * 10 ^ length ys + num_digitos ys"
    using Cons.IH [of "valor_digito y"] by (simp add: num_digitos_def)
  then show ?case using Cons.IH [of "10 * a + valor_digito y"] by (simp add: algebra_simps)
qed

lemma num_digitos_append:
  "num_digitos (xs @ ys) = num_digitos xs * 10 ^ length ys + num_digitos ys"
  using foldl_num_digitos [of "num_digitos xs" ys] by (simp add: num_digitos_def)

lemma num_digitos_Cons: "num_digitos (c # ys) = valor_digito c * 10 ^ length ys + num_digitos ys"
  using num_digitos_append [of "[c]" ys] by (simp add: num_digitos_def)

lemma num_digitos_digitos: "num_digitos (digitos n) = n"
proof (induction n rule: digitos.induct)
  case (1 n)
  show ?case
  proof (cases "n < 10")
    case True
    then show ?thesis by (subst digitos.simps) (simp add: num_digitos_def valor_digito_digito)
  next
    case False
    then have "num_digitos (digitos n) = num_digitos (digitos (n div 10)) * 10 + n mod 10"
      by (subst digitos.simps) (simp add: num_digitos_append num_digitos_def valor_digito_digito)
    with "1.IH" False show ?thesis by simp
  qed
qed

lemma num_digitos_zeros: "num_digitos (replicate k CHR ''0'' @ ys) = num_digitos ys"
  by (induction k) (simp_all add: num_digitos_Cons valor_digito_def)

lemma pot10_diff: "pot10 (int a - int b) = 10 ^ a / 10 ^ b"
proof (cases "b \<le> a")
  case True
  then have "nat (int a - int b) = a - b" by simp
  with True show ?thesis by (simp add: pot10_def power_diff)
next
  case False
  then have "nat (- (int a - int b)) = b - a" by simp
  with False show ?thesis by (simp add: pot10_def power_diff)
qed

lemma quociente_dvd_pot10:
  assumes "quotient_of x = (p, q)" and "x = of_int m / 10 ^ e"
  shows "nat q dvd 10 ^ e"
proof -
  have x: "x = of_int p / of_int q" and q: "0 < q" and c: "coprime p q"
    using assms(1) by (simp_all add: quotient_of_div quotient_of_denom_pos quotient_of_coprime)
  have "of_int p * 10 ^ e = (of_int (m * q) :: rat)"
    using x assms(2) q by (simp add: field_simps)
  then have "p * 10 ^ e = m * q" by (metis of_int_eq_iff of_int_mult of_int_numeral of_int_power)
  then have "q dvd p * 10 ^ e" by simp
  with c have "q dvd 10 ^ e" by (simp add: coprime_commute coprime_dvd_mult_right_iff)
  with q show ?thesis by (metis int_dvd_int_iff int_nat_eq less_le of_nat_numeral of_nat_power)
qed

lemma sig_exp_valor:
  assumes "0 < x" and "x = of_int m / 10 ^ e"
  shows "of_nat (fst (sig_exp x)) * pot10 (snd (sig_exp x) - int (length (digitos (fst (sig_exp x))))) = x"
proof -
  obtain p q where pq: "quotient_of x = (p, q)" by fastforce
  have x: "x = of_int p / of_int q" and q: "0 < q"
    using pq by (simp_all add: quotient_of_div quotient_of_denom_pos)
  let ?Q = "nat q"
  have Q: "0 < ?Q" using q by simp
  have "?Q dvd 10 ^ e" by (rule quociente_dvd_pot10 [OF pq assms(2)])
  from dvd_pot10 [OF Q this]
  have t: "tira 5 (tira 2 ?Q) = 1" and Qf: "?Q = 2 ^ vezes 2 ?Q * 5 ^ vezes 5 (tira 2 ?Q)" by auto
  define c where "c = casas ?Q"
  have c: "c = max (vezes 2 ?Q) (vezes 5 (tira 2 ?Q))" using t by (simp add: c_def casas_def)
  have "?Q dvd 2 ^ c * 5 ^ c"
    by (subst Qf, rule mult_dvd_mono) (simp_all add: c le_imp_power_dvd)
  then obtain w where w: "10 ^ c = ?Q * w" by (auto simp: power_mult_distrib [symmetric] elim: dvdE)
  have xc: "x * 10 ^ c = of_int (p * int w)"
  proof -
    have "(10::rat) ^ c = of_int q * of_nat w"
      using w q by (metis of_nat_eq_of_nat_power_cancel_iff of_int_of_nat_eq of_nat_mult of_nat_numeral int_nat_eq less_le)
    then show ?thesis using x q by (simp add: field_simps)
  qed
  have p: "0 < p" using assms(1) x q by (simp add: zero_less_divide_iff)
  define M where "M = nat (p * int w)"
  have M: "x * 10 ^ c = of_nat M" using xc p by (simp add: M_def)
  have se: "sig_exp x = (tira 10 M, int (length (digitos (tira 10 M))) + int (vezes 10 M) - int c)"
    using pq M by (simp add: sig_exp_def c_def Let_def)
  have "of_nat (tira 10 M) * (10 ^ vezes 10 M / 10 ^ c) = (of_nat M / 10 ^ c :: rat)"
    using vezes_tira [of 10 M] by (metis of_nat_mult of_nat_numeral of_nat_power mult.commute times_divide_eq_right)
  also have "\<dots> = x" using M by (simp add: field_simps)
  finally show ?thesis using se by (simp add: pot10_diff)
qed

lemma is_digit_chars [simp]:
  "\<not> is_digit CHR ''.''" "\<not> is_digit CHR ''e''" "is_digit CHR ''0''" "\<not> is_digit CHR ''+''"
  "\<not> is_digit CHR ''-''" "\<not> is_digit CHR ''I''"
  by (simp_all add: is_digit_def)

lemma pot10_power_int: "pot10 e = power_int 10 e"
  by (simp add: pot10_def power_int_def power_inverse inverse_eq_divide power_one_over)

lemma takeWhile_digitos_stop:
  assumes "\<forall>c\<in>set ip. is_digit c" and "r = [] \<or> \<not> is_digit (hd r)"
  shows "takeWhile is_digit (ip @ r) = ip" and "dropWhile is_digit (ip @ r) = r"
  using assms by (cases r; simp add: takeWhile_append2 dropWhile_append2)+

lemma literal_inteiro:
  assumes "\<forall>c\<in>set ip. is_digit c" and "ip \<noteq> []"
    and "r = [] \<or> (\<not> is_digit (hd r) \<and> hd r \<noteq> CHR ''.'')"
  shows "literal_decimal (ip @ r) =
           Some (case expoente r of None \<Rightarrow> of_nat (num_digitos ip)
                 | Some e \<Rightarrow> of_nat (num_digitos ip) * pot10 e)"
proof -
  have t: "takeWhile is_digit (ip @ r) = ip" "dropWhile is_digit (ip @ r) = r"
    using takeWhile_digitos_stop [OF assms(1)] assms(3) by auto
  show ?thesis
  proof (cases r)
    case Nil
    then show ?thesis using t assms(2)
      by (simp add: literal_decimal_def Let_def del: takeWhile_eq_all_conv dropWhile_eq_Nil_conv)
  next
    case (Cons a rs)
    then show ?thesis using t assms(2,3)
      by (simp add: literal_decimal_def Let_def split: option.split)
  qed
qed

lemma literal_fracao:
  assumes "\<forall>c\<in>set ip. is_digit c" and "\<forall>c\<in>set fp. is_digit c" and "ip \<noteq> [] \<or> fp \<noteq> []"
    and "r = [] \<or> \<not> is_digit (hd r)"
  shows "literal_decimal (ip @ CHR ''.'' # fp @ r) =
           Some (case expoente r of None \<Rightarrow> of_nat (num_digitos (ip @ fp)) / 10 ^ length fp
                 | Some e \<Rightarrow> of_nat (num_digitos (ip @ fp)) / 10 ^ length fp * pot10 e)"
proof -
  have t: "takeWhile is_digit (ip @ CHR ''.'' # fp @ r) = ip"
          "dropWhile is_digit (ip @ CHR ''.'' # fp @ r) = CHR ''.'' # fp @ r"
    using takeWhile_digitos_stop [OF assms(1), of "CHR ''.'' # fp @ r"] by simp_all
  have f: "takeWhile is_digit (fp @ r) = fp" "dropWhile is_digit (fp @ r) = r"
    using takeWhile_digitos_stop [OF assms(2) assms(4)] by simp_all
  show ?thesis using assms(3) by (simp add: literal_decimal_def t f Let_def split: option.split)
qed

lemma takeWhile_digitos [simp]: "takeWhile is_digit (digitos j) = digitos j"
  using digitos_is_digit by (simp add: takeWhile_eq_all_conv)

lemma expoente_digitos:
  "expoente (CHR ''e'' # (if neg then CHR ''-'' else CHR ''+'') # digitos j) =
     Some (if neg then - int j else int j)"
  by (simp add: digitos_ne num_digitos_digitos)

lemma expoente_int:
  "expoente (CHR ''e'' # (if 0 \<le> j then CHR ''+'' else CHR ''-'') # digitos (nat \<bar>j\<bar>)) = Some j"
  using expoente_digitos [of "\<not> 0 \<le> j" "nat \<bar>j\<bar>"] by (cases "0 \<le> j") simp_all

lemma num_digitos_replicate0: "num_digitos (replicate j CHR ''0'') = 0"
  using num_digitos_zeros [of j "[]"] by (simp add: num_digitos_def)

lemma literal_escrever_decimal:
  "literal_decimal (escrever_decimal s n) = Some (of_nat s * pot10 (n - int (length (digitos s))))"
proof -
  define ds where "ds = digitos s"
  define k where "k = int (length ds)"
  have d: "\<forall>c\<in>set ds. is_digit c" unfolding ds_def by (rule digitos_is_digit)
  have ne: "ds \<noteq> []" unfolding ds_def by (rule digitos_ne)
  have v: "num_digitos ds = s" unfolding ds_def by (rule num_digitos_digitos)
  have k1: "1 \<le> k" using ne by (simp add: k_def Suc_le_eq)
  have e: "escrever_decimal s n =
     (if k \<le> n \<and> n \<le> 21 then ds @ replicate (nat (n - k)) CHR ''0''
      else if 0 < n \<and> n \<le> 21 then take (nat n) ds @ CHR ''.'' # drop (nat n) ds @ []
      else if -6 < n \<and> n \<le> 0 then [CHR ''0''] @ CHR ''.'' # (replicate (nat (- n)) CHR ''0'' @ ds) @ []
      else if k = 1 then ds @ CHR ''e'' # (if 0 \<le> n - 1 then CHR ''+'' else CHR ''-'') # digitos (nat \<bar>n - 1\<bar>)
      else take 1 ds @ CHR ''.'' # drop 1 ds @
             CHR ''e'' # (if 0 \<le> n - 1 then CHR ''+'' else CHR ''-'') # digitos (nat \<bar>n - 1\<bar>))"
    by (simp add: escrever_decimal_def Let_def ds_def k_def)
  have "literal_decimal (escrever_decimal s n) = Some (of_nat s * pot10 (n - k))"
  proof -
    consider (B1) "k \<le> n" "n \<le> 21" | (B2) "n < k" "0 < n" "n \<le> 21" | (B3) "-6 < n" "n \<le> 0"
      | (B4) "\<not> (k \<le> n \<and> n \<le> 21)" "\<not> (0 < n \<and> n \<le> 21)" "\<not> (-6 < n \<and> n \<le> 0)"
      by linarith
    then show ?thesis
    proof cases
      case B1
      have "\<forall>c\<in>set (ds @ replicate (nat (n - k)) CHR ''0''). is_digit c" using d by auto
      from literal_inteiro [OF this _, of "[]"] ne B1 show ?thesis
        by (simp add: e num_digitos_append num_digitos_replicate0 v pot10_def)
    next
      case B2
      have dt: "\<forall>c\<in>set (take (nat n) ds). is_digit c" "\<forall>c\<in>set (drop (nat n) ds). is_digit c"
        using d by (auto dest: in_set_takeD in_set_dropD)
      have "take (nat n) ds \<noteq> []" using ne B2 by simp
      moreover have "length ds - nat n = nat (k - n)" using B2 unfolding k_def by linarith
      ultimately show ?thesis using literal_fracao [OF dt, of "[]"] B2 k1
        by (simp add: e v pot10_def)
    next
      case B3
      have dz: "\<forall>c\<in>set (replicate (nat (- n)) CHR ''0'' @ ds). is_digit c" using d by auto
      have z: "num_digitos ([CHR ''0''] @ replicate (nat (- n)) CHR ''0'' @ ds) = s"
        using num_digitos_zeros [of "Suc (nat (- n))" ds] v by simp
      have "nat (- n) + length ds = nat (k - n)" using B3 unfolding k_def by linarith
      with literal_fracao [OF _ dz, of "[CHR ''0'']" "[]"] B3 k1 z show ?thesis
        by (simp add: e pot10_def)
    next
      case B4
      define es where "es = (if 0 \<le> n - 1 then CHR ''+'' else CHR ''-'') # digitos (nat \<bar>n - 1\<bar>)"
      have x: "expoente (CHR ''e'' # es) = Some (n - 1)" unfolding es_def by (rule expoente_int)
      show ?thesis
      proof (cases "k = 1")
        case True
        have "escrever_decimal s n = ds @ CHR ''e'' # es"
          by (simp only: e es_def if_not_P [OF B4(1)] if_not_P [OF B4(2)] if_not_P [OF B4(3)]
              if_P [OF True])
        with literal_inteiro [OF d ne, of "CHR ''e'' # es"] True x show ?thesis by (simp add: v)
      next
        case False
        have dt: "\<forall>c\<in>set (take 1 ds). is_digit c" "\<forall>c\<in>set (drop 1 ds). is_digit c"
          using d by (auto dest: in_set_takeD in_set_dropD)
        have l: "length (drop 1 ds) = nat (k - 1)" by (simp add: k_def)
        have ip: "take 1 ds @ drop 1 ds = ds" by simp
        obtain j where j: "k = int j + 1" using k1 by (metis add.commute le_add_diff_inverse zero_le_imp_eq_int diff_ge_0_iff_ge)
        have "(10::rat) powi (- int j) * 10 powi (n - 1) = 10 powi (n - k)"
          by (simp add: power_int_add [symmetric] j algebra_simps)
        then have "of_nat s / 10 ^ nat (k - 1) * pot10 (n - 1) = of_nat s * pot10 (n - k)"
          by (simp add: j pot10_power_int power_int_minus inverse_eq_divide flip: times_divide_eq_right)
        moreover have "escrever_decimal s n = take 1 ds @ CHR ''.'' # drop 1 ds @ CHR ''e'' # es"
          by (simp only: e es_def if_not_P [OF B4(1)] if_not_P [OF B4(2)] if_not_P [OF B4(3)]
              if_not_P [OF False])
        moreover have "literal_decimal (take 1 ds @ CHR ''.'' # drop 1 ds @ CHR ''e'' # es) =
                         Some (of_nat s / 10 ^ nat (k - 1) * pot10 (n - 1))"
          using literal_fracao [OF dt, of "CHR ''e'' # es"] ne x by (simp only: ip l v) simp
        ultimately show ?thesis by simp
      qed
    qed
  qed
  then show ?thesis by (simp add: k_def ds_def)
qed

lemma digito_nao_espaco:
  assumes "is_digit c"
  shows "\<not> js_space c \<and> c \<noteq> CHR ''+'' \<and> c \<noteq> CHR ''-'' \<and> c \<noteq> CHR ''I''"
proof -
  have "48 \<le> (of_char c :: nat)" "of_char c \<le> (57::nat)" using assms by (simp_all add: is_digit_def less_eq_char_def)
  then show ?thesis by (auto simp: js_space_def)
qed
lemma parseFloat_digitos:
  assumes "is_digit c" and "literal_decimal (c # cs) = Some x"
  shows "parseFloat (c # cs) = JNum x" and "parseFloat (CHR ''-'' # c # cs) = JNum (- x)"
proof -
  have n: "\<not> js_space c" "c \<noteq> CHR ''+''" "c \<noteq> CHR ''-''" "c \<noteq> CHR ''I''"
    using digito_nao_espaco [OF assms(1)] by simp_all
  have m: "\<not> js_space CHR ''-''" by (simp add: js_space_def)
  have i: "take 8 (c # cs) \<noteq> ''Infinity''" using n(4) by simp
  show "parseFloat (c # cs) = JNum x"
    using n i assms(2) by (simp add: parseFloat_def)
  show "parseFloat (CHR ''-'' # c # cs) = JNum (- x)"
    using n m i assms(2) by (simp add: parseFloat_def)
qed

lemma escrever_decimal_Cons: "\<exists>c cs. escrever_decimal s n = c # cs \<and> is_digit c"
proof -
  obtain d ds' where ds: "digitos s = d # ds'" using digitos_ne by (cases "digitos s") auto
  have "is_digit d" using digitos_is_digit [of s] ds by simp
  then show ?thesis by (auto simp: escrever_decimal_def Let_def ds take_Cons')
qed

lemma parseFloat_positivo:
  assumes "0 < x" and "x = of_int m / 10 ^ e"
  shows "parseFloat (numero_positivo x) = JNum x" and "parseFloat (CHR ''-'' # numero_positivo x) = JNum (- x)"
proof -
  obtain s n where sn: "sig_exp x = (s, n)" by fastforce
  obtain c cs where c: "escrever_decimal s n = c # cs" "is_digit c" using escrever_decimal_Cons by blast
  have "literal_decimal (c # cs) = Some x"
    using literal_escrever_decimal [of s n] sig_exp_valor [OF assms] sn c(1) by simp
  from parseFloat_digitos [OF c(2) this]
  show "parseFloat (numero_positivo x) = JNum x" and "parseFloat (CHR ''-'' # numero_positivo x) = JNum (- x)"
    by (simp_all add: numero_positivo_def sn c(1))
qed

lemma parseFloat_zero: "parseFloat ''0'' = JNum 0"
proof -
  have "literal_decimal ''0'' = Some 0"
    using literal_inteiro [of "''0''" "[]"] by (simp add: num_digitos_def valor_digito_def)
  then show ?thesis using parseFloat_digitos(1) [of "CHR ''0''" "[]"] by simp
qed

theorem parseFloat_number_toString:
  "parseFloat (number_toString (of_int m / 10 ^ e)) = JNum (of_int m / 10 ^ e)"
proof -
  let ?x = "of_int m / 10 ^ e :: rat"
  consider "?x = 0" | "0 < ?x" | "?x < 0" by linarith
  then show ?thesis
  proof cases
    case 1
    then show ?thesis by (simp add: number_toString_def parseFloat_zero)
  next
    case 2
    then have "?x \<noteq> 0" "\<not> ?x < 0" by (simp_all only: less_imp_neq not_less_iff_gr_or_eq) auto
    then have "number_toString ?x = numero_positivo ?x" by (simp only: number_toString_def if_False)
    with parseFloat_positivo(1) [OF 2 refl] show ?thesis by simp
  next
    case 3
    have p: "0 < - ?x" "- ?x = of_int (- m) / 10 ^ e" using 3 by simp_all
    have "?x \<noteq> 0" using 3 by (rule less_imp_neq)
    with 3 have "number_toString ?x = CHR ''-'' # numero_positivo (- ?x)"
      by (simp only: number_toString_def if_False if_True)
    with parseFloat_positivo(2) [OF p] show ?thesis by simp
  qed
qed

subsection \<open>Fixed notation of integers\<close>

lemma digitos_mult10: "0 < n \<Longrightarrow> digitos (10 * n) = digitos n @ ''0''"
  by (subst digitos.simps) (simp add: digito_def)

lemma fixo_positivo_inteiro:
  assumes "n < 10 ^ 21"
  shows "fixo_positivo 2 (of_nat n) = digitos n @ ''.00''"
proof -
  have f: "\<lfloor>(of_nat n :: rat) * 10 ^ 2 + 1 / 2\<rfloor> = int (100 * n)"
  proof -
    have h: "\<lfloor>(1 / 2 :: rat)\<rfloor> = 0" by (simp add: floor_eq_iff)
    have m: "\<lfloor>(of_nat n :: rat) * 100\<rfloor> = 100 * int n" by (simp add: floor_eq_iff)
    show ?thesis using h m by simp
  qed
  have lt: "\<not> (10 ^ 21 \<le> (of_nat n :: rat))"
    using assms by (metis not_le of_nat_less_iff of_nat_numeral of_nat_power)
  show ?thesis
  proof (cases "n = 0")
    case True
    then show ?thesis using lt unfolding fixo_positivo_def f by (simp add: digitos.simps digito_def)
  next
    case False
    have "digitos (100 * n) = digitos n @ ''00''"
      using digitos_mult10 [of n] digitos_mult10 [of "10 * n"] False by (simp add: mult.assoc)
    moreover have "2 < length (digitos n @ ''00'')" using digitos_ne [of n] by (cases "digitos n") simp_all
    moreover have "nat (100 * int n) = 100 * n" by (simp add: nat_mult_distrib)
    ultimately show ?thesis using lt unfolding fixo_positivo_def f by (simp add: Let_def)
  qed
qed

text \<open>
  \<^verbatim>\<open>toFixed(2)\<close> prints an integer below \<open>10\<^sup>2\<^sup>1\<close> in magnitude as its
  \<^verbatim>\<open>String\<close> followed by \<^verbatim>\<open>.00\<close>.
\<close>

lemma toFixed_inteiro:
  assumes "\<bar>i\<bar> < 10 ^ 21"
  shows "toFixed 2 (JNum (of_int i)) = Some (js_string_int i @ ''.00'')"
proof (cases "i < 0")
  case True
  have "nat (- i) < 10 ^ 21" using assms True by (simp add: nat_less_iff)
  moreover have "(- of_int i :: rat) = of_nat (nat (- i))" using True by simp
  ultimately show ?thesis using True fixo_positivo_inteiro [of "nat (- i)"]
    by (simp add: js_string_int_def)
next
  case False
  have "nat i < 10 ^ 21" using assms False by (simp add: nat_less_iff)
  moreover have "(of_int i :: rat) = of_nat (nat i)" using False by simp
  ultimately show ?thesis using False fixo_positivo_inteiro [of "nat i"]
    by (simp add: js_string_int_def)
qed

end
