(* ===== verification/Agenda.thy ===== *)
theory Agenda
  imports Booking JsNumber
begin

text \<open>
  The agenda screen \<^verbatim>\<open>src/app/(tabs)/index.tsx\<close> and what it shares with the
  management screen: an appointment as both screens hold it (a row of
  \<^verbatim>\<open>GET /api/clientes\<close> decoded from JSON), the string operations of their date
  and time formatting, and how React Native renders a text child. The screen loads the
  list once and renders one card per appointment; a card whose fields are not of the
  types the code assumes throws while rendering.
\<close>

record agendamento =
  ag_id :: nat
  ag_nome_cliente :: jsval
  ag_data :: jsval
  ag_hora :: jsval
  ag_servico :: jsval
  ag_valor_orcamento :: jsval

text \<open>A row of \<^verbatim>\<open>SELECT * FROM clientes\<close> as the client decodes it from \<^verbatim>\<open>res.json(rows)\<close>.\<close>

definition agendamento_json :: "cliente \<Rightarrow> agendamento" where
  "agendamento_json c =
     \<lparr>ag_id = cliente_id c, ag_nome_cliente = sql_to_js (nome_cliente c),
      ag_data = sql_to_js (data c), ag_hora = sql_to_js (hora c),
      ag_servico = sql_to_js (servico c), ag_valor_orcamento = sql_to_js (valor_orcamento c)\<rparr>"

subsection \<open>Strings\<close>

text \<open>\<^verbatim>\<open>s.split(c)\<close> with a one-character separator: the pieces between the separators.\<close>

fun split_em :: "char \<Rightarrow> string \<Rightarrow> string list" where
  "split_em c [] = [[]]"
| "split_em c (x # xs) =
     (if x = c then [] # split_em c xs
      else (case split_em c xs of w # ws \<Rightarrow> (x # w) # ws | [] \<Rightarrow> [[x]]))"

text \<open>
  A piece bound by array destructuring, as a template literal prints it: a missing
  piece is \<^verbatim>\<open>undefined\<close>.
\<close>

definition parte :: "string list \<Rightarrow> nat \<Rightarrow> string" where
  "parte xs i = (if i < length xs then xs ! i else ''undefined'')"

text \<open>
  A value as the child of a \<^verbatim>\<open><Text>\<close>: \<^verbatim>\<open>null\<close>, \<^verbatim>\<open>undefined\<close> and booleans render
  nothing, numbers render their \<^verbatim>\<open>toString\<close>.
\<close>

fun texto_jsx :: "jsval \<Rightarrow> string" where
  "texto_jsx (JStr s) = s"
| "texto_jsx (JNum x) = number_toString x"
| "texto_jsx JNaN = ''NaN''"
| "texto_jsx (JInf neg) = (if neg then ''-Infinity'' else ''Infinity'')"
| "texto_jsx v = []"

subsection \<open>The screen\<close>

text \<open>\<^verbatim>\<open>responseAgendamentos\<close>: the list, kept as it was when the read fails.\<close>

definition responseAgendamentos :: "db_status \<Rightarrow> db \<Rightarrow> agendamento list \<Rightarrow> agendamento list" where
  "responseAgendamentos r s xs =
     (case axios_payload (api_clientes r s) of
        Some (Clientes rows) \<Rightarrow> map agendamento_json rows
      | _ \<Rightarrow> xs)"

text \<open>
  \<^verbatim>\<open>formatDate(data, hora)\<close>: \<open>None\<close> is the \<^verbatim>\<open>TypeError\<close> of
  \<^verbatim>\<open>undefined.padStart\<close> when the date has fewer than three pieces.
\<close>

definition formatDate :: "string \<Rightarrow> string \<Rightarrow> string option" where
  "formatDate d h =
     (let p = split_em CHR ''-'' d in
      if length p < 3 then None
      else Some (padStart 2 CHR ''0'' (p ! 2) @ ''/'' @ padStart 2 CHR ''0'' (p ! 1) @ ''/''
                 @ p ! 0 @ '' - '' @ take 5 h))"

text \<open>
  \<^verbatim>\<open>renderItem\<close>: the four texts of a card, or \<open>None\<close> when rendering throws
  (\<^verbatim>\<open>split\<close> or \<^verbatim>\<open>substring\<close> of a value that is not a string, \<^verbatim>\<open>toFixed\<close> of one
  that is not a number).
\<close>

definition renderItem_agenda :: "agendamento \<Rightarrow> string list option" where
  "renderItem_agenda item =
     (case (ag_data item, ag_hora item) of
        (JStr d, JStr h) \<Rightarrow>
          (case (formatDate d h, toFixed 2 (ag_valor_orcamento item)) of
             (Some t, Some v) \<Rightarrow>
               Some [texto_jsx (ag_nome_cliente item), t, texto_jsx (ag_servico item), ''R$ '' @ v]
           | _ \<Rightarrow> None)
      | _ \<Rightarrow> None)"

text \<open>
  \<^verbatim>\<open>keyExtractor={(item) => item.id}\<close>: the interface declares \<^verbatim>\<open>id: string\<close>, but
  the server sends the rowid as a JSON number, which React turns into its
  \<^verbatim>\<open>String\<close> when it uses it as a key.
\<close>

definition chave_agenda :: "agendamento \<Rightarrow> string" where
  "chave_agenda item = number_toString (of_nat (ag_id item))"

text \<open>
  The screen's \<^verbatim>\<open>FlatList\<close>: the cards as (key, texts) in list order, or \<open>None\<close> when
  some \<^verbatim>\<open>renderItem\<close> throws and the screen unmounts.
\<close>

definition tela_agenda :: "agendamento list \<Rightarrow> (string \<times> string list) list option" where
  "tela_agenda xs = map_option (zip (map chave_agenda xs)) (those (map renderItem_agenda xs))"

end
