(* ===== verification/Gerenciar.thy ===== *)
theory Gerenciar
  imports Agenda
begin

text \<open>
  The management screen \<^verbatim>\<open>src/app/(tabs)/gerenciar.tsx\<close>: its React state as a
  record, and each handler as a function of that state and the database behind
  \<^verbatim>\<open>PUT\<close> and \<^verbatim>\<open>DELETE /api/agendamentos/:id\<close>. The screen keeps its own copy of
  the list and patches it after each successful write instead of reading it again; the
  lemmas here relate that copy to the table it mirrors.
\<close>

text \<open>
  The state of \<^verbatim>\<open>gerenciamentoAgendamentos\<close>. The three edit fields are prefixed
  \<open>g_\<close> because the booking screen's state already has fields of those names. The
  object given to \<^verbatim>\<open>setAgendamentoExcluir\<close> holds only an id and a name.
\<close>

record gerenciar_ui =
  agendamentos :: "agendamento list"
  modalVisible :: bool
  modalExcluirVisible :: bool
  editandoAgendamento :: "agendamento option"
  excluirAgendamento :: "(nat \<times> jsval) option"
  g_nomeCliente :: jsval
  g_servico :: jsval
  g_valorOrcamento :: string

definition gerenciar_inicial :: gerenciar_ui where
  "gerenciar_inicial =
     \<lparr>agendamentos = [], modalVisible = False, modalExcluirVisible = False,
      editandoAgendamento = None, excluirAgendamento = None,
      g_nomeCliente = JStr [], g_servico = JStr [], g_valorOrcamento = []\<rparr>"

text \<open>
  \<^verbatim>\<open>response.ok\<close> of \<^verbatim>\<open>fetch\<close>: a status in 200--299, the same range in which
  \<^verbatim>\<open>axios\<close> resolves.
\<close>

definition resposta_ok :: "response \<Rightarrow> bool" where
  "resposta_ok resp \<longleftrightarrow> 200 \<le> status resp \<and> status resp < 300"

text \<open>\<^verbatim>\<open>buscarAgendamentos\<close>: the list replaced by the rows read, kept on failure.\<close>

definition buscarAgendamentos :: "db_status \<Rightarrow> db \<Rightarrow> gerenciar_ui \<Rightarrow> gerenciar_ui" where
  "buscarAgendamentos r s u =
     (let resp = api_clientes r s in
      if \<not> resposta_ok resp then u
      else (case payload resp of
              Clientes rows \<Rightarrow> u\<lparr>agendamentos := map agendamento_json rows\<rparr>
            | _ \<Rightarrow> u))"

text \<open>\<^verbatim>\<open>formatarData\<close> and \<^verbatim>\<open>formatarHora\<close>.\<close>

definition formatarData :: "string \<Rightarrow> string" where
  "formatarData d =
     (let p = split_em CHR ''-'' d in parte p 2 @ ''/'' @ parte p 1 @ ''/'' @ parte p 0)"

definition formatarHora :: "string \<Rightarrow> string" where
  "formatarHora h = (let p = split_em CHR '':'' h in parte p 0 @ '':'' @ parte p 1)"

text \<open>\<^verbatim>\<open>s.replace('.', ',')\<close>: the first occurrence only.\<close>

fun replace_primeiro :: "char \<Rightarrow> char \<Rightarrow> string \<Rightarrow> string" where
  "replace_primeiro a b [] = []"
| "replace_primeiro a b (c # cs) = (if c = a then b # cs else c # replace_primeiro a b cs)"

text \<open>
  \<^verbatim>\<open>renderItem\<close>: the texts of a card (the labels included), or \<open>None\<close> when
  rendering throws.
\<close>

definition renderItem_gerenciar :: "agendamento \<Rightarrow> string list option" where
  "renderItem_gerenciar item =
     (case (ag_data item, ag_hora item, toFixed 2 (ag_valor_orcamento item)) of
        (JStr d, JStr h, Some v) \<Rightarrow>
          Some [texto_jsx (ag_nome_cliente item), ''Data: '' @ formatarData d,
                ''Hora: '' @ formatarHora h, ''Servi'' @ [CHR 0xE7] @ ''o: '' @ texto_jsx (ag_servico item),
                ''Valor: R$ '' @ replace_primeiro CHR ''.'' CHR '','' v]
      | _ \<Rightarrow> None)"

subsection \<open>Editing\<close>

text \<open>
  \<^verbatim>\<open>editar(agendamento)\<close>: opens the edit modal on a copy of the appointment's
  fields. \<open>None\<close> is the \<^verbatim>\<open>TypeError\<close> of \<^verbatim>\<open>valor_orcamento.toString()\<close> on
  \<^verbatim>\<open>null\<close>.
\<close>

definition editar :: "agendamento \<Rightarrow> gerenciar_ui \<Rightarrow> gerenciar_ui option" where
  "editar a u =
     (case js_toString (ag_valor_orcamento a) of
        None \<Rightarrow> None
      | Some v \<Rightarrow> Some (u\<lparr>editandoAgendamento := Some a, g_nomeCliente := ag_nome_cliente a,
                          g_servico := ag_servico a, g_valorOrcamento := v, modalVisible := True\<rparr>))"

text \<open>The \<^verbatim>\<open>onChangeText\<close> setters of the three inputs, and the modal's Cancelar button.\<close>

definition digitarNome :: "string \<Rightarrow> gerenciar_ui \<Rightarrow> gerenciar_ui" where
  "digitarNome t u = u\<lparr>g_nomeCliente := JStr t\<rparr>"

definition digitarServico :: "string \<Rightarrow> gerenciar_ui \<Rightarrow> gerenciar_ui" where
  "digitarServico t u = u\<lparr>g_servico := JStr t\<rparr>"

definition digitarValor :: "string \<Rightarrow> gerenciar_ui \<Rightarrow> gerenciar_ui" where
  "digitarValor t u = u\<lparr>g_valorOrcamento := t\<rparr>"

definition fecharEdicao :: "gerenciar_ui \<Rightarrow> gerenciar_ui" where
  "fecharEdicao u = u\<lparr>modalVisible := False\<rparr>"

text \<open>
  \<^verbatim>\<open>salvarEdicao\<close>: the edited copy, with the price through \<^verbatim>\<open>parseFloat\<close>, is sent
  as JSON; on a 2xx reply it replaces every entry with its id in the local list and the
  modal closes; otherwise only an alert. The database is the one after the request.
\<close>

definition salvarEdicao :: "db_status \<Rightarrow> db \<Rightarrow> gerenciar_ui \<Rightarrow> gerenciar_ui \<times> db" where
  "salvarEdicao r s u =
     (case editandoAgendamento u of
        None \<Rightarrow> (u, s)
      | Some a \<Rightarrow>
          (let upd = a\<lparr>ag_nome_cliente := g_nomeCliente u, ag_servico := g_servico u,
                       ag_valor_orcamento := parseFloat (g_valorOrcamento u)\<rparr>
           in case api_put_agendamento (ag_id a) (json_valor (ag_nome_cliente upd))
                     (json_valor (ag_servico upd)) (json_valor (ag_valor_orcamento upd)) r s of
                (resp, s') \<Rightarrow>
                  if resposta_ok resp
                  then (u\<lparr>agendamentos := map_where (\<lambda>item. ag_id item = ag_id a) (\<lambda>item. upd)
                                              (agendamentos u),
                          modalVisible := False, editandoAgendamento := None\<rparr>, s')
                  else (u, s')))"

subsection \<open>Cancelling\<close>

definition excluir :: "nat \<Rightarrow> jsval \<Rightarrow> gerenciar_ui \<Rightarrow> gerenciar_ui" where
  "excluir i n u = u\<lparr>excluirAgendamento := Some (i, n), modalExcluirVisible := True\<rparr>"

text \<open>
  \<^verbatim>\<open>confirmarExclusao\<close>: \<^verbatim>\<open>DELETE\<close>; on a 2xx reply the entries with that id leave
  the local list and the modal closes.
\<close>

definition confirmarExclusao :: "db_status \<Rightarrow> db \<Rightarrow> gerenciar_ui \<Rightarrow> gerenciar_ui \<times> db" where
  "confirmarExclusao r s u =
     (case excluirAgendamento u of
        None \<Rightarrow> (u, s)
      | Some (i, n) \<Rightarrow>
          (case api_delete_agendamento i r s of
             (resp, s') \<Rightarrow>
               if resposta_ok resp
               then (u\<lparr>agendamentos := filter (\<lambda>item. ag_id item \<noteq> i) (agendamentos u),
                       modalExcluirVisible := False, excluirAgendamento := None\<rparr>, s')
               else (u, s')))"

definition cancelarExclusao :: "gerenciar_ui \<Rightarrow> gerenciar_ui" where
  "cancelarExclusao u = u\<lparr>modalExcluirVisible := False, excluirAgendamento := None\<rparr>"

subsection \<open>The local list and the table\<close>

text \<open>
  The abstraction relation: the screen's list is the table as \<^verbatim>\<open>GET /api/clientes\<close>
  would return it now.
\<close>

definition sincronizado :: "gerenciar_ui \<Rightarrow> db \<Rightarrow> bool" where
  "sincronizado u s \<longleftrightarrow> agendamentos u = map agendamento_json (clientes s)"

lemma ag_id_json [simp]: "ag_id (agendamento_json c) = cliente_id c"
  by (simp add: agendamento_json_def)

lemma resposta_ok_reply [simp]: "resposta_ok (reply n m) \<longleftrightarrow> 200 \<le> n \<and> n < 300"
  by (simp add: resposta_ok_def reply_def)

lemma buscar_ok: "sincronizado (buscarAgendamentos DbOk s u) s"
  by (simp add: buscarAgendamentos_def api_clientes_def resposta_ok_def sincronizado_def)

lemma json_delete_cliente:
  "map agendamento_json (delete_cliente i xs) = filter (\<lambda>item. ag_id item \<noteq> i) (map agendamento_json xs)"
  by (induction xs) (simp_all add: delete_cliente_def)

lemma confirmarExclusao_cases:
  "confirmarExclusao r s u = (u', s') \<Longrightarrow>
     (u' = u \<and> s' = s)
   \<or> (\<exists>i n. excluirAgendamento u = Some (i, n) \<and> r = DbOk
        \<and> clientes s' = delete_cliente i (clientes s)
        \<and> agendamentos u' = filter (\<lambda>item. ag_id item \<noteq> i) (agendamentos u))"
  by (auto simp: confirmarExclusao_def api_delete_agendamento_def
           split: option.splits db_status.splits if_splits)

text \<open>The edited copy of a row, as the table holds it after a successful \<^verbatim>\<open>PUT\<close>.\<close>

lemma json_update_cliente:
  assumes "ids_distinct xs" and "a \<in> set (map agendamento_json xs)"
  shows "map agendamento_json (update_cliente (ag_id a) n sv x xs) =
           map_where (\<lambda>item. ag_id item = ag_id a)
             (\<lambda>item. a\<lparr>ag_nome_cliente := sql_to_js n, ag_servico := sql_to_js sv,
                        ag_valor_orcamento := sql_to_js x\<rparr>)
             (map agendamento_json xs)"
proof -
  obtain c0 where c0: "c0 \<in> set xs" "a = agendamento_json c0" using assms(2) by auto
  have "c = c0" if "c \<in> set xs" "cliente_id c = cliente_id c0" for c
    using distinct_map_eq_key [of cliente_id xs] assms(1) that c0(1)
    by (simp add: ids_distinct_def)
  then show ?thesis
    unfolding update_cliente_def
    by (intro map_map_where_commute) (auto simp: c0 agendamento_json_def)
qed

text \<open>A save, branch by branch: the reply decides both the table and the list.\<close>

lemma salvarEdicao_Some:
  assumes "editandoAgendamento u = Some a"
  shows "salvarEdicao r s u =
     (case r of
        DbError \<Rightarrow> (u, s)
      | DbOk \<Rightarrow>
          (u\<lparr>agendamentos := map_where (\<lambda>item. ag_id item = ag_id a)
               (\<lambda>item. a\<lparr>ag_nome_cliente := g_nomeCliente u, ag_servico := g_servico u,
                          ag_valor_orcamento := parseFloat (g_valorOrcamento u)\<rparr>) (agendamentos u),
             modalVisible := False, editandoAgendamento := None\<rparr>,
           s\<lparr>clientes := update_cliente (ag_id a) (sql_bind (json_valor (g_nomeCliente u)))
               (sql_bind (json_valor (g_servico u))) (sql_bind (json_valor (parseFloat (g_valorOrcamento u))))
               (clientes s)\<rparr>))"
  using assms by (simp add: salvarEdicao_def api_put_agendamento_def Let_def split: db_status.split)

lemma sincronizado_row:
  assumes "sincronizado u s" and "a \<in> set (agendamentos u)"
  obtains c where "c \<in> set (clientes s)" and "a = agendamento_json c"
  using assms by (auto simp: sincronizado_def)

lemma json_fields [simp]:
  "ag_valor_orcamento (agendamento_json c) = sql_to_js (valor_orcamento c)"
  "ag_nome_cliente (agendamento_json c) = sql_to_js (nome_cliente c)"
  "ag_servico (agendamento_json c) = sql_to_js (servico c)"
  "ag_data (agendamento_json c) = sql_to_js (data c)"
  "ag_hora (agendamento_json c) = sql_to_js (hora c)"
  by (simp_all add: agendamento_json_def)

text \<open>
  A row whose price is not a number cannot be shown by either list screen
  (\<^verbatim>\<open>toFixed\<close> of \<^verbatim>\<open>null\<close> or of a string throws); one whose price is
  \<^verbatim>\<open>NULL\<close> cannot be opened for editing either.
\<close>

lemma render_sem_numero:
  assumes "\<forall>x. valor_orcamento c \<noteq> SNum x"
  shows "renderItem_gerenciar (agendamento_json c) = None"
    and "renderItem_agenda (agendamento_json c) = None"
  using assms
  by (cases "valor_orcamento c";
      simp add: renderItem_gerenciar_def renderItem_agenda_def split: jsval.split prod.split option.split)+

lemma linha_nula:
  assumes "valor_orcamento c = SNull"
  shows "renderItem_gerenciar (agendamento_json c) = None"
    and "renderItem_agenda (agendamento_json c) = None"
    and "editar (agendamento_json c) u = None"
  using assms render_sem_numero [of c] by (simp_all add: editar_def)

text \<open>
  C25. The local list refines the table across a cancellation: if the screen showed the
  table before \<^verbatim>\<open>confirmarExclusao\<close>, it shows it afterwards, whatever the reply.
\<close>

theorem confirmar_sincroniza:
  assumes "sincronizado u s" and "confirmarExclusao r s u = (u', s')"
  shows "sincronizado u' s'"
  using confirmarExclusao_cases [OF assms(2)] assms(1)
  by (auto simp: sincronizado_def json_delete_cliente)

text \<open>
  C24. The local list refines the table across an edit whose name and service are text
  and whose price parses to a number: the patched list is the table read again.
\<close>

theorem salvar_sincroniza:
  assumes "sincronizado u s" and "ids_distinct (clientes s)"
    and "editandoAgendamento u = Some a" and "a \<in> set (agendamentos u)"
    and "g_nomeCliente u = JStr n" and "g_servico u = JStr sv"
    and "parseFloat (g_valorOrcamento u) = JNum x"
  shows "sincronizado (fst (salvarEdicao r s u)) (snd (salvarEdicao r s u))"
proof (cases r)
  case DbError
  then show ?thesis using assms(1) by (simp add: salvarEdicao_Some [OF assms(3)])
next
  case DbOk
  have "a \<in> set (map agendamento_json (clientes s))" using assms(1,4) by (simp add: sincronizado_def)
  from json_update_cliente [OF assms(2) this, of "SText n" "SText sv" "SNum x"] DbOk assms(1,5,6,7) show ?thesis
    by (simp add: salvarEdicao_Some [OF assms(3)] sincronizado_def)
qed

text \<open>
  C22. A price that does not parse (\<^verbatim>\<open>parseFloat\<close> gives \<^verbatim>\<open>NaN\<close>, which
  \<^verbatim>\<open>JSON.stringify\<close> sends as \<^verbatim>\<open>null\<close>) is saved as \<^verbatim>\<open>NULL\<close> while the screen
  shows \<^verbatim>\<open>NaN\<close>: the list no longer mirrors the table, and the stored row makes both
  list screens throw when they render it and the edit button throw when pressed.
\<close>

theorem salvar_valor_invalido:
  assumes "sincronizado u s" and "editandoAgendamento u = Some a" and "a \<in> set (agendamentos u)"
    and "parseFloat (g_valorOrcamento u) = JNaN"
  shows "\<not> sincronizado (fst (salvarEdicao DbOk s u)) (snd (salvarEdicao DbOk s u))
       \<and> (\<exists>c \<in> set (clientes (snd (salvarEdicao DbOk s u))).
            cliente_id c = ag_id a \<and> valor_orcamento c = SNull
            \<and> renderItem_gerenciar (agendamento_json c) = None
            \<and> renderItem_agenda (agendamento_json c) = None
            \<and> editar (agendamento_json c) u' = None)"
proof -
  obtain c0 where c0: "c0 \<in> set (clientes s)" "a = agendamento_json c0"
    using sincronizado_row [OF assms(1,3)] .
  let ?upd = "a\<lparr>ag_nome_cliente := g_nomeCliente u, ag_servico := g_servico u, ag_valor_orcamento := JNaN\<rparr>"
  have "?upd \<in> set (agendamentos (fst (salvarEdicao DbOk s u)))"
    using map_where_in [OF assms(3), of "\<lambda>item. ag_id item = ag_id a" "\<lambda>item. ?upd"] assms(4)
    by (simp add: salvarEdicao_Some [OF assms(2)])
  then have nsync: "\<not> sincronizado (fst (salvarEdicao DbOk s u)) (snd (salvarEdicao DbOk s u))"
    by (auto simp: sincronizado_def dest!: arg_cong [where f = ag_valor_orcamento])
  let ?c = "c0\<lparr>nome_cliente := sql_bind (json_valor (g_nomeCliente u)),
                servico := sql_bind (json_valor (g_servico u)), valor_orcamento := SNull\<rparr>"
  have "?c \<in> set (clientes (snd (salvarEdicao DbOk s u)))"
    using update_cliente_in [OF c0(1), of "ag_id a"] c0(2) assms(4)
    by (simp add: salvarEdicao_Some [OF assms(2)])
  moreover have "cliente_id ?c = ag_id a" using c0(2) by simp
  ultimately show ?thesis using nsync linha_nula [of ?c] by fastforce
qed

lemma editar_numero:
  "ag_valor_orcamento a = JNum x \<Longrightarrow>
   editar a u = Some (u\<lparr>editandoAgendamento := Some a, g_nomeCliente := ag_nome_cliente a,
                         g_servico := ag_servico a, g_valorOrcamento := number_toString x,
                         modalVisible := True\<rparr>)"
  by (simp add: editar_def)

text \<open>
  C23. Opening an appointment for editing and saving it untouched leaves the table as it
  was, for every price with a finite decimal expansion: the price goes through
  \<^verbatim>\<open>toString\<close> into the text field and back through \<^verbatim>\<open>parseFloat\<close> unchanged.
\<close>

theorem editar_salvar_preserva:
  assumes "sincronizado u s" and "ids_distinct (clientes s)" and "a \<in> set (agendamentos u)"
    and "ag_nome_cliente a = JStr n" and "ag_servico a = JStr sv"
    and "ag_valor_orcamento a = JNum (of_int m / 10 ^ e)"
    and "editar a u = Some u1"
  shows "snd (salvarEdicao r s u1) = s \<and> sincronizado (fst (salvarEdicao r s u1)) s"
proof -
  let ?x = "of_int m / 10 ^ e :: rat"
  have u1: "u1 = u\<lparr>editandoAgendamento := Some a, g_nomeCliente := JStr n, g_servico := JStr sv,
                   g_valorOrcamento := number_toString ?x, modalVisible := True\<rparr>"
    using assms(4-7) editar_numero [OF assms(6), of u] by simp
  obtain c0 where c0: "c0 \<in> set (clientes s)" "a = agendamento_json c0"
    using sincronizado_row [OF assms(1,3)] .
  have same: "c\<lparr>nome_cliente := SText n, servico := SText sv, valor_orcamento := SNum ?x\<rparr> = c"
    if "c \<in> set (clientes s)" "cliente_id c = ag_id a" for c
  proof -
    have "c = c0"
      using distinct_map_eq_key [of cliente_id "clientes s" c c0] assms(2) that c0 by (simp add: ids_distinct_def)
    then show ?thesis using c0(2) assms(4-6) by simp
  qed
  have tab: "update_cliente (ag_id a) (SText n) (SText sv) (SNum ?x) (clientes s) = clientes s"
    unfolding update_cliente_def by (rule map_where_id) (simp add: same)
  have pf: "parseFloat (number_toString ?x) = JNum ?x" by (rule parseFloat_number_toString)
  have "map agendamento_json (clientes s) =
          map_where (\<lambda>item. ag_id item = ag_id a)
            (\<lambda>item. a\<lparr>ag_nome_cliente := JStr n, ag_servico := JStr sv, ag_valor_orcamento := JNum ?x\<rparr>)
            (agendamentos u)"
    using json_update_cliente [OF assms(2), of a "SText n" "SText sv" "SNum ?x"] assms(1,3) tab by (simp add: sincronizado_def)
  then show ?thesis using assms(1) tab by (cases r) (simp_all add: u1 salvarEdicao_Some pf sincronizado_def)
qed

lemma digito_nao_separador: "is_digit c \<Longrightarrow> c \<noteq> CHR ''-'' \<and> c \<noteq> CHR '':''"
  by (auto simp: is_digit_def)

lemma dataRegex_forma:
  assumes "match_pattern dataRegex d"
  obtains a b c e f g i j where "d = [a, b, c, e, CHR ''-'', f, g, CHR ''-'', i, j]"
    and "\<forall>x \<in> set [a, b, c, e, f, g, i, j]. is_digit x"
  using assms by (auto simp: dataRegex_def match_pattern_Cons_iff)

lemma horaRegex_forma:
  assumes "match_pattern horaRegex h"
  obtains a b c e f g where "h = [a, b, CHR '':'', c, e, CHR '':'', f, g]"
    and "\<forall>x \<in> set [a, b, c, e, f, g]. is_digit x"
  using assms by (auto simp: horaRegex_def match_pattern_Cons_iff)

text \<open>
  C27. The two list screens print a well-formed appointment alike: for a date and a time
  that pass the booking handler's patterns, the agenda's \<^verbatim>\<open>formatDate\<close> is the
  management screen's \<^verbatim>\<open>formatarData\<close> and \<^verbatim>\<open>formatarHora\<close> joined by a dash.
\<close>

theorem formatDate_consistente:
  assumes "match_pattern dataRegex d" and "match_pattern horaRegex h"
  shows "formatDate d h = Some (formatarData d @ '' - '' @ formatarHora h)"
proof -
  obtain a b c e f g i j where d: "d = [a, b, c, e, CHR ''-'', f, g, CHR ''-'', i, j]"
    and dd: "\<forall>x \<in> set [a, b, c, e, f, g, i, j]. is_digit x"
    using dataRegex_forma [OF assms(1)] by blast
  obtain a' b' c' e' f' g' where h: "h = [a', b', CHR '':'', c', e', CHR '':'', f', g']"
    and hd: "\<forall>x \<in> set [a', b', c', e', f', g']. is_digit x"
    using horaRegex_forma [OF assms(2)] by blast
  show ?thesis
    using dd hd digito_nao_separador
    by (simp add: d h formatDate_def formatarData_def formatarHora_def parte_def padStart_def)
qed

text \<open>
  C26. The booking handler stores any truthy price: a request whose price is a non-empty
  string without a digit is answered 201, and the row it adds cannot be rendered by either
  list screen. Such a text is no numeric literal, so SQLite keeps it as text whatever the
  affinity of the (absent) column declaration: the binding \<open>sql_bind\<close>, which stores
  strings as text, agrees with SQLite on it.
\<close>

theorem cadastro_valor_texto:
  assumes "cadastro_valid n d h sv (JStr v)" and "\<forall>ch \<in> set v. \<not> is_digit ch"
  shows "status (fst (api_cadastro n d h sv (JStr v) DbOk s)) = 201
       \<and> (\<exists>c \<in> set (clientes (snd (api_cadastro n d h sv (JStr v) DbOk s))).
            c \<notin> set (clientes s) \<and> valor_orcamento c = SText v
            \<and> renderItem_gerenciar (agendamento_json c) = None
            \<and> renderItem_agenda (agendamento_json c) = None)"
proof -
  let ?c = "\<lparr>cliente_id = next_rowid (clientes s), nome_cliente = sql_bind n, data = sql_bind d,
             hora = sql_bind h, servico = sql_bind sv, valor_orcamento = SText v\<rparr>"
  have novo: "?c \<notin> set (clientes s)" using next_rowid_fresh [of "clientes s"] by force
  show ?thesis
    using render_sem_numero [of ?c] novo
    by (simp add: api_cadastro_valid_ok [OF assms(1)] insert_cliente_def reply_def)
qed

end
