(* ===== verification/GerenciarTela.thy ===== *)
theory GerenciarTela
  imports Gerenciar
begin

text \<open>
  What the management screen \<^verbatim>\<open>src/app/(tabs)/gerenciar.tsx\<close> draws and which
  handler each control calls: the \<^verbatim>\<open>FlatList\<close> of cards with their keys, the edit
  modal with its three inputs, and the cancellation modal with its question. A user
  event is one press or one edit of an input; an event only exists for a control on the
  screen, and while a modal is open only its own controls are reachable. Sequences of
  events are run against the database behind the two write routes.
\<close>

subsection \<open>The rendered screen\<close>

text \<open>\<^verbatim>\<open>keyExtractor={(item) => item.id.toString()}\<close>.\<close>

definition chave :: "agendamento \<Rightarrow> string" where
  "chave item = number_toString (of_nat (ag_id item))"

text \<open>
  The screen: the cards as (key, texts), the edit modal's input values when it is
  visible, and the cancellation modal's title when it is visible. \<open>None\<close> is a throw
  in some \<^verbatim>\<open>renderItem\<close>, which unmounts the screen. Every card is rendered:
  the windowing of \<^verbatim>\<open>FlatList\<close> only delays the cards below the fold.
\<close>

record tela_g =
  cartoes :: "(string \<times> string list) list"
  modal_edicao :: "(jsval \<times> jsval \<times> string) option"
  modal_exclusao :: "string option"

definition titulo_exclusao :: "(nat \<times> jsval) option \<Rightarrow> string" where
  "titulo_exclusao ex =
     ''Tem certeza que deseja excluir o agendamento de ''
     @ texto_jsx (case ex of None \<Rightarrow> JUndef | Some (i, n) \<Rightarrow> n) @ ''?''"

definition tela_gerenciar :: "gerenciar_ui \<Rightarrow> tela_g option" where
  "tela_gerenciar u =
     (case those (map renderItem_gerenciar (agendamentos u)) of
        None \<Rightarrow> None
      | Some cs \<Rightarrow>
          Some \<lparr>cartoes = zip (map chave (agendamentos u)) cs,
                modal_edicao = (if modalVisible u
                                then Some (g_nomeCliente u, g_servico u, g_valorOrcamento u) else None),
                modal_exclusao = (if modalExcluirVisible u
                                  then Some (titulo_exclusao (excluirAgendamento u)) else None)\<rparr>)"

subsection \<open>Events\<close>

text \<open>
  The controls of the screen: the pencil and the trash icon of the \<open>k\<close>-th card, the
  three \<^verbatim>\<open>onChangeText\<close> inputs, Salvar and Cancelar of the edit modal (its
  \<^verbatim>\<open>onRequestClose\<close> does the same as Cancelar), Confirmar and Cancelar of the
  cancellation modal (whose \<^verbatim>\<open>onRequestClose\<close> is \<^verbatim>\<open>cancelarExclusao\<close>).
\<close>

datatype evento_g =
  Editar nat
| Excluir nat
| DigitarNome string
| DigitarServico string
| DigitarValor string
| Salvar
| CancelarEdicao
| Confirmar
| CancelarExclusao

text \<open>Whether the control is on the screen and reachable.\<close>

fun evento_habilitado :: "gerenciar_ui \<Rightarrow> evento_g \<Rightarrow> bool" where
  "evento_habilitado u (Editar k) =
     (tela_gerenciar u \<noteq> None \<and> \<not> modalVisible u \<and> \<not> modalExcluirVisible u \<and> k < length (agendamentos u))"
| "evento_habilitado u (Excluir k) =
     (tela_gerenciar u \<noteq> None \<and> \<not> modalVisible u \<and> \<not> modalExcluirVisible u \<and> k < length (agendamentos u))"
| "evento_habilitado u Confirmar = (tela_gerenciar u \<noteq> None \<and> modalExcluirVisible u)"
| "evento_habilitado u CancelarExclusao = (tela_gerenciar u \<noteq> None \<and> modalExcluirVisible u)"
| "evento_habilitado u e = (tela_gerenciar u \<noteq> None \<and> modalVisible u)"

text \<open>
  The handler each control calls, as the JSX binds it: \<open>None\<close> is a throw of
  \<^verbatim>\<open>editar\<close>. \<open>r\<close> is the outcome of the request the handler sends, if it sends one.
\<close>

fun tratar :: "db_status \<Rightarrow> db \<Rightarrow> evento_g \<Rightarrow> gerenciar_ui \<Rightarrow> (gerenciar_ui \<times> db) option" where
  "tratar r s (Editar k) u = map_option (\<lambda>u'. (u', s)) (editar (agendamentos u ! k) u)"
| "tratar r s (Excluir k) u =
     Some (excluir (ag_id (agendamentos u ! k)) (ag_nome_cliente (agendamentos u ! k)) u, s)"
| "tratar r s (DigitarNome t) u = Some (digitarNome t u, s)"
| "tratar r s (DigitarServico t) u = Some (digitarServico t u, s)"
| "tratar r s (DigitarValor t) u = Some (digitarValor t u, s)"
| "tratar r s Salvar u = Some (salvarEdicao r s u)"
| "tratar r s CancelarEdicao u = Some (fecharEdicao u, s)"
| "tratar r s Confirmar u = Some (confirmarExclusao r s u)"
| "tratar r s CancelarExclusao u = Some (cancelarExclusao u, s)"

text \<open>Why a sequence of events stops: a control that is not there, or a throw.\<close>

datatype falha_g = Controle_ausente | Excecao

fun executar :: "(evento_g \<times> db_status) list \<Rightarrow> gerenciar_ui \<times> db \<Rightarrow> falha_g + gerenciar_ui \<times> db" where
  "executar [] st = Inr st"
| "executar ((e, r) # es) (u, s) =
     (if \<not> evento_habilitado u e then Inl Controle_ausente
      else case tratar r s e u of
             None \<Rightarrow> Inl Excecao
           | Some st' \<Rightarrow> executar es st')"

subsection \<open>The screen's invariant\<close>

text \<open>The values that come back unchanged from a \<^verbatim>\<open>PUT\<close> and a \<^verbatim>\<open>GET\<close>.\<close>

fun js_persistivel :: "jsval \<Rightarrow> bool" where
  "js_persistivel JNull = True"
| "js_persistivel (JNum x) = True"
| "js_persistivel (JStr t) = True"
| "js_persistivel v = False"

text \<open>
  At most one modal is open; the cancellation modal is open exactly when an
  appointment is marked for cancellation; the edit modal is open only on an
  appointment of the list, with name and service fields that survive a save; and the
  names and services of the list are such values.
\<close>

definition tela_inv :: "gerenciar_ui \<Rightarrow> bool" where
  "tela_inv u \<longleftrightarrow>
     \<not> (modalVisible u \<and> modalExcluirVisible u)
   \<and> (modalExcluirVisible u \<longleftrightarrow> excluirAgendamento u \<noteq> None)
   \<and> (modalVisible u \<longrightarrow>
        (case editandoAgendamento u of None \<Rightarrow> False | Some a \<Rightarrow> a \<in> set (agendamentos u))
        \<and> js_persistivel (g_nomeCliente u) \<and> js_persistivel (g_servico u))
   \<and> list_all (\<lambda>a. js_persistivel (ag_nome_cliente a) \<and> js_persistivel (ag_servico a)) (agendamentos u)"

lemma persistivel_sql_to_js [simp]: "js_persistivel (sql_to_js v)"
  by (cases v) simp_all

lemma persistivel_volta: "js_persistivel v \<Longrightarrow> sql_to_js (sql_bind (json_valor v)) = v"
  by (cases v) simp_all

lemma tela_inv_buscar: "tela_inv (buscarAgendamentos r s gerenciar_inicial)"
  by (simp add: buscarAgendamentos_def gerenciar_inicial_def api_clientes_def tela_inv_def
      list_all_iff Let_def split: db_status.split)

lemma tela_inv_map_where:
  assumes "list_all (\<lambda>a. js_persistivel (ag_nome_cliente a) \<and> js_persistivel (ag_servico a)) xs"
    and "js_persistivel (ag_nome_cliente b)" and "js_persistivel (ag_servico b)"
  shows "list_all (\<lambda>a. js_persistivel (ag_nome_cliente a) \<and> js_persistivel (ag_servico a))
           (map_where P (\<lambda>item. b) xs)"
  using assms by (induction xs) (simp_all add: map_where_def)

lemma tratar_inv:
  assumes "tela_inv u" and "evento_habilitado u e" and "tratar r s e u = Some (u', s')"
  shows "tela_inv u'"
proof (cases e)
  case (Editar k)
  then show ?thesis using assms
    by (auto simp: editar_def tela_inv_def list_all_iff split: option.splits)
next
  case (Excluir k)
  then show ?thesis using assms by (auto simp: excluir_def tela_inv_def)
next
  case Salvar
  then obtain a where a: "editandoAgendamento u = Some a" "modalVisible u"
    using assms(1,2) by (cases e; auto simp: tela_inv_def split: option.splits)
  let ?b = "a\<lparr>ag_nome_cliente := g_nomeCliente u, ag_servico := g_servico u,
                ag_valor_orcamento := parseFloat (g_valorOrcamento u)\<rparr>"
  have "list_all (\<lambda>a. js_persistivel (ag_nome_cliente a) \<and> js_persistivel (ag_servico a))
          (map_where (\<lambda>item. ag_id item = ag_id a) (\<lambda>item. ?b) (agendamentos u))"
    using assms(1) a(2) by (intro tela_inv_map_where) (simp_all add: tela_inv_def)
  then show ?thesis using assms Salvar a
    by (cases r) (auto simp: salvarEdicao_Some [OF a(1)] tela_inv_def)
next
  case Confirmar
  then show ?thesis using assms
    by (auto simp: confirmarExclusao_def api_delete_agendamento_def tela_inv_def list_all_iff
        split: option.splits db_status.splits if_splits)
qed (use assms in \<open>auto simp: tela_inv_def digitarNome_def digitarServico_def digitarValor_def
       fecharEdicao_def cancelarExclusao_def split: option.splits\<close>)

lemma executar_inv:
  "executar es (u, s) = Inr (u', s') \<Longrightarrow> tela_inv u \<Longrightarrow> tela_inv u'"
proof (induction es arbitrary: u s)
  case (Cons x es)
  obtain e r where x: "x = (e, r)" by (cases x)
  show ?case
  proof (cases "tratar r s e u")
    case (Some st)
    with Cons.prems x obtain u1 s1 where "st = (u1, s1)" "evento_habilitado u e"
      "executar es (u1, s1) = Inr (u', s')"
      by (cases st) (auto split: if_splits)
    then show ?thesis using Cons.IH tratar_inv [OF Cons.prems(2)] Some by blast
  qed (use Cons.prems x in \<open>simp split: if_splits\<close>)
qed simp

text \<open>
  C32. Along any sequence of presses and edits after the screen has loaded the list, at
  most one modal is open, the cancellation modal is open exactly when an appointment is
  marked for cancellation, and the edit modal is open only on an appointment of the list.
\<close>

theorem tela_sempre_consistente:
  assumes "executar es (buscarAgendamentos r s gerenciar_inicial, s) = Inr (u', s')"
  shows "tela_inv u'"
  using executar_inv [OF assms tela_inv_buscar] .

lemma tratar_mesma_lista:
  assumes "tratar r s e u = Some (u', s')" and "e \<noteq> Salvar" and "e \<noteq> Confirmar"
  shows "agendamentos u' = agendamentos u \<and> s' = s"
  using assms
  by (cases e) (auto simp: editar_def excluir_def digitarNome_def digitarServico_def digitarValor_def
      fecharEdicao_def cancelarExclusao_def split: option.splits)

lemma salvar_sincroniza_persistivel:
  assumes "sincronizado u s" and "ids_distinct (clientes s)"
    and "editandoAgendamento u = Some a" and "a \<in> set (agendamentos u)"
    and "js_persistivel (g_nomeCliente u)" and "js_persistivel (g_servico u)"
    and "parseFloat (g_valorOrcamento u) = JNum x"
  shows "sincronizado (fst (salvarEdicao r s u)) (snd (salvarEdicao r s u))
       \<and> ids_distinct (clientes (snd (salvarEdicao r s u)))"
proof (cases r)
  case DbError
  then show ?thesis using assms(1,2) by (simp add: salvarEdicao_Some [OF assms(3)])
next
  case DbOk
  have "a \<in> set (map agendamento_json (clientes s))" using assms(1,4) by (simp add: sincronizado_def)
  from json_update_cliente [OF assms(2) this] DbOk assms(1,2,5,6,7) show ?thesis
    by (simp add: salvarEdicao_Some [OF assms(3)] sincronizado_def persistivel_volta ids_distinct_update)
qed

text \<open>
  C33. Every control of the screen keeps its list equal to the table, and the rowids
  distinct, when the screen is the only writer: the one exception is a successful save
  of a price that \<^verbatim>\<open>parseFloat\<close> does not read as a number.
\<close>

theorem evento_sincroniza:
  assumes "sincronizado u s" and "ids_distinct (clientes s)" and "tela_inv u"
    and "evento_habilitado u e" and "tratar r s e u = Some (u', s')"
  shows "(sincronizado u' s' \<and> ids_distinct (clientes s'))
       \<or> (e = Salvar \<and> r = DbOk \<and> (\<forall>x. parseFloat (g_valorOrcamento u) \<noteq> JNum x))"
proof -
  consider "e = Salvar" | "e = Confirmar" | "e \<noteq> Salvar" "e \<noteq> Confirmar" by blast
  then show ?thesis
  proof cases
    case 1
    then obtain a where a: "editandoAgendamento u = Some a" "a \<in> set (agendamentos u)"
      "js_persistivel (g_nomeCliente u)" "js_persistivel (g_servico u)"
      using assms(3,4) by (auto simp: tela_inv_def split: option.splits)
    show ?thesis
    proof (cases "\<exists>x. parseFloat (g_valorOrcamento u) = JNum x")
      case True
      then obtain x where "parseFloat (g_valorOrcamento u) = JNum x" by blast
      from salvar_sincroniza_persistivel [OF assms(1,2) a this, of r] 1 assms(5) show ?thesis by simp
    next
      case False
      then show ?thesis
        using 1 assms(1,2,5) by (cases r) (auto simp: salvarEdicao_Some [OF a(1)])
    qed
  next
    case 2
    then have "confirmarExclusao r s u = (u', s')" using assms(5) by simp
    from confirmarExclusao_cases [OF this] show ?thesis
      using assms(1,2) by (auto simp: sincronizado_def json_delete_cliente ids_distinct_delete)
  next
    case 3
    then show ?thesis using tratar_mesma_lista [OF assms(5)] assms(1,2) by (simp add: sincronizado_def)
  qed
qed

lemma chave_inj: "chave a = chave b \<Longrightarrow> ag_id a = ag_id b"
proof -
  assume "chave a = chave b"
  then have "parseFloat (number_toString (of_int (int (ag_id a)) / 10 ^ 0))
           = parseFloat (number_toString (of_int (int (ag_id b)) / 10 ^ 0))"
    by (simp add: chave_def)
  then show "ag_id a = ag_id b" by (simp only: parseFloat_number_toString) simp
qed

text \<open>
  C34. The keys the list gives React are distinct whenever the list mirrors a table with
  distinct rowids: \<^verbatim>\<open>item.id.toString()\<close> never maps two rowids to one text.
\<close>

theorem chaves_distintas:
  assumes "sincronizado u s" and "ids_distinct (clientes s)" and "tela_gerenciar u = Some t"
  shows "distinct (map fst (cartoes t))"
proof -
  obtain cs where cs: "those (map renderItem_gerenciar (agendamentos u)) = Some cs"
    and t: "cartoes t = zip (map chave (agendamentos u)) cs"
    using assms(3) by (auto simp: tela_gerenciar_def split: option.splits)
  have "distinct (map ag_id (agendamentos u))"
    using assms(1,2) by (simp add: sincronizado_def ids_distinct_def comp_def)
  then have "distinct (agendamentos u)" "inj_on ag_id (set (agendamentos u))"
    by (simp_all add: distinct_map)
  then have "distinct (map chave (agendamentos u))"
    by (auto simp: distinct_map intro!: inj_onI dest: chave_inj inj_onD)
  moreover have "length cs = length (agendamentos u)" using those_length [OF cs] by simp
  ultimately show ?thesis by (simp add: t)
qed

end
