(* ===== verification/Listas.thy ===== *)
theory Listas
  imports GerenciarTela
begin

text \<open>
  The two list screens side by side: the agenda (\<^verbatim>\<open>index.tsx\<close>, \<open>tela_agenda\<close>) and the
  management screen (\<^verbatim>\<open>gerenciar.tsx\<close>, \<open>tela_gerenciar\<close>) both load
  \<^verbatim>\<open>GET /api/clientes\<close> and render one card per row. On a table whose dates and
  times have the booking handler's form (the typing \<open>db_bem_formado\<close> that every
  reachable state keeps), whether a screen renders depends only on the prices, and both
  screens key their cards alike.
\<close>

text \<open>A price that \<^verbatim>\<open>toFixed\<close> accepts once read back through JSON.\<close>

fun numero_sql :: "sqlval \<Rightarrow> bool" where
  "numero_sql (SNum x) = True"
| "numero_sql v = False"

lemma formatDate_bem_formada:
  assumes "match_pattern dataRegex d" and "match_pattern horaRegex h"
  shows "formatDate d h \<noteq> None"
proof -
  obtain a b c e f g i j where d: "d = [a, b, c, e, CHR ''-'', f, g, CHR ''-'', i, j]"
    and dd: "\<forall>x \<in> set [a, b, c, e, f, g, i, j]. is_digit x"
    using dataRegex_forma [OF assms(1)] by blast
  show ?thesis using dd digito_nao_separador by (simp add: d formatDate_def)
qed

lemma toFixed_sql_to_js: "toFixed 2 (sql_to_js v) \<noteq> None \<longleftrightarrow> numero_sql v"
  by (cases v) simp_all

lemma linha_textos:
  assumes "linha_bem_formada c"
  obtains d h where "data c = SText d" "match_pattern dataRegex d"
    and "hora c = SText h" "match_pattern horaRegex h"
  using assms by (cases "data c"; cases "hora c") (auto simp: linha_bem_formada_def)

lemma render_agenda_linha:
  assumes "linha_bem_formada c"
  shows "renderItem_agenda (agendamento_json c) \<noteq> None \<longleftrightarrow> numero_sql (valor_orcamento c)"
proof -
  obtain d h where t: "data c = SText d" "match_pattern dataRegex d" "hora c = SText h" "match_pattern horaRegex h"
    using linha_textos [OF assms] by blast
  obtain f where f: "formatDate d h = Some f" using formatDate_bem_formada [OF t(2,4)] by blast
  show ?thesis
    using toFixed_sql_to_js [of "valor_orcamento c"]
    by (auto simp: renderItem_agenda_def t(1,3) f split: option.split)
qed

lemma render_gerenciar_linha:
  assumes "linha_bem_formada c"
  shows "renderItem_gerenciar (agendamento_json c) \<noteq> None \<longleftrightarrow> numero_sql (valor_orcamento c)"
proof -
  obtain d h where t: "data c = SText d" "hora c = SText h"
    using linha_textos [OF assms] by metis
  show ?thesis
    using toFixed_sql_to_js [of "valor_orcamento c"]
    by (auto simp: renderItem_gerenciar_def t split: option.split)
qed

lemma responseAgendamentos_ok: "responseAgendamentos DbOk s xs = map agendamento_json (clientes s)"
  by (simp add: responseAgendamentos_def axios_payload_def api_clientes_def)

lemma buscar_lista: "agendamentos (buscarAgendamentos DbOk s u) = map agendamento_json (clientes s)"
  by (simp add: buscarAgendamentos_def api_clientes_def resposta_ok_def)

lemma those_map_render:
  assumes "\<And>c. c \<in> set cs \<Longrightarrow> f (agendamento_json c) \<noteq> None \<longleftrightarrow> numero_sql (valor_orcamento c)"
  shows "those (map f (map agendamento_json cs)) \<noteq> None \<longleftrightarrow> list_all (\<lambda>c. numero_sql (valor_orcamento c)) cs"
  using assms by (auto simp: those_map_None list_all_iff)

lemma chave_agenda_chave: "chave_agenda = chave"
  by (simp add: fun_eq_iff chave_agenda_def chave_def)

lemma chaves_agenda:
  "those (map renderItem_agenda ys) = Some cs \<Longrightarrow> map_option (map fst) (tela_agenda ys) = Some (map chave ys)"
  using those_length [of "map renderItem_agenda ys" cs] by (simp add: tela_agenda_def chave_agenda_chave)

lemma chaves_gerenciar:
  "those (map renderItem_gerenciar (agendamentos u)) = Some ds
   \<Longrightarrow> map_option (\<lambda>t. map fst (cartoes t)) (tela_gerenciar u) = Some (map chave (agendamentos u))"
  using those_length [of "map renderItem_gerenciar (agendamentos u)" ds] by (simp add: tela_gerenciar_def)

text \<open>
  C36. On a well-formed table the two list screens agree: each renders exactly when every
  stored price is a number, and when they render they show the same keys in the same
  order.
\<close>

theorem listas_concordam:
  assumes "db_bem_formado s"
  shows "(tela_agenda (responseAgendamentos DbOk s xs) \<noteq> None
            \<longleftrightarrow> list_all (\<lambda>c. numero_sql (valor_orcamento c)) (clientes s))
       \<and> (tela_gerenciar (buscarAgendamentos DbOk s u) \<noteq> None
            \<longleftrightarrow> list_all (\<lambda>c. numero_sql (valor_orcamento c)) (clientes s))
       \<and> map_option (map fst) (tela_agenda (responseAgendamentos DbOk s xs))
           = map_option (\<lambda>t. map fst (cartoes t)) (tela_gerenciar (buscarAgendamentos DbOk s u))"
proof -
  let ?ys = "map agendamento_json (clientes s)"
  have bf: "\<And>c. c \<in> set (clientes s) \<Longrightarrow> linha_bem_formada c"
    using assms by (simp add: db_bem_formado_def list_all_iff)
  have a: "those (map renderItem_agenda ?ys) \<noteq> None \<longleftrightarrow> list_all (\<lambda>c. numero_sql (valor_orcamento c)) (clientes s)"
    using render_agenda_linha [OF bf] by (intro those_map_render) blast
  have g: "those (map renderItem_gerenciar ?ys) \<noteq> None \<longleftrightarrow> list_all (\<lambda>c. numero_sql (valor_orcamento c)) (clientes s)"
    using render_gerenciar_linha [OF bf] by (intro those_map_render) blast
  have k: "map_option (map fst) (tela_agenda ?ys)
           = map_option (\<lambda>t. map fst (cartoes t)) (tela_gerenciar (buscarAgendamentos DbOk s u))"
  proof (cases "those (map renderItem_agenda ?ys) = None")
    case True
    then show ?thesis using a g by (simp add: tela_agenda_def tela_gerenciar_def buscar_lista split: option.split)
  next
    case False
    then obtain cs ds where cs: "those (map renderItem_agenda ?ys) = Some cs"
      and ds: "those (map renderItem_gerenciar ?ys) = Some ds" using a g by fastforce
    have e: "map_option (\<lambda>t. map fst (cartoes t)) (tela_gerenciar (buscarAgendamentos DbOk s u))
             = Some (map chave ?ys)"
      using chaves_gerenciar [of "buscarAgendamentos DbOk s u" ds] ds by (simp only: buscar_lista)
    show ?thesis by (simp only: chaves_agenda [OF cs] e)
  qed
  have ta: "tela_agenda ?ys \<noteq> None \<longleftrightarrow> those (map renderItem_agenda ?ys) \<noteq> None"
    by (simp add: tela_agenda_def)
  have tg: "tela_gerenciar (buscarAgendamentos DbOk s u) \<noteq> None \<longleftrightarrow> those (map renderItem_gerenciar ?ys) \<noteq> None"
    by (simp add: tela_gerenciar_def buscar_lista split: option.split)
  show ?thesis unfolding responseAgendamentos_ok using a g k ta tg by blast
qed

lemma ponto_fora_js_string_int: "CHR ''.'' \<notin> set (js_string_int i)"
  using digitos_is_digit [of "nat i"] digitos_is_digit [of "nat (- i)"]
  by (auto simp: js_string_int_def is_digit_def)

lemma replace_primeiro_append:
  "a \<notin> set xs \<Longrightarrow> replace_primeiro a b (xs @ a # ys) = xs @ b # ys"
  by (induction xs) auto

text \<open>
  C29. A well-formed appointment with an integer price shows that price with two decimals
  on both list screens: the agenda's card ends with \<^verbatim>\<open>R$ 50.00\<close>, the management
  screen's with \<^verbatim>\<open>Valor: R$ 50,00\<close> (\<^verbatim>\<open>toFixed(2)\<close>, then the first dot
  replaced by a comma).
\<close>

theorem preco_inteiro_nas_listas:
  assumes "linha_bem_formada c" and "valor_orcamento c = SNum (of_int i)" and "\<bar>i\<bar> < 10 ^ 21"
  shows "map_option last (renderItem_agenda (agendamento_json c)) = Some (''R$ '' @ js_string_int i @ ''.00'')
       \<and> map_option last (renderItem_gerenciar (agendamento_json c))
           = Some (''Valor: R$ '' @ js_string_int i @ '',00'')"
proof -
  obtain d h where t: "data c = SText d" "match_pattern dataRegex d" "hora c = SText h" "match_pattern horaRegex h"
    using linha_textos [OF assms(1)] by blast
  obtain f where f: "formatDate d h = Some f" using formatDate_bem_formada [OF t(2,4)] by blast
  have x: "toFixed 2 (ag_valor_orcamento (agendamento_json c)) = Some (js_string_int i @ ''.00'')"
    using toFixed_inteiro [OF assms(3)] assms(2) by simp
  have r: "replace_primeiro CHR ''.'' CHR '','' (js_string_int i @ ''.00'') = js_string_int i @ '',00''"
    using replace_primeiro_append [OF ponto_fora_js_string_int [of i], of "CHR '',''" "''00''"] by simp
  show ?thesis
    using x r by (simp add: renderItem_agenda_def renderItem_gerenciar_def t(1,3) f)
qed

end
