(* ===== verification/BookingTela.thy ===== *)
theory BookingTela
  imports Gerenciar
begin

text \<open>
  The booking form of \<^verbatim>\<open>src/app/(tabs)/cadastrar.tsx\<close> as drawn: the name input, the
  three controlled \<^verbatim>\<open><select>\<close>s with their placeholder and their options, and the
  labels of those options. The browser submits the form only when every
  \<^verbatim>\<open>required\<close> control holds a value; this theory shows that check on the rendered
  form is \<open>formulario_valido\<close>, and that the date labels are the management screen's.
\<close>

subsection \<open>Controls\<close>

text \<open>The \<^verbatim>\<open>onChange\<close> of the name input and of the time \<^verbatim>\<open><select>\<close>.\<close>

definition digitarNomeCliente :: "string \<Rightarrow> cadastro_ui \<Rightarrow> cadastro_ui" where
  "digitarNomeCliente t u = u\<lparr>nomeCliente := JStr t\<rparr>"

definition selecionarHora :: "string \<Rightarrow> cadastro_ui \<Rightarrow> cadastro_ui" where
  "selecionarHora h u = u\<lparr>horaEscolhida := h\<rparr>"

text \<open>\<^verbatim>\<open>xs.join(sep)\<close> with a one-character separator.\<close>

fun juntar :: "char \<Rightarrow> string list \<Rightarrow> string" where
  "juntar c [] = []"
| "juntar c [x] = x"
| "juntar c (x # xs) = x @ c # juntar c xs"

text \<open>The label of a date option: \<^verbatim>\<open>data.split('-').reverse().join('/')\<close>.\<close>

definition rotulo_data :: "string \<Rightarrow> string" where
  "rotulo_data d = juntar CHR ''/'' (rev (split_em CHR ''-'' d))"

text \<open>
  The options of each \<^verbatim>\<open><select>\<close> as (value, label), the placeholder with the empty
  value first. A time and a service name are the JSON values of \<^verbatim>\<open>GET /api/gestao\<close>
  and \<^verbatim>\<open>GET /api/servicos\<close>, printed as text children and as \<^verbatim>\<open>value\<close>.
\<close>

definition opcoes_data :: "cadastro_ui \<Rightarrow> (string \<times> string) list" where
  "opcoes_data u = ([], ''Selecione uma data'') # map (\<lambda>d. (d, rotulo_data d)) (datasDisponiveis u)"

definition opcoes_hora :: "cadastro_ui \<Rightarrow> (string \<times> string) list" where
  "opcoes_hora u =
     ([], ''Selecione uma data primeiro'')
     # map (\<lambda>h. (texto_jsx (sql_to_js h), texto_jsx (sql_to_js h))) (horariosDisponiveis u)"

definition opcoes_servico :: "cadastro_ui \<Rightarrow> (string \<times> string) list" where
  "opcoes_servico u =
     ([], ''Carregando servi'' @ [CHR 0xE7] @ ''os...'')
     # map (\<lambda>sv. (texto_jsx (sql_to_js (nome sv)),
                   texto_jsx (sql_to_js (nome sv)) @ '' - R$ '' @ texto_jsx (sql_to_js (preco sv))))
           (servicosDisponiveis u)"

text \<open>
  The value a controlled \<^verbatim>\<open><select>\<close> shows: its state value when an option has it,
  and otherwise the first option's.
\<close>

definition opcao_mostrada :: "(string \<times> string) list \<Rightarrow> string \<Rightarrow> string" where
  "opcao_mostrada opts v =
     (if v \<in> set (map fst opts) then v else (case opts of [] \<Rightarrow> [] | o1 # _ \<Rightarrow> fst o1))"

text \<open>The browser's check of the \<^verbatim>\<open>required\<close> controls before \<^verbatim>\<open>onSubmit\<close>.\<close>

definition validacao_navegador :: "cadastro_ui \<Rightarrow> bool" where
  "validacao_navegador u \<longleftrightarrow>
     texto_jsx (nomeCliente u) \<noteq> []
     \<and> opcao_mostrada (opcoes_data u) (dataEscolhida u) \<noteq> []
     \<and> opcao_mostrada (opcoes_hora u) (horaEscolhida u) \<noteq> []
     \<and> opcao_mostrada (opcoes_servico u) (servicoEscolhido u) \<noteq> []"

subsection \<open>Properties\<close>

lemma mostrada_placeholder:
  assumes "\<forall>x \<in> set xs. fst x \<noteq> []"
  shows "opcao_mostrada (([], l) # xs) v \<noteq> [] \<longleftrightarrow> v \<in> fst ` set xs"
  using assms by (auto simp: opcao_mostrada_def)

lemma texto_sql:
  assumes "\<forall>y \<in> set ys. \<exists>x. f y = SText x \<and> x \<noteq> []"
  shows "v \<in> (\<lambda>y. texto_jsx (sql_to_js (f y))) ` set ys \<longleftrightarrow> SText v \<in> f ` set ys"
    and "\<forall>y \<in> set ys. texto_jsx (sql_to_js (f y)) \<noteq> []"
  using assms by (force+)

text \<open>
  C37. The browser's check of the rendered form is \<open>formulario_valido\<close>: when the name
  is a text and every offered date, time and service name is a non-empty text, the form
  is submitted exactly when the name is not empty and each \<^verbatim>\<open><select>\<close> holds one of
  its offered options.
\<close>

theorem validacao_formulario:
  assumes "nomeCliente u = JStr t"
    and "\<forall>d \<in> set (datasDisponiveis u). d \<noteq> []"
    and "\<forall>h \<in> set (horariosDisponiveis u). \<exists>x. h = SText x \<and> x \<noteq> []"
    and "\<forall>sv \<in> set (servicosDisponiveis u). \<exists>x. nome sv = SText x \<and> x \<noteq> []"
  shows "validacao_navegador u \<longleftrightarrow> formulario_valido u"
proof -
  have d: "opcao_mostrada (opcoes_data u) (dataEscolhida u) \<noteq> [] \<longleftrightarrow> dataEscolhida u \<in> set (datasDisponiveis u)"
    unfolding opcoes_data_def using assms(2) by (subst mostrada_placeholder) (auto simp: image_image)
  have h: "opcao_mostrada (opcoes_hora u) (horaEscolhida u) \<noteq> [] \<longleftrightarrow> SText (horaEscolhida u) \<in> set (horariosDisponiveis u)"
    unfolding opcoes_hora_def using texto_sql [where f = "\<lambda>h. h", OF assms(3)]
    by (subst mostrada_placeholder) (auto simp: image_image)
  have s: "opcao_mostrada (opcoes_servico u) (servicoEscolhido u) \<noteq> []
           \<longleftrightarrow> SText (servicoEscolhido u) \<in> nome ` set (servicosDisponiveis u)"
    unfolding opcoes_servico_def using texto_sql [OF assms(4)]
    by (subst mostrada_placeholder) (auto simp: image_image)
  show ?thesis
    using d h s assms(1) by (simp add: validacao_navegador_def formulario_valido_def)
qed

text \<open>
  C38. The booking form labels a date as the management screen prints it: for a date
  of the booking handler's form, \<^verbatim>\<open>split('-').reverse().join('/')\<close> is
  \<^verbatim>\<open>formatarData\<close>.
\<close>

theorem rotulo_data_formatarData:
  assumes "match_pattern dataRegex d"
  shows "rotulo_data d = formatarData d"
proof -
  obtain a b c e f g i j where d: "d = [a, b, c, e, CHR ''-'', f, g, CHR ''-'', i, j]"
    and dd: "\<forall>x \<in> set [a, b, c, e, f, g, i, j]. is_digit x"
    using dataRegex_forma [OF assms] by blast
  show ?thesis
    using dd digito_nao_separador by (simp add: d rotulo_data_def formatarData_def parte_def)
qed

end
