(* ===== verification/DateOrder.thy ===== *)
theory DateOrder
  imports JsNumber Archival "HOL-Library.Product_Lexorder"
begin

text \<open>
  The archival query compares dates as text (\<^verbatim>\<open>data <= ?\<close> under SQLite's binary
  collation). This theory shows that on the well-formed dates the booking handler admits,
  that comparison is the comparison of dates: of (year, month, day) in lexicographic
  order.
\<close>

text \<open>The calendar date a well-formed text denotes.\<close>

definition valor_data :: "string \<Rightarrow> nat \<times> nat \<times> nat" where
  "valor_data d = (num_digitos (take 4 d), num_digitos (take 2 (drop 5 d)), num_digitos (drop 8 d))"

text \<open>The calendar date of a day, as (year, month from 1, day of the month).\<close>

definition data_civil :: "day \<Rightarrow> nat \<times> nat \<times> nat" where
  "data_civil k = (nat (YearFromDay k), Suc (MonthFromDay k), nat (DateFromDay k))"

lemma valor_digito_less: "is_digit c \<Longrightarrow> valor_digito c < 10"
  by (auto simp: is_digit_def valor_digito_def less_eq_char_def)

lemma digito_less_iff: "is_digit c \<Longrightarrow> is_digit d \<Longrightarrow> c < d \<longleftrightarrow> valor_digito c < valor_digito d"
  by (auto simp: is_digit_def valor_digito_def less_eq_char_def less_char_def)

lemma num_digitos_bound: "\<forall>c \<in> set s. is_digit c \<Longrightarrow> num_digitos s < 10 ^ length s"
proof (induction s)
  case (Cons c s)
  have "valor_digito c * 10 ^ length s + num_digitos s < (valor_digito c + 1) * 10 ^ length s"
    using Cons by simp
  also have "\<dots> \<le> 10 * 10 ^ length s" using valor_digito_less [of c] Cons.prems by simp
  finally show ?case by (simp add: num_digitos_Cons)
qed (simp add: num_digitos_def)

lemma digitos_less_iff:
  assumes "length s = length t" and "\<forall>c \<in> set s. is_digit c" and "\<forall>c \<in> set t. is_digit c"
  shows "s < t \<longleftrightarrow> num_digitos s < num_digitos t"
  using assms
proof (induction s arbitrary: t)
  case Nil
  then show ?case by (simp add: num_digitos_def)
next
  case (Cons c s)
  obtain d u where t: "t = d # u" using Cons.prems(1) by (cases t) auto
  let ?n = "length s"
  have l: "length u = ?n" and dc: "is_digit c" "is_digit d"
    and ds: "\<forall>x \<in> set s. is_digit x" "\<forall>x \<in> set u. is_digit x" using Cons.prems t by auto
  have bs: "num_digitos s < 10 ^ ?n" "num_digitos u < 10 ^ ?n"
    using num_digitos_bound [OF ds(1)] num_digitos_bound [OF ds(2)] l by simp_all
  have lt: "a * 10 ^ ?n + x < b * 10 ^ ?n + y" if "a < b" "x < 10 ^ ?n" for a b x y :: nat
  proof -
    have "a * 10 ^ ?n + x < (a + 1) * 10 ^ ?n" using that(2) by simp
    also have "\<dots> \<le> b * 10 ^ ?n" using that(1) by (intro mult_right_mono) simp_all
    finally show ?thesis by simp
  qed
  have IH: "s < u \<longleftrightarrow> num_digitos s < num_digitos u" using Cons.IH [of u] l ds by simp
  show ?case
  proof (cases "valor_digito c" "valor_digito d" rule: linorder_cases)
    case less
    then show ?thesis using lt [OF less bs(1)] dc by (simp add: t num_digitos_Cons digito_less_iff l)
  next
    case equal
    then have "\<not> c < d" "\<not> d < c" using digito_less_iff [OF dc] digito_less_iff [OF dc(2) dc(1)] by simp_all
    then have "c = d" by (meson linorder_neqE)
    then show ?thesis using IH by (simp add: t num_digitos_Cons l)
  next
    case greater
    have "\<not> c < d" using greater digito_less_iff [OF dc] by simp
    moreover have "c \<noteq> d" using greater by auto
    moreover have "\<not> num_digitos (c # s) < num_digitos (d # u)"
      using lt [OF greater bs(2), of "num_digitos s"] by (simp add: num_digitos_Cons l)
    ultimately show ?thesis by (simp add: t)
  qed
qed

lemma digitos_eq_iff:
  assumes "length s = length t" and "\<forall>c \<in> set s. is_digit c" and "\<forall>c \<in> set t. is_digit c"
  shows "s = t \<longleftrightarrow> num_digitos s = num_digitos t"
proof -
  have "s < t \<longleftrightarrow> num_digitos s < num_digitos t" "t < s \<longleftrightarrow> num_digitos t < num_digitos s"
    using digitos_less_iff assms by (metis, metis)
  then show ?thesis by (metis linorder_neqE less_irrefl)
qed

lemma less_append_iff:
  "length xs = length ys \<Longrightarrow> xs @ us < ys @ vs \<longleftrightarrow> xs < ys \<or> xs = ys \<and> us < vs"
proof (induction xs arbitrary: ys)
  case (Cons x xs)
  then show ?case by (cases ys) auto
qed simp

lemma data_partes:
  assumes "match_pattern dataRegex d"
  shows "d = take 4 d @ CHR ''-'' # take 2 (drop 5 d) @ CHR ''-'' # drop 8 d"
    and "length (take 4 d) = 4" "length (take 2 (drop 5 d)) = 2" "length (drop 8 d) = 2"
    and "\<forall>c \<in> set (take 4 d). is_digit c" "\<forall>c \<in> set (take 2 (drop 5 d)). is_digit c"
    and "\<forall>c \<in> set (drop 8 d). is_digit c"
  using assms by (auto simp: dataRegex_def match_pattern_Cons_iff)

lemma data_less_iff:
  assumes "match_pattern dataRegex d" and "match_pattern dataRegex t"
  shows "d < t \<longleftrightarrow> valor_data d < valor_data t"
proof -
  note pd = data_partes [OF assms(1)] and pt = data_partes [OF assms(2)]
  have "d < t \<longleftrightarrow> take 4 d @ CHR ''-'' # take 2 (drop 5 d) @ CHR ''-'' # drop 8 d
                  < take 4 t @ CHR ''-'' # take 2 (drop 5 t) @ CHR ''-'' # drop 8 t"
    using pd(1) pt(1) by simp
  also have "\<dots> \<longleftrightarrow> valor_data d < valor_data t"
    using pd(2-7) pt(2-7)
    by (simp add: less_append_iff digitos_less_iff digitos_eq_iff valor_data_def less_prod_def
        del: length_take length_drop) auto
  finally show ?thesis .
qed

lemma data_eq_iff:
  assumes "match_pattern dataRegex d" and "match_pattern dataRegex t"
  shows "d = t \<longleftrightarrow> valor_data d = valor_data t"
  using data_less_iff [OF assms] data_less_iff [OF assms(2,1)]
  by (metis linorder_neqE less_irrefl)

lemma data_le_iff:
  assumes "match_pattern dataRegex d" and "match_pattern dataRegex t"
  shows "sql_le_text (SText d) t \<longleftrightarrow> valor_data d \<le> valor_data t"
  using data_less_iff [OF assms] data_eq_iff [OF assms] by (auto simp: order_le_less)

lemma campo_digitos:
  assumes "0 \<le> k" and "nat k < 10 ^ Suc n"
  shows "length (padStart (Suc n) CHR ''0'' (js_string_int k)) = Suc n"
    and "\<forall>c \<in> set (padStart (Suc n) CHR ''0'' (js_string_int k)). is_digit c"
    and "num_digitos (padStart (Suc n) CHR ''0'' (js_string_int k)) = nat k"
proof -
  have "length (digitos (nat k)) \<le> Suc n" using assms(2) by (rule length_digitos_upper)
  then show "length (padStart (Suc n) CHR ''0'' (js_string_int k)) = Suc n"
    using assms(1) by (simp add: padStart_def js_string_int_def)
  show "\<forall>c \<in> set (padStart (Suc n) CHR ''0'' (js_string_int k)). is_digit c"
    using assms(1) digitos_is_digit [of "nat k"] by (auto simp: padStart_def js_string_int_def is_digit_def)
  show "num_digitos (padStart (Suc n) CHR ''0'' (js_string_int k)) = nat k"
    using assms(1) by (simp add: padStart_def js_string_int_def num_digitos_zeros num_digitos_digitos)
qed

lemma iso_data_forma:
  assumes "0 \<le> YearFromDay d" and "YearFromDay d \<le> 9999"
  shows "match_pattern dataRegex (iso_data d)"
    and "valor_data (iso_data d) = (nat (YearFromDay d), Suc (MonthFromDay d), nat (DateFromDay d))"
proof -
  let ?a = "padStart 4 CHR ''0'' (js_string_int (YearFromDay d))"
  let ?b = "pad2 (int (MonthFromDay d) + 1)" and ?c = "pad2 (DateFromDay d)"
  have a: "length ?a = 4" "\<forall>c \<in> set ?a. is_digit c" "num_digitos ?a = nat (YearFromDay d)"
    using campo_digitos [of "YearFromDay d" 3] assms by simp_all
  have b: "length ?b = 2" "\<forall>c \<in> set ?b. is_digit c" "num_digitos ?b = Suc (MonthFromDay d)"
    using campo_digitos [of "int (MonthFromDay d) + 1" 1] MonthFromDay_le [of d]
    by (simp_all add: pad2_def nat_add_distrib numeral_2_eq_2)
  have h: "0 \<le> DateFromDay d" "nat (DateFromDay d) < 10 ^ Suc 1" using DateFromDay_bounds [of d] by auto
  have c: "length ?c = 2" "\<forall>c \<in> set ?c. is_digit c" "num_digitos ?c = nat (DateFromDay d)"
    using campo_digitos [OF h]
    by (simp_all add: pad2_def numeral_2_eq_2)
  have i: "iso_data d = ?a @ CHR ''-'' # ?b @ CHR ''-'' # ?c"
    using assms by (simp add: iso_data_def iso_ano_def)
  show "match_pattern dataRegex (iso_data d)"
  proof -
    have r: "dataRegex = replicate 4 Digit @ [Lit CHR ''-''] @ replicate 2 Digit @ [Lit CHR ''-''] @ replicate 2 Digit"
      by (simp add: dataRegex_def eval_nat_numeral)
    have l: "length ?a = length (replicate 4 Digit)" "length [CHR ''-''] = length [Lit CHR ''-'']"
            "length ?b = length (replicate 2 Digit)"
      using a(1) b(1) by simp_all
    have i': "iso_data d = ?a @ [CHR ''-''] @ ?b @ [CHR ''-''] @ ?c" using i by simp
    show ?thesis unfolding r i'
      by (simp only: match_pattern_append l) (simp add: match_replicate_Digit a b c)
  qed
  show "valor_data (iso_data d) = (nat (YearFromDay d), Suc (MonthFromDay d), nat (DateFromDay d))"
    unfolding i valor_data_def using a b c by simp
qed

lemma dataFormatada_iso: "dataFormatada off agora = iso_data (Day agora - 2)"
  by (simp add: dataFormatada_def split_T_0_iso Day_doisDiasAtras)

lemma linha_data:
  "linha_bem_formada c \<Longrightarrow> \<exists>x. data c = SText x \<and> match_pattern dataRegex x"
  by (cases "data c") (simp_all add: linha_bem_formada_def)

lemma corte_le_iff:
  assumes "linha_bem_formada c" and "0 \<le> YearFromDay k" and "YearFromDay k \<le> 9999"
  shows "sql_le_text (data c) (iso_data k) \<longleftrightarrow>
           (case data c of SText x \<Rightarrow> valor_data x \<le> data_civil k | _ \<Rightarrow> False)"
proof -
  obtain x where x: "data c = SText x" "match_pattern dataRegex x" using linha_data [OF assms(1)] by blast
  show ?thesis
    using data_le_iff [OF x(2) iso_data_forma(1) [OF assms(2,3)]] iso_data_forma(2) [OF assms(2,3)]
    by (simp add: x(1) data_civil_def)
qed

text \<open>
  C31. On a table whose dates all have the booking handler's form, a run of the archival
  job at instant \<open>agora\<close> in which every statement succeeds leaves active exactly the
  appointments whose calendar date is after the UTC date two days before \<open>agora\<close>: the
  text comparison \<^verbatim>\<open>data <= ?\<close> of the query is the comparison of (year, month, day).
\<close>

theorem arquivo_por_calendario:
  assumes "db_bem_formado s" and "ids_distinct (clientes s)" and "\<forall>c. both_ok (io c)"
    and "0 \<le> YearFromDay (Day agora - 2)" and "YearFromDay (Day agora - 2) \<le> 9999"
  shows "clientes (arquivarAgendamentosConcluidos off agora DbOk io s) =
           filter (\<lambda>c. case data c of SText x \<Rightarrow> data_civil (Day agora - 2) < valor_data x | _ \<Rightarrow> True)
             (clientes s)"
proof -
  have "\<And>c. c \<in> set (clientes s) \<Longrightarrow>
          (\<not> (sql_le_text (data c) (iso_data (Day agora - 2)) \<and> both_ok (io c))) =
          (case data c of SText x \<Rightarrow> data_civil (Day agora - 2) < valor_data x | _ \<Rightarrow> True)"
    using assms(1,3) corte_le_iff [OF _ assms(4,5)]
    by (auto simp: db_bem_formado_def list_all_iff not_le split: sqlval.split)
  then show ?thesis
    by (simp add: arquivarAgendamentosConcluidos_def dataFormatada_iso arquivar_run_ok_clientes [OF assms(2)]
        cong: filter_cong)
qed

lemma Day_instante_execucao: "Day (instante_execucao t0 n) = Day t0 + int n"
proof -
  have "(t0 + int n * msPerDay) div msPerDay = t0 div msPerDay + int n"
    using msPerDay_pos by simp
  then show ?thesis by (simp add: Day_def instante_execucao_def intervalo_arquivo_def msPerDay_def)
qed

lemma YearFromDay_DayFromYear: "YearFromDay (DayFromYear y) = y"
  using DayFromYear_less [of y] by (intro YearFromDay_unique) simp_all

lemma corte_alcanca_toda_linha:
  assumes "linha_bem_formada c" and "data c = SText x" and "fst (valor_data x) < 9999"
    and "0 \<le> YearFromDay (Day t0 - 2)" and "YearFromDay (Day t0 - 2) \<le> 9999"
  shows "\<exists>n. sql_le_text (data c) (dataFormatada off (instante_execucao t0 n))"
proof -
  let ?Y = "int (fst (valor_data x)) + 1"
  define n where "n = nat (max (Day t0 - 2) (DayFromYear ?Y) - (Day t0 - 2))"
  define k where "k = Day t0 - 2 + int n"
  have k: "k = max (Day t0 - 2) (DayFromYear ?Y)" by (simp add: k_def n_def)
  have corte: "dataFormatada off (instante_execucao t0 n) = iso_data k"
    by (simp add: dataFormatada_iso Day_instante_execucao k_def algebra_simps)
  have ge: "?Y \<le> YearFromDay k"
    using YearFromDay_mono [of "DayFromYear ?Y" k] by (simp add: k YearFromDay_DayFromYear)
  have "0 \<le> YearFromDay k" using YearFromDay_mono [of "Day t0 - 2" k] assms(4) by (simp add: k)
  moreover have "YearFromDay k \<le> 9999"
  proof (cases "Day t0 - 2 \<le> DayFromYear ?Y")
    case True
    then show ?thesis using assms(3) by (simp add: k YearFromDay_DayFromYear)
  next
    case False
    then show ?thesis using assms(5) by (simp add: k)
  qed
  moreover have "valor_data x \<le> data_civil k"
  proof -
    have "fst (valor_data x) < nat (YearFromDay k)" using ge by simp
    then show ?thesis by (simp add: data_civil_def less_eq_prod_def prod_eq_iff)
  qed
  ultimately have "sql_le_text (data c) (iso_data k)"
    using corte_le_iff [OF assms(1)] assms(2) by simp
  then show ?thesis using corte by metis
qed

text \<open>
  C35. The scheduled job archives every appointment of a well-formed table: there is a
  run of \<^verbatim>\<open>setInterval\<close> such that, when all of its statements succeed, the
  appointment has left the active table and its copy, with the run's timestamp, is in the
  history, as long as the cutoffs stay within four-digit years.
\<close>

theorem agenda_arquiva_toda_linha:
  assumes "linha_bem_formada c" and "data c = SText x" and "fst (valor_data x) < 9999"
    and "0 \<le> YearFromDay (Day t0 - 2)" and "YearFromDay (Day t0 - 2) \<le> 9999"
  shows "\<exists>n. \<forall>s io. c \<in> set (clientes s) \<and> ids_distinct (clientes s) \<and> (\<forall>y. both_ok (io y)) \<longrightarrow>
           c \<notin> set (clientes (arquivarAgendamentosConcluidos off (instante_execucao t0 n) DbOk io s))
         \<and> registro_concluido c (carimbo (io c))
             \<in> set (concluidos (arquivarAgendamentosConcluidos off (instante_execucao t0 n) DbOk io s))"
proof -
  obtain n where n: "sql_le_text (data c) (dataFormatada off (instante_execucao t0 n))"
    using corte_alcanca_toda_linha [OF assms] by blast
  show ?thesis
  proof (intro exI allI impI)
    fix s :: db and io :: "cliente \<Rightarrow> arq_io"
    assume a: "c \<in> set (clientes s) \<and> ids_distinct (clientes s) \<and> (\<forall>y. both_ok (io y))"
    then show "c \<notin> set (clientes (arquivarAgendamentosConcluidos off (instante_execucao t0 n) DbOk io s))
         \<and> registro_concluido c (carimbo (io c))
             \<in> set (concluidos (arquivarAgendamentosConcluidos off (instante_execucao t0 n) DbOk io s))"
      using n
      by (auto simp: arquivarAgendamentosConcluidos_def arquivar_run_ok_clientes arquivar_run_ok_concluidos
          select_data_le_def both_ok_def ins_ok_def)
  qed
qed

end
