(* ===== verification/Spec2Isabelle.thy ===== *)
theory Spec2Isabelle
  imports System Calendar Listas BookingTela DateOrder
begin

text \<open>
  \<^bold>\<open>A verification model of the barbershop booking app.\<close>
  The program is an Express server on a SQLite database (\<^verbatim>\<open>src/api.js\<close>) and three
  React Native screens that talk to it over HTTP: the booking form
  (\<^verbatim>\<open>src/app/(tabs)/cadastrar.tsx\<close>), the agenda list (\<^verbatim>\<open>index.tsx\<close>) and the
  management list with edit and cancel (\<^verbatim>\<open>gerenciar.tsx\<close>). The server also runs an
  archival job every 24 hours. Every definition below is a shallow, executable
  translation of the code; each one names its function in its theory's text.

  \<^bold>\<open>Theories, in import order.\<close>
  \<^item> \<open>Prelude\<close>: \<open>map_where\<close> (update by key) and list lemmas shared by the components;
    the type names \<open>ms\<close> (a JavaScript time value) and \<open>day\<close>.
  \<^item> \<open>Values\<close>: JSON values as JavaScript sees them (\<open>jsval\<close>, with \<open>NaN\<close> and the
    infinities), their truthiness, SQLite values (\<open>sqlval\<close>), the binding of one to the
    other by \<^verbatim>\<open>node-sqlite3\<close> (\<open>sql_bind\<close>), the reading back through a JSON reply
    (\<open>sql_to_js\<close>), the text comparison of \<^verbatim>\<open>data <= ?\<close>, and the two regular
    expressions of \<^verbatim>\<open>POST /api/cadastro\<close> as fixed-length patterns.
  \<^item> \<open>Store\<close>: the four tables as lists of records in rowid order (\<open>db\<close>) and each SQL
    statement the handlers run; \<open>next_rowid\<close> is SQLite's rowid choice. The schema is
    not in the repository, so it is taken from the statements (spec-modelled).
  \<^item> \<open>Api\<close>: each route of \<^verbatim>\<open>api.js\<close> as a function of a database outcome
    (\<open>db_status\<close>, the callback's \<open>err\<close>) and the database, returning the reply
    (\<open>response\<close>: status and payload) and the new database. C1 and C9--C13.
  \<^item> \<open>Calendar\<close>: the ECMAScript date arithmetic the code relies on (\<open>Day\<close>,
    \<open>WeekDay\<close>, \<open>YearFromDay\<close> by two terminating searches, \<open>MonthFromDay\<close>,
    \<open>DateFromDay\<close>, \<open>toISOString\<close>), the booking screen's date list
    (\<open>gerarDatasDisponiveis\<close>, a loop of \<open>diasParaMostrar = 14\<close> iterations) and the
    archival cutoff (\<open>dataFormatada\<close>). C18--C21, C28.
  \<^item> \<open>Booking\<close>: the booking screen's state (\<open>cadastro_ui\<close>) and its effects and
    handlers; \<open>available_slots\<close> is the abstract specification of the free slots that
    \<open>horarios_livres\<close> refines. C2, C14, C15.
  \<^item> \<open>BookingTela\<close>: the booking form as drawn: the options of its three
    \<^verbatim>\<open><select>\<close>s with their labels, the value a controlled select shows
    (\<open>opcao_mostrada\<close>) and the browser's check of the \<^verbatim>\<open>required\<close> controls
    (\<open>validacao_navegador\<close>). C37, C38.
  \<^item> \<open>Archival\<close>: \<^verbatim>\<open>arquivarAgendamentosConcluidos\<close>; the per-appointment
    insert and delete outcomes are an oracle \<open>cliente \<Rightarrow> arq_io\<close>, so every
    interleaving of callback results is covered; \<open>instante_execucao\<close> is the schedule
    (\<^verbatim>\<open>setInterval\<close> every 24 hours and one call at start-up). C4--C8.
  \<^item> \<open>System\<close>: the whole system as the inductive step relation \<open>passo\<close> over
    \<open>sistema\<close> (the database, any number of booking screens, the archival job's pending
    candidates), with reachability \<open>alcancavel\<close>; clients, staff and job interleave
    freely; \<open>sistema_bem_formado\<close> is the typing of the tables (every date and time a
    text matching the handler's patterns). C3, C16, C17, C30.
  \<^item> \<open>JsNumber\<close>: \<^verbatim>\<open>parseFloat\<close>, \<^verbatim>\<open>Number::toString\<close>, \<^verbatim>\<open>toFixed\<close> and the
    encoding of numbers by \<^verbatim>\<open>JSON.stringify\<close>, with the round trip
    \<open>parseFloat_number_toString\<close> for every value with a finite decimal expansion and
    the fixed notation of integer prices.
  \<^item> \<open>Agenda\<close>: the agenda screen; the decoded row \<open>agendamento\<close> shared with
    the management screen, \<^verbatim>\<open>split\<close>, \<open>formatDate\<close>, \<open>renderItem_agenda\<close> and
    the screen's \<^verbatim>\<open>FlatList\<close> with its keys (\<open>tela_agenda\<close>).
  \<^item> \<open>Gerenciar\<close>: the management screen's state (\<open>gerenciar_ui\<close>) and every handler;
    \<open>sincronizado\<close> relates its local list to the table. C22--C27.
  \<^item> \<open>GerenciarTela\<close>: the management screen as drawn (\<open>tela_gerenciar\<close>: the cards
    with their \<^verbatim>\<open>keyExtractor\<close> keys, the edit modal, the cancellation modal's title),
    its controls as events (\<open>evento_g\<close>), which are reachable (\<open>evento_habilitado\<close>:
    an open modal hides the cards), the handler each JSX binding calls (\<open>tratar\<close>) and
    runs of events against the database (\<open>executar\<close>). C32--C34.
  \<^item> \<open>DateOrder\<close>: the calendar value (year, month, day) of a well-formed date text
    (\<open>valor_data\<close>) and of a day (\<open>data_civil\<close>); SQLite's binary text order on
    such texts is the lexicographic order of those triples, and \<open>dataFormatada\<close> is
    such a text for four-digit years. C31, C35.
  \<^item> \<open>Listas\<close>: the two list screens side by side on one table. C29, C36.
  \<^item> this theory: example data and one witness per theorem with hypotheses.

  \<^bold>\<open>What the lemmas show.\<close> The booking handler checks fields and formats but never
  the slot (C1), so the screen's own free-slot filter is the only guard; it is exact
  when requests are sequential (C2, C14) and fails for two clients who read before
  either submits (C3) or after a failed read (C15). The archival job never loses an
  appointment (C4), moves exactly the ones on or before the cutoff when every statement
  succeeds (C5), does not depend on callback order (C6), is idempotent (C7), duplicates
  history after a failed delete (C8), and can archive a stale copy of an edited row
  (C17).
  Rowids stay distinct in every reachable state (C16), and so does the typing of dates and
  times as texts of the handler's form (C30); on such tables the job's text comparison
  is date comparison, so a successful run keeps exactly the appointments dated after
  the cutoff's calendar date (C31), and every appointment is archived by some run of the
  24-hour schedule whose statements succeed (C35). The cutoff is a UTC date
  (C20), local yesterday west of UTC late in the evening (C21); the screen offers exactly the ten weekdays of the next fourteen days
  (C18, C19), each of them passing the server's date pattern (C28). The management screen's list mirrors the table across saves and deletes
  (C24, C25); an untouched save keeps the table (C23); a non-numeric price is saved as
  \<^verbatim>\<open>NULL\<close> and then breaks both list screens (C22), as does a text price accepted by the
  booking handler (C26); both list screens print dates alike (C27) and integer prices with two decimals (C29). Any run of presses keeps the management screen's modals consistent (C32); every
  control keeps its list equal to the table except a save of an unreadable price (C33);
  and the list's keys are distinct (C34). On a well-formed table the two list screens
  render exactly when every price is a number and show the same keys (C36). The
  browser's check of the booking form's required selects is \<open>formulario_valido\<close>
  (C37), and the form labels dates as the management screen prints them (C38).

  \<^bold>\<open>Bounds and fuel.\<close> The schedule's runs are indexed by \<open>n\<close>, the number of
  periods since start-up, so no fuel bounds them. No loop of the program can fail to end: the date loop runs
  fourteen times, the archival run folds over a finite list, and the year searches of
  \<open>YearFromDay\<close> terminate by the measures of their \<open>termination\<close> proofs, so no fuel is
  needed. Numbers are exact rationals; IEEE rounding is not modelled. Values with more than
  fifteen significant digits print differently from JavaScript, and \<open>toFixed\<close> rounds the
  exact value half up where JavaScript rounds the nearest double: the model prints
  \<^verbatim>\<open>(1.005).toFixed(2)\<close> as \<^verbatim>\<open>1.01\<close> where JavaScript prints \<^verbatim>\<open>1.00\<close>. The
  claims use \<open>toFixed\<close> only on integers (C29), where both agree.

  \<^bold>\<open>Stored values.\<close> \<open>sql_bind\<close> stores a JavaScript value as \<^verbatim>\<open>node-sqlite3\<close> binds
  it, without column affinity, because the schema is not in the repository. Where a
  claim depends on the stored type it is stated for values on which every affinity
  agrees: C26 takes a price text without digits, which no affinity converts. Characters are
  8-bit, so white space beyond U+00FF is not skipped by \<open>parseFloat\<close>.

  \<^bold>\<open>Not modelled.\<close> The Express setup, CORS, the static route \<^verbatim>\<open>GET /\<close> and
  \<^verbatim>\<open>listen\<close> (no behaviour beyond routing); console logging and \<^verbatim>\<open>alert\<close> (no state);
  the JSX layout and the \<^verbatim>\<open>StyleSheet\<close> objects (lines 62--131 of
  \<^verbatim>\<open>index.tsx\<close>, 227--301 of \<^verbatim>\<open>gerenciar.tsx\<close>: constants with no behaviour);
  the drift of \<^verbatim>\<open>setInterval\<close> and the windowing of \<^verbatim>\<open>FlatList\<close>; network failures of \<^verbatim>\<open>fetch\<close>/\<^verbatim>\<open>axios\<close> (the model's
  server always answers, with a database outcome chosen freely); the SQLite schema
  beyond the columns the statements name.
\<close>

section \<open>Example data: the spec's scenarios\<close>

definition agendamento_ana :: cliente where
  "agendamento_ana =
     \<lparr>cliente_id = 1, nome_cliente = SText ''Ana'', data = SText ''2025-01-10'',
      hora = SText ''09:00:00'', servico = SText ''Corte'', valor_orcamento = SNum 50\<rparr>"

definition agendamento_bia :: cliente where
  "agendamento_bia =
     \<lparr>cliente_id = 2, nome_cliente = SText ''Bia'', data = SText ''2025-01-03'',
      hora = SText ''10:00:00'', servico = SText ''Barba'', valor_orcamento = SNum 30\<rparr>"

definition db_exemplo :: db where
  "db_exemplo =
     \<lparr>clientes = [agendamento_ana], concluidos = [],
      gestao = [SText ''09:00:00'', SText ''10:00:00''],
      servicos = [\<lparr>nome = SText ''Corte'', preco = SNum 50\<rparr>, \<lparr>nome = SText ''Barba'', preco = SNum 30\<rparr>]\<rparr>"

definition db_antigos :: db where
  "db_antigos = db_exemplo\<lparr>clientes := [agendamento_bia, agendamento_ana]\<rparr>"

definition io_ok :: "cliente \<Rightarrow> arq_io" where
  "io_ok c = (DbOk, DbOk, ''2025-01-15T03:00:00.000Z'')"

definition io_falha_delete :: "cliente \<Rightarrow> arq_io" where
  "io_falha_delete c = (DbOk, DbError, ''2025-01-15T03:00:00.000Z'')"

definition estado_editado :: sistema where
  "estado_editado =
     (let s1 = (sistema_inicial db_antigos)
                 \<lparr>pendentes := pendentes (sistema_inicial db_antigos)
                                @ select_data_le ''2025-01-08'' (clientes db_antigos)\<rparr>
      in s1\<lparr>banco := snd (api_put_agendamento 2 (JStr ''Bia Souza'') (JStr ''Barba'') (JNum 30) DbOk (banco s1))\<rparr>)"

text \<open>The management screen after loading \<open>db_exemplo\<close>, and with Ana's appointment open.\<close>

definition tela_lista :: gerenciar_ui where
  "tela_lista = buscarAgendamentos DbOk db_exemplo gerenciar_inicial"

definition tela_editando :: gerenciar_ui where
  "tela_editando = the (editar (agendamento_json agendamento_ana) tela_lista)"

text \<open>The booking form filled in for Ana's slot of \<open>db_exemplo\<close>'s catalogue.\<close>

definition form_preenchido :: cadastro_ui where
  "form_preenchido =
     cadastro_inicial\<lparr>servicosDisponiveis := servicos db_exemplo, datasDisponiveis := [''2025-01-10''],
       horariosDisponiveis := [SText ''10:00:00''], nomeCliente := JStr ''Bruno'',
       dataEscolhida := ''2025-01-10'', horaEscolhida := ''10:00:00'', servicoEscolhido := ''Corte''\<rparr>"

lemmas exemplo_defs = agendamento_ana_def agendamento_bia_def db_exemplo_def db_antigos_def
  io_ok_def io_falha_delete_def

lemmas regex_defs = cadastro_valid_def dataRegex_def horaRegex_def is_digit_def

section \<open>Witnesses\<close>

theorem cadastro_double_booking_witness:
  "cadastro_valid (JStr ''Bruno'') (JStr ''2025-01-10'') (JStr ''09:00:00'') (JStr ''Corte'') (JNum 50)
   \<and> (sql_bind (JStr ''2025-01-10''), sql_bind (JStr ''09:00:00'')) \<in> slot ` set (clientes db_exemplo)
   \<and> fst (api_cadastro (JStr ''Bruno'') (JStr ''2025-01-10'') (JStr ''09:00:00'') (JStr ''Corte'')
          (JNum 50) DbOk db_exemplo) = reply 201 Cadastrado
   \<and> \<not> no_double_booking (clientes (snd (api_cadastro (JStr ''Bruno'') (JStr ''2025-01-10'')
          (JStr ''09:00:00'') (JStr ''Corte'') (JNum 50) DbOk db_exemplo)))"
proof -
  have v: "cadastro_valid (JStr ''Bruno'') (JStr ''2025-01-10'') (JStr ''09:00:00'') (JStr ''Corte'') (JNum 50)"
    by (simp add: regex_defs)
  have o: "(sql_bind (JStr ''2025-01-10''), sql_bind (JStr ''09:00:00'')) \<in> slot ` set (clientes db_exemplo)"
    by (simp add: exemplo_defs slot_def)
  show ?thesis using Api.cadastro_double_booking [OF v o] v o by simp
qed

theorem reserva_sequencial_witness:
  "no_double_booking (clientes db_exemplo) \<and> ''2025-01-10'' \<noteq> []
   \<and> SText ''10:00:00'' \<in> set (horariosDisponiveis (selecionarData ''2025-01-10'' DbOk DbOk db_exemplo cadastro_inicial))
   \<and> no_double_booking (clientes (snd (handleFormSubmit DbOk db_exemplo
        ((selecionarData ''2025-01-10'' DbOk DbOk db_exemplo cadastro_inicial)\<lparr>horaEscolhida := ''10:00:00''\<rparr>))))"
proof -
  have a: "no_double_booking (clientes db_exemplo)"
    by (simp add: exemplo_defs no_double_booking_def)
  have b: "SText ''10:00:00'' \<in> set (horariosDisponiveis (selecionarData ''2025-01-10'' DbOk DbOk db_exemplo cadastro_inicial))"
    by (simp add: selecionarData_ok exemplo_defs slot_def)
  show ?thesis using Booking.reserva_sequencial_sem_conflito [OF a _ b] a b by simp
qed

theorem arquivar_sem_perda_witness:
  "ids_distinct (clientes db_antigos) \<and> agendamento_ana \<in> set (clientes db_antigos)
   \<and> agendamento_ana \<in> set (clientes (arquivar_run ''2025-01-08'' DbOk io_ok db_antigos))
   \<and> registro_concluido agendamento_bia (carimbo (io_ok agendamento_bia))
       \<in> set (concluidos (arquivar_run ''2025-01-08'' DbOk io_ok db_antigos))"
proof -
  have d: "ids_distinct (clientes db_antigos)" by (simp add: exemplo_defs ids_distinct_def)
  have a: "agendamento_ana \<in> set (clientes db_antigos)" by (simp add: exemplo_defs)
  have b: "agendamento_bia \<in> set (clientes db_antigos)" by (simp add: exemplo_defs)
  have gone: "agendamento_bia \<notin> set (clientes (arquivar_run ''2025-01-08'' DbOk io_ok db_antigos))"
    unfolding arquivar_run_ok_clientes [OF d] by (simp add: exemplo_defs both_ok_def)
  have kept: "agendamento_ana \<in> set (clientes (arquivar_run ''2025-01-08'' DbOk io_ok db_antigos))"
    unfolding arquivar_run_ok_clientes [OF d] by (simp add: exemplo_defs both_ok_def)
  show ?thesis
    using Archival.arquivar_sem_perda [OF d b, of "''2025-01-08''" DbOk io_ok] gone kept d a by blast
qed

theorem arquivar_todos_ok_witness:
  "ids_distinct (clientes db_antigos) \<and> (\<forall>c. both_ok (io_ok c))
   \<and> clientes (arquivar_run ''2025-01-08'' DbOk io_ok db_antigos) = [agendamento_ana]
   \<and> concluidos (arquivar_run ''2025-01-08'' DbOk io_ok db_antigos)
       = [registro_concluido agendamento_bia (SText ''2025-01-15T03:00:00.000Z'')]"
proof -
  have d: "ids_distinct (clientes db_antigos)" by (simp add: exemplo_defs ids_distinct_def)
  have o: "\<forall>c. both_ok (io_ok c)" by (simp add: io_ok_def both_ok_def)
  have e1: "filter (\<lambda>c. \<not> sql_le_text (data c) ''2025-01-08'') (clientes db_antigos) = [agendamento_ana]"
    by (simp add: exemplo_defs)
  have e2: "map (\<lambda>c. registro_concluido c (carimbo (io_ok c))) (select_data_le ''2025-01-08'' (clientes db_antigos))
      = [registro_concluido agendamento_bia (SText ''2025-01-15T03:00:00.000Z'')]"
    by (simp add: exemplo_defs select_data_le_def carimbo_def)
  show ?thesis
    using Archival.arquivar_todos_ok [OF d o, of "''2025-01-08''"] d o e1 e2
    by (simp add: db_antigos_def db_exemplo_def)
qed

theorem arquivar_ordem_witness:
  "mset [agendamento_ana, agendamento_bia]
     = mset (select_data_le ''2025-01-12'' (clientes db_antigos))
   \<and> clientes (arquivar_todos io_ok [agendamento_ana, agendamento_bia] db_antigos)
     = clientes (arquivar_run ''2025-01-12'' DbOk io_ok db_antigos)
   \<and> mset (concluidos (arquivar_todos io_ok [agendamento_ana, agendamento_bia] db_antigos))
     = mset (concluidos (arquivar_run ''2025-01-12'' DbOk io_ok db_antigos))"
proof -
  have m: "mset [agendamento_ana, agendamento_bia]
             = mset (select_data_le ''2025-01-12'' (clientes db_antigos))"
    by (simp add: exemplo_defs select_data_le_def)
  show ?thesis using Archival.arquivar_ordem_indiferente [OF m] m by simp
qed

theorem arquivar_rerun_witness:
  "ids_distinct (clientes db_antigos) \<and> (\<forall>c. both_ok (io_ok c))
   \<and> arquivar_run ''2025-01-08'' DbOk io_falha_delete (arquivar_run ''2025-01-08'' DbOk io_ok db_antigos)
     = arquivar_run ''2025-01-08'' DbOk io_ok db_antigos"
proof -
  have d: "ids_distinct (clientes db_antigos)" by (simp add: exemplo_defs ids_distinct_def)
  have o: "\<forall>c. both_ok (io_ok c)" by (simp add: io_ok_def both_ok_def)
  show ?thesis using Archival.arquivar_rerun_idempotente [OF d o] d o by blast
qed

theorem arquivar_duplica_witness:
  "ids_distinct (clientes db_antigos) \<and> agendamento_bia \<in> set (clientes db_antigos)
   \<and> sql_le_text (data agendamento_bia) ''2025-01-08''
   \<and> io_falha_delete agendamento_bia = (DbOk, DbError, ''2025-01-15T03:00:00.000Z'')
   \<and> ins_ok (io_ok agendamento_bia)
   \<and> 2 \<le> count (mset (map campos_arq (concluidos (arquivar_run ''2025-01-08'' DbOk io_ok
             (arquivar_run ''2025-01-08'' DbOk io_falha_delete db_antigos))))) (campos agendamento_bia)"
proof -
  have d: "ids_distinct (clientes db_antigos)" by (simp add: exemplo_defs ids_distinct_def)
  have b: "agendamento_bia \<in> set (clientes db_antigos)" by (simp add: exemplo_defs)
  have l: "sql_le_text (data agendamento_bia) ''2025-01-08''" by (simp add: exemplo_defs)
  have f: "io_falha_delete agendamento_bia = (DbOk, DbError, ''2025-01-15T03:00:00.000Z'')"
    by (simp add: io_falha_delete_def)
  have i: "ins_ok (io_ok agendamento_bia)" by (simp add: io_ok_def ins_ok_def)
  show ?thesis
    using Archival.arquivar_duplica_apos_falha [of db_antigos agendamento_bia "''2025-01-08''"
      io_falha_delete "''2025-01-15T03:00:00.000Z''" io_ok, OF d b l f i] d b l f i by (simp add: exemplo_defs)
qed

theorem cadastro_rejects_invalid_witness:
  "status (fst (api_cadastro (JStr ''Caio'') (JStr ''10-01-2025'') (JStr ''09:00:00'') (JStr ''Corte'')
                 (JNum 50) DbOk db_exemplo)) = 400
   \<and> snd (api_cadastro (JStr ''Caio'') (JStr ''10-01-2025'') (JStr ''09:00:00'') (JStr ''Corte'')
                 (JNum 50) DbOk db_exemplo) = db_exemplo"
proof -
  have n: "\<not> cadastro_valid (JStr ''Caio'') (JStr ''10-01-2025'') (JStr ''09:00:00'') (JStr ''Corte'') (JNum 50)"
    by (simp add: regex_defs)
  show ?thesis
    using Api.cadastro_rejects_invalid [of "JStr ''Caio''" "JStr ''10-01-2025''" "JStr ''09:00:00''"
        "JStr ''Corte''" "JNum 50" DbOk db_exemplo] n by simp
qed

theorem cadastro_success_witness:
  "cadastro_valid (JStr ''Caio'') (JStr ''2025-01-10'') (JStr ''10:00:00'') (JStr ''Corte'') (JNum 50)
   \<and> (\<exists>c. api_cadastro (JStr ''Caio'') (JStr ''2025-01-10'') (JStr ''10:00:00'') (JStr ''Corte'') (JNum 50)
             DbOk db_exemplo = (reply 201 Cadastrado, db_exemplo\<lparr>clientes := clientes db_exemplo @ [c]\<rparr>)
         \<and> cliente_id c \<notin> cliente_id ` set (clientes db_exemplo))"
proof -
  have v: "cadastro_valid (JStr ''Caio'') (JStr ''2025-01-10'') (JStr ''10:00:00'') (JStr ''Corte'') (JNum 50)"
    by (simp add: regex_defs)
  show ?thesis using Api.cadastro_success [OF v, of db_exemplo] v by blast
qed

theorem put_absent_id_witness:
  "999 \<notin> cliente_id ` set (clientes db_exemplo)
   \<and> api_put_agendamento 999 (JStr ''Ana'') (JStr ''Barba'') (JNum 30) DbOk db_exemplo
       = (reply 200 Atualizado, db_exemplo)"
proof -
  have a: "999 \<notin> cliente_id ` set (clientes db_exemplo)" by (simp add: exemplo_defs)
  show ?thesis using Api.put_absent_id_is_success [OF a] a by simp
qed

theorem edits_keep_slots_witness:
  "no_double_booking (clientes db_exemplo)
   \<and> no_double_booking (clientes (snd (api_delete_agendamento 1 DbOk db_exemplo)))
   \<and> map slot (clientes (snd (api_put_agendamento 1 (JStr ''Ana'') (JStr ''Barba'') (JNum 30) DbOk db_exemplo)))
       = map slot (clientes db_exemplo)"
proof -
  have a: "no_double_booking (clientes db_exemplo)" by (simp add: exemplo_defs no_double_booking_def)
  show ?thesis
    using Api.edits_keep_slots [of 1 "JStr ''Ana''" "JStr ''Barba''" "JNum 30" DbOk db_exemplo] a by simp
qed

text \<open>Scenario A of the spec: with slots 09:00 and 10:00 and a booking at 09:00, 10:00 is free.\<close>

theorem horarios_disponiveis_witness:
  "''2025-01-10'' \<noteq> []
   \<and> horariosDisponiveis (selecionarData ''2025-01-10'' DbOk DbOk db_exemplo cadastro_inicial) = [SText ''10:00:00'']
   \<and> set (horariosDisponiveis (selecionarData ''2025-01-10'' DbOk DbOk db_exemplo cadastro_inicial))
       = available_slots db_exemplo ''2025-01-10''"
proof -
  have l: "horariosDisponiveis (selecionarData ''2025-01-10'' DbOk DbOk db_exemplo cadastro_inicial)
             = [SText ''10:00:00'']"
    by (simp add: selecionarData_ok exemplo_defs slot_def)
  show ?thesis using Booking.horarios_disponiveis_refine [of "''2025-01-10''" db_exemplo cadastro_inicial] l
    by simp
qed

theorem consulta_falha_witness:
  "(DbError = DbError \<or> DbOk = DbError)
   \<and> horariosDisponiveis (selecionarData ''2025-01-11'' DbError DbOk db_exemplo
        (cadastro_inicial\<lparr>horariosDisponiveis := [SText ''09:00:00'']\<rparr>)) = [SText ''09:00:00'']"
  using Booking.consulta_falha_lista_antiga [of DbError DbOk "''2025-01-11''" db_exemplo
      "cadastro_inicial\<lparr>horariosDisponiveis := [SText ''09:00:00'']\<rparr>"] by simp

lemma data_2025_01_10: "formatar_data 20098 = ''2025-01-10''"
  by code_simp

lemma data_oferecida: "''2025-01-10'' \<in> set (gerarDatasDisponiveis 0 1736380800000)"
proof -
  have e: "gerarDatasDisponiveis 0 1736380800000 = map formatar_data (filter dia_util [20098 .. 20111])"
    unfolding gerarDatasDisponiveis_def gerar_datas_ref diasParaMostrar_def
    by (simp add: LocalDay_def Day_def msPerDay_def del: upto_rec_numeral)
  have m: "20098 \<in> set (filter dia_util [20098 .. 20111])"
    by (simp add: dia_util_def WeekDay_def del: upto_rec_numeral)
  have "formatar_data 20098 \<in> formatar_data ` set (filter dia_util [20098 .. 20111])"
    using m by (rule imageI)
  then show ?thesis by (simp only: e set_map data_2025_01_10)
qed

theorem reservas_concorrentes_witness:
  "match_pattern dataRegex ''2025-01-10'' \<and> match_pattern horaRegex ''10:00:00''
   \<and> ''2025-01-10'' \<in> set (gerarDatasDisponiveis 0 1736380800000)
   \<and> SText ''10:00:00'' \<in> set (gestao db_exemplo)
   \<and> (SText ''2025-01-10'', SText ''10:00:00'') \<notin> slot ` set (clientes db_exemplo)
   \<and> find (\<lambda>x. sql_to_js (nome x) = JStr ''Corte'') (servicos db_exemplo)
       = Some \<lparr>nome = SText ''Corte'', preco = SNum 50\<rparr>
   \<and> (\<exists>s. alcancavel db_exemplo s \<and> \<not> no_double_booking (clientes (banco s)))"
proof -
  have a: "match_pattern dataRegex ''2025-01-10''" "match_pattern horaRegex ''10:00:00''"
    by (simp_all add: dataRegex_def horaRegex_def is_digit_def)
  have g: "SText ''10:00:00'' \<in> set (gestao db_exemplo)"
    and f: "(SText ''2025-01-10'', SText ''10:00:00'') \<notin> slot ` set (clientes db_exemplo)"
    and v: "find (\<lambda>x. sql_to_js (nome x) = JStr ''Corte'') (servicos db_exemplo)
              = Some \<lparr>nome = SText ''Corte'', preco = SNum 50\<rparr>"
    by (simp_all add: exemplo_defs slot_def)
  have t: "truthy (sql_to_js (preco \<lparr>nome = SText ''Corte'', preco = SNum 50\<rparr>))" by simp
  show ?thesis
    using System.reservas_concorrentes_duplicam [OF a data_oferecida g f v t, of "''Bruno''"]
      a data_oferecida g f v by simp
qed

theorem alcancavel_invariante_witness:
  "alcancavel db_exemplo ((sistema_inicial db_exemplo)\<lparr>banco := snd (api_delete_agendamento 1 DbOk db_exemplo)\<rparr>)
   \<and> ids_distinct (clientes db_exemplo)
   \<and> ids_distinct (clientes (snd (api_delete_agendamento 1 DbOk db_exemplo)))
   \<and> gestao (snd (api_delete_agendamento 1 DbOk db_exemplo)) = gestao db_exemplo"
proof -
  have r: "alcancavel db_exemplo ((sistema_inicial db_exemplo)\<lparr>banco := snd (api_delete_agendamento 1 DbOk db_exemplo)\<rparr>)"
    using alcancavel.passo [OF alcancavel.inicio passo.excluir [of "sistema_inicial db_exemplo" 1 DbOk]]
    by (simp add: sistema_inicial_def)
  have d: "ids_distinct (clientes db_exemplo)" by (simp add: exemplo_defs ids_distinct_def)
  show ?thesis using System.alcancavel_invariante [OF r d] r d by simp
qed

theorem arquivo_perde_edicao_witness:
  "alcancavel db_antigos estado_editado \<and> agendamento_bia \<in> set (pendentes estado_editado)
   \<and> agendamento_bia\<lparr>nome_cliente := SText ''Bia Souza''\<rparr> \<in> set (clientes (banco estado_editado))
   \<and> (\<exists>s'. passo estado_editado s' \<and> alcancavel db_antigos s'
        \<and> agendamento_bia\<lparr>nome_cliente := SText ''Bia Souza''\<rparr> \<notin> set (clientes (banco s')))"
proof -
  let ?s1 = "(sistema_inicial db_antigos)
              \<lparr>pendentes := pendentes (sistema_inicial db_antigos)
                             @ select_data_le ''2025-01-08'' (clientes db_antigos)\<rparr>"
  have r1: "alcancavel db_antigos ?s1"
    using alcancavel.passo [OF alcancavel.inicio passo.listar_arquivo [of "sistema_inicial db_antigos" "''2025-01-08''"]]
    by (simp add: sistema_inicial_def)
  have r: "alcancavel db_antigos estado_editado"
    unfolding estado_editado_def Let_def
    by (rule alcancavel.passo [OF r1 passo.editar [of ?s1 2 "JStr ''Bia Souza''" "JStr ''Barba''" "JNum 30" DbOk]])
  have p: "agendamento_bia \<in> set (pendentes estado_editado)"
    by (simp add: estado_editado_def sistema_inicial_def exemplo_defs select_data_le_def)
  have c: "agendamento_bia\<lparr>nome_cliente := SText ''Bia Souza''\<rparr> \<in> set (clientes (banco estado_editado))"
    by (simp add: estado_editado_def sistema_inicial_def exemplo_defs api_simps update_cliente_def)
  have i: "cliente_id (agendamento_bia\<lparr>nome_cliente := SText ''Bia Souza''\<rparr>) = cliente_id agendamento_bia"
    by simp
  have n: "agendamento_bia\<lparr>nome_cliente := SText ''Bia Souza''\<rparr> \<noteq> agendamento_bia"
    by (simp add: agendamento_bia_def)
  show ?thesis
    using System.arquivo_perde_edicao [OF r p c i n, of "''2025-01-15T03:00:00.000Z''"] r p c by blast
qed

theorem corte_janela_witness:
  "- msPerDay < -10800000 \<and> -10800000 < msPerDay
   \<and> dataFormatada (-10800000) 1736991000000 = iso_data (Day 1736991000000 - 2)
   \<and> LocalDay (-10800000) 1736991000000 - 3 \<le> Day 1736991000000 - 2"
proof -
  have a: "- msPerDay < -10800000" "-10800000 < msPerDay" by (simp_all add: msPerDay_def)
  show ?thesis using Calendar.corte_janela [OF a, of 1736991000000] a by simp
qed

text \<open>At 22:30 on 2025-01-15 in UTC-3 the cutoff day is 2025-01-14, the local yesterday.\<close>

lemma iso_20102: "iso_data 20102 = ''2025-01-14''"
  by code_simp

theorem corte_fuso_negativo_witness:
  "- msPerDay < -10800000 \<and> -10800000 < (0::int)
   \<and> msPerDay + -10800000 \<le> (1736991000000 + -10800000) mod msPerDay
   \<and> dataFormatada (-10800000) 1736991000000 = ''2025-01-14''"
proof -
  have a: "- msPerDay < -10800000" "-10800000 < (0::int)"
    "msPerDay + -10800000 \<le> (1736991000000 + -10800000) mod msPerDay"
    by (simp_all add: msPerDay_def)
  have l: "LocalDay (-10800000) 1736991000000 - 1 = 20102"
    by (simp add: LocalDay_def Day_def msPerDay_def)
  show ?thesis using Calendar.corte_fuso_negativo [OF a] a by (simp add: l iso_20102)
qed

lemma tela_lista_eq: "agendamentos tela_lista = [agendamento_json agendamento_ana]"
  by (simp add: tela_lista_def buscarAgendamentos_def api_clientes_def resposta_ok_def db_exemplo_def
      gerenciar_inicial_def)

lemma tela_editando_eq:
  "tela_editando = tela_lista\<lparr>editandoAgendamento := Some (agendamento_json agendamento_ana),
     g_nomeCliente := JStr ''Ana'', g_servico := JStr ''Corte'', g_valorOrcamento := ''50'',
     modalVisible := True\<rparr>"
  by (simp add: tela_editando_def editar_def agendamento_ana_def agendamento_json_def
      number_toString_def numero_positivo_def sig_exp_def casas_def escrever_decimal_def
      vezes.simps tira.simps digitos.simps digito_def)

lemma sincronizado_tela_lista: "sincronizado tela_lista db_exemplo"
  by (simp add: sincronizado_def tela_lista_eq db_exemplo_def)

theorem confirmar_sincroniza_witness:
  "sincronizado (excluir 1 (JStr ''Ana'') tela_lista) db_exemplo
   \<and> sincronizado (fst (confirmarExclusao DbOk db_exemplo (excluir 1 (JStr ''Ana'') tela_lista)))
                  (snd (confirmarExclusao DbOk db_exemplo (excluir 1 (JStr ''Ana'') tela_lista)))"
proof -
  have h: "sincronizado (excluir 1 (JStr ''Ana'') tela_lista) db_exemplo"
    using sincronizado_tela_lista by (simp add: sincronizado_def excluir_def)
  show ?thesis using Gerenciar.confirmar_sincroniza [OF h prod.collapse [symmetric]] h by simp
qed

theorem formatDate_consistente_witness:
  "match_pattern dataRegex ''2025-01-10'' \<and> match_pattern horaRegex ''09:00:00''
   \<and> formatDate ''2025-01-10'' ''09:00:00'' = Some ''10/01/2025 - 09:00''"
proof -
  have a: "match_pattern dataRegex ''2025-01-10''" "match_pattern horaRegex ''09:00:00''"
    by (simp_all add: regex_defs)
  show ?thesis using Gerenciar.formatDate_consistente [OF a] a
    by (simp add: formatarData_def formatarHora_def parte_def)
qed

theorem cadastro_valor_texto_witness:
  "cadastro_valid (JStr ''Bruno'') (JStr ''2025-01-10'') (JStr ''10:00:00'') (JStr ''Corte'') (JStr ''a combinar'')
   \<and> status (fst (api_cadastro (JStr ''Bruno'') (JStr ''2025-01-10'') (JStr ''10:00:00'') (JStr ''Corte'')
        (JStr ''a combinar'') DbOk db_exemplo)) = 201
   \<and> (\<exists>c \<in> set (clientes (snd (api_cadastro (JStr ''Bruno'') (JStr ''2025-01-10'') (JStr ''10:00:00'')
        (JStr ''Corte'') (JStr ''a combinar'') DbOk db_exemplo))).
        renderItem_agenda (agendamento_json c) = None)"
proof -
  have v: "cadastro_valid (JStr ''Bruno'') (JStr ''2025-01-10'') (JStr ''10:00:00'') (JStr ''Corte'') (JStr ''a combinar'')"
    by (simp add: regex_defs)
  have t: "\<forall>ch \<in> set ''a combinar''. \<not> is_digit ch" by (simp add: is_digit_def)
  show ?thesis using Gerenciar.cadastro_valor_texto [OF v t, of db_exemplo] v by blast
qed

lemma parseFloat_45: "parseFloat ''45'' = JNum 45"
  by code_simp

lemma parseFloat_abc: "parseFloat ''abc'' = JNaN"
  by code_simp

lemma tela_editando_hyps:
  "sincronizado (digitarValor t tela_editando) db_exemplo"
  "ids_distinct (clientes db_exemplo)"
  "editandoAgendamento (digitarValor t tela_editando) = Some (agendamento_json agendamento_ana)"
  "agendamento_json agendamento_ana \<in> set (agendamentos (digitarValor t tela_editando))"
  "g_nomeCliente (digitarValor t tela_editando) = JStr ''Ana''"
  "g_servico (digitarValor t tela_editando) = JStr ''Corte''"
  using sincronizado_tela_lista
  by (simp_all add: tela_editando_eq digitarValor_def sincronizado_def tela_lista_eq
      ids_distinct_def db_exemplo_def agendamento_ana_def)

theorem salvar_sincroniza_witness:
  "parseFloat (g_valorOrcamento (digitarValor ''45'' tela_editando)) = JNum 45
   \<and> sincronizado (fst (salvarEdicao DbOk db_exemplo (digitarValor ''45'' tela_editando)))
                  (snd (salvarEdicao DbOk db_exemplo (digitarValor ''45'' tela_editando)))"
proof -
  have p: "parseFloat (g_valorOrcamento (digitarValor ''45'' tela_editando)) = JNum 45"
    by (simp add: digitarValor_def parseFloat_45)
  show ?thesis using Gerenciar.salvar_sincroniza [OF tela_editando_hyps p, of DbOk] p by simp
qed

theorem salvar_valor_invalido_witness:
  "parseFloat (g_valorOrcamento (digitarValor ''abc'' tela_editando)) = JNaN
   \<and> \<not> sincronizado (fst (salvarEdicao DbOk db_exemplo (digitarValor ''abc'' tela_editando)))
                    (snd (salvarEdicao DbOk db_exemplo (digitarValor ''abc'' tela_editando)))"
proof -
  have p: "parseFloat (g_valorOrcamento (digitarValor ''abc'' tela_editando)) = JNaN"
    by (simp add: digitarValor_def parseFloat_abc)
  show ?thesis
    using Gerenciar.salvar_valor_invalido [OF tela_editando_hyps(1,3,4) p, of tela_lista] p by simp
qed

theorem editar_salvar_preserva_witness:
  "editar (agendamento_json agendamento_ana) tela_lista = Some tela_editando
   \<and> snd (salvarEdicao DbOk db_exemplo tela_editando) = db_exemplo"
proof -
  have e: "editar (agendamento_json agendamento_ana) tela_lista = Some tela_editando"
    by (simp add: tela_editando_def editar_def agendamento_ana_def agendamento_json_def)
  have a: "agendamento_json agendamento_ana \<in> set (agendamentos tela_lista)" by (simp add: tela_lista_eq)
  have f: "ag_nome_cliente (agendamento_json agendamento_ana) = JStr ''Ana''"
          "ag_servico (agendamento_json agendamento_ana) = JStr ''Corte''"
          "ag_valor_orcamento (agendamento_json agendamento_ana) = JNum (of_int 50 / 10 ^ 0)"
    by (simp_all add: agendamento_ana_def agendamento_json_def)
  have d: "ids_distinct (clientes db_exemplo)" by (simp add: ids_distinct_def db_exemplo_def agendamento_ana_def)
  show ?thesis
    using Gerenciar.editar_salvar_preserva [OF sincronizado_tela_lista d a f e, of DbOk] e by simp
qed

lemma ano_20098: "YearFromDay 20098 = 2025"
  by code_simp

lemma ano_20111: "YearFromDay 20111 = 2025"
  by code_simp

theorem datas_passam_regex_witness:
  "1000 \<le> YearFromDay (LocalDay 0 1736380800000 + 1)
   \<and> YearFromDay (LocalDay 0 1736380800000 + 14) \<le> 9999
   \<and> regex_test dataRegex (JStr ''2025-01-10'')"
proof -
  have l: "LocalDay 0 1736380800000 = 20097" by (simp add: LocalDay_def Day_def msPerDay_def)
  have a: "1000 \<le> YearFromDay (LocalDay 0 1736380800000 + 1)"
          "YearFromDay (LocalDay 0 1736380800000 + 14) \<le> 9999"
    using ano_20098 ano_20111 by (simp_all add: l)
  show ?thesis using bspec [OF Calendar.datas_passam_regex [OF a] data_oferecida] a by simp
qed

lemma db_exemplo_bem_formado: "db_bem_formado db_exemplo"
  by (simp add: db_bem_formado_def linha_bem_formada_def exemplo_defs dataRegex_def horaRegex_def is_digit_def)

theorem alcancavel_bem_formado_witness:
  "alcancavel db_exemplo ((sistema_inicial db_exemplo)\<lparr>banco := snd (api_delete_agendamento 1 DbOk db_exemplo)\<rparr>)
   \<and> db_bem_formado db_exemplo
   \<and> sistema_bem_formado ((sistema_inicial db_exemplo)\<lparr>banco := snd (api_delete_agendamento 1 DbOk db_exemplo)\<rparr>)"
proof -
  have r: "alcancavel db_exemplo ((sistema_inicial db_exemplo)\<lparr>banco := snd (api_delete_agendamento 1 DbOk db_exemplo)\<rparr>)"
    using alcancavel.passo [OF alcancavel.inicio passo.excluir [of "sistema_inicial db_exemplo" 1 DbOk]]
    by (simp add: sistema_inicial_def)
  show ?thesis using System.alcancavel_bem_formado [OF r db_exemplo_bem_formado] r db_exemplo_bem_formado
    by simp
qed

lemma ano_20095: "YearFromDay 20095 = 2025"
  by code_simp

lemma civil_20095: "data_civil 20095 = (2025, 1, 7)"
  by code_simp

theorem arquivo_por_calendario_witness:
  "db_bem_formado db_antigos \<and> ids_distinct (clientes db_antigos) \<and> (\<forall>c. both_ok (io_ok c))
   \<and> 0 \<le> YearFromDay (Day 1736380800000 - 2) \<and> YearFromDay (Day 1736380800000 - 2) \<le> 9999
   \<and> clientes (arquivarAgendamentosConcluidos (-10800000) 1736380800000 DbOk io_ok db_antigos) = [agendamento_ana]"
proof -
  have d: "Day 1736380800000 - 2 = 20095" by (simp add: Day_def msPerDay_def)
  have a: "db_bem_formado db_antigos" "ids_distinct (clientes db_antigos)" "\<forall>c. both_ok (io_ok c)"
          "0 \<le> YearFromDay (Day 1736380800000 - 2)" "YearFromDay (Day 1736380800000 - 2) \<le> 9999"
    by (simp_all add: d ano_20095 db_bem_formado_def linha_bem_formada_def exemplo_defs
        dataRegex_def horaRegex_def is_digit_def ids_distinct_def both_ok_def)
  have f: "filter (\<lambda>c. case data c of SText x \<Rightarrow> data_civil (Day 1736380800000 - 2) < valor_data x | _ \<Rightarrow> True)
             (clientes db_antigos) = [agendamento_ana]"
    by (simp add: d civil_20095 exemplo_defs valor_data_def num_digitos_def valor_digito_def)
  show ?thesis using DateOrder.arquivo_por_calendario [OF a, of "-10800000"] a f by simp
qed

lemma tela_lista_render:
  "tela_gerenciar tela_lista =
     Some \<lparr>cartoes = [(''1'', [''Ana'', ''Data: 10/01/2025'', ''Hora: 09:00'',
                              ''Servi'' @ [CHR 0xE7] @ ''o: Corte'', ''Valor: R$ 50,00''])],
           modal_edicao = None, modal_exclusao = None\<rparr>"
  by code_simp

lemma tela_lista_modais: "\<not> modalVisible tela_lista \<and> \<not> modalExcluirVisible tela_lista"
  by (simp add: tela_lista_def buscarAgendamentos_def gerenciar_inicial_def Let_def
      split: payload.split)

theorem tela_sempre_consistente_witness:
  "executar [(Excluir 0, DbOk)] (buscarAgendamentos DbOk db_exemplo gerenciar_inicial, db_exemplo)
     = Inr (excluir 1 (JStr ''Ana'') tela_lista, db_exemplo)
   \<and> tela_inv (excluir 1 (JStr ''Ana'') tela_lista)"
proof -
  have e: "executar [(Excluir 0, DbOk)] (buscarAgendamentos DbOk db_exemplo gerenciar_inicial, db_exemplo)
             = Inr (excluir 1 (JStr ''Ana'') tela_lista, db_exemplo)"
    using tela_lista_render tela_lista_modais
    by (simp add: tela_lista_def [symmetric] tela_lista_eq agendamento_ana_def agendamento_json_def)
  show ?thesis using GerenciarTela.tela_sempre_consistente [OF e] e by simp
qed

theorem evento_sincroniza_witness:
  "sincronizado tela_lista db_exemplo \<and> ids_distinct (clientes db_exemplo) \<and> tela_inv tela_lista
   \<and> evento_habilitado tela_lista (Excluir 0)
   \<and> tratar DbOk db_exemplo (Excluir 0) tela_lista = Some (excluir 1 (JStr ''Ana'') tela_lista, db_exemplo)
   \<and> sincronizado (excluir 1 (JStr ''Ana'') tela_lista) db_exemplo"
proof -
  have i: "tela_inv tela_lista" using tela_inv_buscar [of DbOk db_exemplo] by (simp only: tela_lista_def)
  have d: "ids_distinct (clientes db_exemplo)" by (simp add: exemplo_defs ids_distinct_def)
  have h: "evento_habilitado tela_lista (Excluir 0)" using tela_lista_render tela_lista_modais
    by (simp add: tela_lista_eq)
  have t: "tratar DbOk db_exemplo (Excluir 0) tela_lista = Some (excluir 1 (JStr ''Ana'') tela_lista, db_exemplo)"
    by (simp add: tela_lista_eq agendamento_ana_def agendamento_json_def)
  note a = sincronizado_tela_lista d i h t
  show ?thesis using GerenciarTela.evento_sincroniza [OF a] a by simp
qed

theorem chaves_distintas_witness:
  "sincronizado tela_lista db_exemplo \<and> ids_distinct (clientes db_exemplo)
   \<and> tela_gerenciar tela_lista =
       Some \<lparr>cartoes = [(''1'', [''Ana'', ''Data: 10/01/2025'', ''Hora: 09:00'',
                                ''Servi'' @ [CHR 0xE7] @ ''o: Corte'', ''Valor: R$ 50,00''])],
             modal_edicao = None, modal_exclusao = None\<rparr>
   \<and> distinct (map fst [(''1'', [''Ana'', ''Data: 10/01/2025'', ''Hora: 09:00'',
                                ''Servi'' @ [CHR 0xE7] @ ''o: Corte'', ''Valor: R$ 50,00''])])"
proof -
  have d: "ids_distinct (clientes db_exemplo)" by (simp add: exemplo_defs ids_distinct_def)
  show ?thesis
    using GerenciarTela.chaves_distintas [OF sincronizado_tela_lista d tela_lista_render]
      sincronizado_tela_lista d tela_lista_render by simp
qed

theorem agenda_arquiva_toda_linha_witness:
  "linha_bem_formada agendamento_ana \<and> data agendamento_ana = SText ''2025-01-10''
   \<and> fst (valor_data ''2025-01-10'') < 9999
   \<and> 0 \<le> YearFromDay (Day 1736380800000 - 2) \<and> YearFromDay (Day 1736380800000 - 2) \<le> 9999
   \<and> (\<exists>n. agendamento_ana \<notin> set (clientes (arquivarAgendamentosConcluidos 0 (instante_execucao 1736380800000 n)
                                            DbOk io_ok db_exemplo))
         \<and> registro_concluido agendamento_ana (carimbo (io_ok agendamento_ana))
             \<in> set (concluidos (arquivarAgendamentosConcluidos 0 (instante_execucao 1736380800000 n)
                                 DbOk io_ok db_exemplo)))"
proof -
  have d: "Day 1736380800000 - 2 = 20095" by (simp add: Day_def msPerDay_def)
  have a: "linha_bem_formada agendamento_ana" "data agendamento_ana = SText ''2025-01-10''"
          "fst (valor_data ''2025-01-10'') < 9999"
          "0 \<le> YearFromDay (Day 1736380800000 - 2)" "YearFromDay (Day 1736380800000 - 2) \<le> 9999"
    by (simp_all add: d ano_20095 linha_bem_formada_def agendamento_ana_def dataRegex_def horaRegex_def
        is_digit_def valor_data_def num_digitos_def valor_digito_def)
  have e: "agendamento_ana \<in> set (clientes db_exemplo) \<and> ids_distinct (clientes db_exemplo)
           \<and> (\<forall>y. both_ok (io_ok y))"
    by (simp add: exemplo_defs ids_distinct_def both_ok_def)
  obtain n where "\<forall>s io. agendamento_ana \<in> set (clientes s) \<and> ids_distinct (clientes s) \<and> (\<forall>y. both_ok (io y)) \<longrightarrow>
           agendamento_ana \<notin> set (clientes (arquivarAgendamentosConcluidos 0 (instante_execucao 1736380800000 n) DbOk io s))
         \<and> registro_concluido agendamento_ana (carimbo (io agendamento_ana))
             \<in> set (concluidos (arquivarAgendamentosConcluidos 0 (instante_execucao 1736380800000 n) DbOk io s))"
    using DateOrder.agenda_arquiva_toda_linha [OF a, of 0] by blast
  then show ?thesis using a e by blast
qed

theorem listas_concordam_witness:
  "db_bem_formado db_exemplo
   \<and> tela_agenda (responseAgendamentos DbOk db_exemplo []) \<noteq> None
   \<and> tela_gerenciar (buscarAgendamentos DbOk db_exemplo gerenciar_inicial) \<noteq> None
   \<and> map_option (map fst) (tela_agenda (responseAgendamentos DbOk db_exemplo []))
       = map_option (\<lambda>t. map fst (cartoes t)) (tela_gerenciar (buscarAgendamentos DbOk db_exemplo gerenciar_inicial))"
proof -
  have p: "list_all (\<lambda>c. numero_sql (valor_orcamento c)) (clientes db_exemplo)"
    by (simp add: exemplo_defs)
  show ?thesis
    using Listas.listas_concordam [OF db_exemplo_bem_formado, of "[]" gerenciar_inicial]
      db_exemplo_bem_formado p by simp
qed

theorem validacao_formulario_witness:
  "nomeCliente form_preenchido = JStr ''Bruno''
   \<and> datasDisponiveis form_preenchido = [''2025-01-10'']
   \<and> horariosDisponiveis form_preenchido = [SText ''10:00:00'']
   \<and> validacao_navegador form_preenchido \<and> formulario_valido form_preenchido"
proof -
  have a: "nomeCliente form_preenchido = JStr ''Bruno''"
          "\<forall>d \<in> set (datasDisponiveis form_preenchido). d \<noteq> []"
          "\<forall>h \<in> set (horariosDisponiveis form_preenchido). \<exists>x. h = SText x \<and> x \<noteq> []"
          "\<forall>sv \<in> set (servicosDisponiveis form_preenchido). \<exists>x. nome sv = SText x \<and> x \<noteq> []"
    by (simp_all add: form_preenchido_def cadastro_inicial_def db_exemplo_def)
  have v: "formulario_valido form_preenchido"
    by (simp add: formulario_valido_def form_preenchido_def cadastro_inicial_def db_exemplo_def)
  show ?thesis using BookingTela.validacao_formulario [OF a] a v
    by (simp add: form_preenchido_def cadastro_inicial_def)
qed

theorem rotulo_data_formatarData_witness:
  "match_pattern dataRegex ''2025-01-10'' \<and> rotulo_data ''2025-01-10'' = ''10/01/2025''"
proof -
  have a: "match_pattern dataRegex ''2025-01-10''" by (simp add: dataRegex_def is_digit_def)
  have f: "formatarData ''2025-01-10'' = ''10/01/2025''" by (simp add: formatarData_def parte_def)
  show ?thesis using BookingTela.rotulo_data_formatarData [OF a] a f by simp
qed

theorem preco_inteiro_nas_listas_witness:
  "linha_bem_formada agendamento_ana \<and> valor_orcamento agendamento_ana = SNum (of_int 50)
   \<and> \<bar>50 :: int\<bar> < 10 ^ 21
   \<and> map_option last (renderItem_agenda (agendamento_json agendamento_ana)) = Some ''R$ 50.00''
   \<and> map_option last (renderItem_gerenciar (agendamento_json agendamento_ana)) = Some ''Valor: R$ 50,00''"
proof -
  have a: "linha_bem_formada agendamento_ana" "valor_orcamento agendamento_ana = SNum (of_int 50)"
          "\<bar>50 :: int\<bar> < 10 ^ 21"
    by (simp_all add: linha_bem_formada_def agendamento_ana_def dataRegex_def horaRegex_def is_digit_def)
  have j: "js_string_int 50 = ''50''" by (simp add: js_string_int_def digitos.simps digito_def)
  show ?thesis using Listas.preco_inteiro_nas_listas [OF a] a by (simp add: j)
qed

end
